theory Spec2Isabelle
  imports Main
begin

section \<open>Data model\<close>

text \<open>
  The \<open>Secret\<close> table of the migration (\<open>CREATE TABLE "Secret"\<close>). Instants are
  milliseconds since the epoch, as \<open>Date.now()\<close> and \<open>TIMESTAMP(3)\<close> have them.
  A nullable column is an option.
\<close>

record secret =
  secret_id :: string
  data :: string
  title :: "string option"
  maxViews :: int
  password :: "string option"
  allowed_ip :: "string option"
  preventBurn :: bool
  createdAt :: int
  expiresAt :: int
  user_id :: "string option"
  isPublic :: bool
  ipAddress :: string

text \<open>
  The part of the database the code under study touches: the \<open>Secret\<close> rows, in
  insertion order, and the \<open>Statistic\<close> row \<open>secrets_created\<close> (absent until the
  first upsert creates it).
\<close>

record db =
  secrets :: "secret list"
  secrets_created :: "int option"

text \<open>A thrown JavaScript error; the string is its \<open>message\<close>.\<close>

datatype js_error = Error string

text \<open>
  The server process as far as the bootstrap module can change it: the database it
  talks to, what it wrote with \<open>console.error\<close>, and the period of the interval timer
  once \<open>setInterval\<close> has been called.
\<close>

record proc =
  database :: db
  console :: "(js_error \<times> string) list"
  timer :: "nat option"

section \<open>The expiry sweeper (server/bootstrap.js)\<close>

text \<open>
  \<open>prisma.secret.deleteMany({ where: { expiresAt: { lte: now } } })\<close>. The store is an
  external collaborator: a call either fails with the error the store raises
  (\<open>Some e\<close>) and changes nothing, or removes every matching row.
\<close>

definition secret_deleteMany_lte :: "js_error option \<Rightarrow> int \<Rightarrow> db \<Rightarrow> js_error + db" where
  "secret_deleteMany_lte fault now d =
     (case fault of
        Some e \<Rightarrow> Inl e
      | None \<Rightarrow> Inr (d\<lparr>secrets := filter (\<lambda>s. \<not> expiresAt s \<le> now) (secrets d)\<rparr>))"

text \<open>
  \<open>dbCleaner\<close>: the \<open>try\<close> block awaits the delete, the \<open>catch\<close> block logs. The result
  is the outcome of the promise the async function returns: \<open>Inl\<close> a rejection, \<open>Inr\<close>
  the process after a normal return.
\<close>

definition dbCleaner :: "js_error option \<Rightarrow> int \<Rightarrow> proc \<Rightarrow> js_error + proc" where
  "dbCleaner fault now p =
     (case secret_deleteMany_lte fault now (database p) of
        Inr d' \<Rightarrow> Inr (p\<lparr>database := d'\<rparr>)
      | Inl err \<Rightarrow>
          Inr (p\<lparr>console := console p @ [(err, ''Nothing to delete from the database'')]\<rparr>))"

text \<open>
  \<open>main\<close>: after \<open>createAdminSettings\<close> and \<open>createRootUser\<close> (which succeed, or throw
  \<open>Some e\<close>) the sweeper is put on an interval timer of \<open>20 * 1000\<close> milliseconds; a
  failure of the initialisation is logged and no timer is set.
\<close>

definition main :: "js_error option \<Rightarrow> proc \<Rightarrow> proc" where
  "main init p =
     (case init of
        None \<Rightarrow> p\<lparr>timer := Some (20 * 1000)\<rparr>
      | Some error \<Rightarrow> p\<lparr>console := console p @ [(error, ''Failed to initialize application:'')]\<rparr>)"

text \<open>
  The timer's callback calls \<open>dbCleaner()\<close> once per tick. A tick is the instant
  \<open>new Date()\<close> reads and the fault, if any, the store raises at that tick. A rejected
  promise would be an unhandled rejection, which ends the process: the run stops with
  \<open>Inl\<close>.
\<close>

fun run_ticks :: "(js_error option \<times> int) list \<Rightarrow> proc \<Rightarrow> js_error + proc" where
  "run_ticks [] p = Inr p"
| "run_ticks ((fault, now) # ticks) p =
     (case dbCleaner fault now p of
        Inl e \<Rightarrow> Inl e
      | Inr p' \<Rightarrow> run_ticks ticks p')"

section \<open>Strings as JavaScript has them\<close>

text \<open>
  A string is a list of code units; the model covers the code units below 256. The
  helpers below are the library functions the handlers call, on that range.
\<close>

definition js_whitespace :: "char \<Rightarrow> bool" where
  \<comment> \<open>what \<open>String.prototype.trim\<close> strips: tab, line feed, vertical tab, form feed,
      carriage return, space, no-break space\<close>
  "js_whitespace c = ((of_char c :: nat) \<in> {9, 10, 11, 12, 13, 32, 160})"

definition trim :: "string \<Rightarrow> string" where
  "trim s = rev (dropWhile js_whitespace (rev (dropWhile js_whitespace s)))"

fun split_comma :: "string \<Rightarrow> string list" where
  \<comment> \<open>\<open>s.split(',')\<close>: the empty string gives one empty piece\<close>
  "split_comma [] = [[]]"
| "split_comma (c # cs) =
     (if c = CHR '','' then [] # split_comma cs
      else (case split_comma cs of
              w # ws \<Rightarrow> (c # w) # ws
            | [] \<Rightarrow> [[c]]))"

definition ascii_lower :: "char \<Rightarrow> char" where
  "ascii_lower c =
     (case map_of (zip ''ABCDEFGHIJKLMNOPQRSTUVWXYZ'' ''abcdefghijklmnopqrstuvwxyz'') c of
        Some l \<Rightarrow> l
      | None \<Rightarrow> c)"

definition line_terminator :: "char \<Rightarrow> bool" where
  \<comment> \<open>the characters \<open>.\<close> does not match, below 256\<close>
  "line_terminator c = ((of_char c :: nat) \<in> {10, 13})"

section \<open>The organization-email gate (restrict-organization-email handler)\<close>

text \<open>
  \<open>authenticationRegex.test(url)\<close> for \<open>/^\/api\/authentication\/signup.*$/i\<close>: the
  url starts with the literal, compared without regard to ASCII case, and no line
  terminator follows (\<open>$\<close> without the \<open>m\<close> flag is the end of the input).
\<close>

definition authenticationRegex_test :: "string \<Rightarrow> bool" where
  "authenticationRegex_test url =
     (let lit = ''/api/authentication/signup'' in
      map ascii_lower (take (length lit) url) = lit \<and>
      list_all (\<lambda>c. \<not> line_terminator c) (drop (length lit) url))"

definition errorMessage :: string where
  \<comment> \<open>the source's message ends in an emoji, here its four UTF-8 bytes\<close>
  "errorMessage =
     ''Access denied. You are not allowed create a user. '' @ [CHR 0xF0, CHR 0x9F, CHR 0xA5, CHR 0xB2]"

datatype gate_reply = Reply nat string

text \<open>The handler's \<open>allowedDomains\<close>: the setting split at commas, trimmed, empties dropped.\<close>

definition allowedDomains :: "string \<Rightarrow> string list" where
  "allowedDomains restrict =
     filter (\<lambda>domain. length domain > 0) (map trim (split_comma restrict))"

text \<open>
  \<open>restrictOrganizationEmailHandler(request, reply)\<close>. \<open>getEmailDomain\<close> is imported
  from \<open>shared/helpers/get-email-domain.js\<close> and is a parameter here; \<open>restrict\<close> is
  \<open>adminSettings.get('restrict_organization_email')\<close> (\<open>None\<close>: not set), \<open>body_email\<close>
  is \<open>request?.body?.email\<close>. The result is the reply sent, \<open>None\<close> when the hook
  returns without replying and the request goes on.
\<close>

definition restrictOrganizationEmailHandler ::
  "(string \<Rightarrow> string) \<Rightarrow> string option \<Rightarrow> string option \<Rightarrow> string \<Rightarrow> gate_reply option" where
  "restrictOrganizationEmailHandler getEmailDomain restrict body_email url =
     (let email = (case body_email of Some e \<Rightarrow> e | None \<Rightarrow> [])
      in case restrict of
           None \<Rightarrow> None
         | Some r \<Rightarrow>
             if r = [] \<or> \<not> authenticationRegex_test url then None
             else
               let userDomain = getEmailDomain email;
                   isAllowed = list_ex (\<lambda>domain. getEmailDomain domain = userDomain) (allowedDomains r)
               in if \<not> isAllowed then Some (Reply 403 errorMessage) else None)"

text \<open>A domain extractor for evaluating the gate: what follows the first \<open>@\<close>.\<close>

definition after_at :: "string \<Rightarrow> string" where
  "after_at e = (case dropWhile (\<lambda>c. c \<noteq> CHR ''@'') e of [] \<Rightarrow> e | _ # d \<Rightarrow> d)"

section \<open>The creation endpoints: requests, configuration, environment\<close>

text \<open>
  A JSON value, for the body properties that no schema lists, or only one of two
  schemas: \<open>preventBurn\<close> and \<open>showPassword\<close> of \<open>POST /generate\<close>. A number
  is an integer here; a fraction is treated by the code under study as every number
  other than 0 and 1 is.
\<close>

datatype jsval =
    JNull
  | JBool bool
  | JNum int
  | JStr string
  | JArray "jsval list"
  | JObject "(string \<times> jsval) list"

text \<open>
  What the handlers read with \<open>config.get\<close>, and the list \<open>VALID_TTL\<close> they import
  from \<open>server/helpers/validate-ttl.js\<close>, which is a parameter here.
\<close>

record config =
  maxViewsLimit :: int
  enableBurnAfterTime :: bool
  host :: string
  VALID_TTL :: "int list"

text \<open>What the handlers read of the request besides its body or query.\<close>

record conn =
  x_forwarded_proto :: "string option"
  x_forwarded_ssl :: "string option"
  host_header :: "string option"
  secure :: bool
  hostname :: "string option"
  request_user_id :: "string option"

text \<open>The options object passed to \<open>generate\<close> of the generate-password package.\<close>

record gen_opts =
  opt_length :: int
  opt_numbers :: bool
  opt_symbols :: bool
  opt_uppercase :: bool
  opt_lowercase :: bool
  opt_excludeSimilarCharacters :: bool
  opt_strict :: bool

text \<open>
  What one request gets from outside the handler: the clock, the key \<open>generateKey()\<close>
  returns, the password generator, \<open>encrypt\<close> and the base64 encoding of the key, the
  id and creation time the store gives the new row, the errors the two store calls
  raise if any, and \<open>formatDateToSydney\<close> (which depends on the time zone tables of the
  runtime).
\<close>

record env =
  date_now :: int
  generateKey :: string
  generate :: "gen_opts \<Rightarrow> string"
  encrypt :: "string \<Rightarrow> string \<Rightarrow> string"
  base64 :: "string \<Rightarrow> string"
  new_id :: string
  db_now :: int
  create_fault :: "js_error option"
  upsert_fault :: "js_error option"
  formatDateToSydney :: "int \<Rightarrow> string"

text \<open>
  The JSON body of \<open>POST /api/encrypt\<close>. Its schema lists every property the handler
  reads, with a type: a property is absent (\<open>None\<close>) or has the value the validator
  coerces it to. A body with a property that cannot be coerced to its type is answered
  400 by the validator and is not a value of this record.
\<close>

record encrypt_body =
  eb_password :: "string option"
  eb_ttl :: "int option"
  eb_maxViews :: "int option"
  eb_preventBurn :: "bool option"
  eb_title :: "string option"

text \<open>
  The JSON body of \<open>POST /api/password/generate\<close>. The schemas of the two versions
  list the first nine properties and \<open>title\<close> with the same types: each is absent or
  has the value the validator coerces it to, and a body in which one of them cannot be
  coerced is answered 400 by both versions alike and is not a value of this record.
  Neither schema lists \<open>preventBurn\<close> and only the second lists \<open>showPassword\<close>, so
  these two are any JSON value, as sent.
\<close>

record generate_body =
  gb_length :: "int option"
  gb_numbers :: "bool option"
  gb_symbols :: "bool option"
  gb_uppercase :: "bool option"
  gb_lowercase :: "bool option"
  gb_excludeSimilarCharacters :: "bool option"
  gb_strict :: "bool option"
  gb_ttl :: "int option"
  gb_maxViews :: "int option"
  gb_preventBurn :: "jsval option"
  gb_title :: "string option"
  gb_showPassword :: "jsval option"

text \<open>The query string of the two \<open>GET\<close> endpoints: every parameter is a string.\<close>

record query =
  q_password :: "string option"
  q_length :: "string option"
  q_numbers :: "string option"
  q_symbols :: "string option"
  q_uppercase :: "string option"
  q_lowercase :: "string option"
  q_excludeSimilarCharacters :: "string option"
  q_strict :: "string option"
  q_ttl :: "string option"
  q_maxViews :: "string option"
  q_preventBurn :: "string option"
  q_showPassword :: "string option"
  q_title :: "string option"

text \<open>
  The \<open>expiresAt\<close> of a response: the \<open>Date\<close> itself, or the string
  \<open>formatDateToSydney\<close> made of it.
\<close>

datatype expires_repr = DateValue int | SydneyString string

record success_body =
  resp_url :: string
  resp_secretId :: string
  resp_password :: "string option"
  resp_expiresAt :: expires_repr

text \<open>
  What the 400 of a failed schema validation names: the place in the request
  (\<open>body/maxViews\<close>) and the keyword that failed there, with its bound. The validator
  stops at the first failure.
\<close>

datatype keyword =
    Required string
  | Type string
  | Enum
  | Maximum int
  | Minimum int
  | MaxLength nat
  | MinLength nat
  | Pattern

datatype violation = Violation string keyword

text \<open>
  A reply: 400 from the schema validation that runs before the handler, 400 and 500
  from the handler with their \<open>error\<close> (and \<open>message\<close>), or 200.
\<close>

datatype reply =
    SchemaError violation
  | BadRequest string
  | ServerError string string
  | Ok200 success_body

fun reply_code :: "reply \<Rightarrow> nat" where
  "reply_code (SchemaError v) = 400"
| "reply_code (BadRequest e) = 400"
| "reply_code (ServerError e m) = 500"
| "reply_code (Ok200 b) = 200"

section \<open>The creation endpoints: library functions\<close>

definition dflt :: "'a option \<Rightarrow> 'a \<Rightarrow> 'a" where
  \<comment> \<open>a destructuring default: \<open>const { x = v } = ...\<close>\<close>
  "dflt x v = (case x of Some y \<Rightarrow> y | None \<Rightarrow> v)"

definition is_digit :: "char \<Rightarrow> bool" where
  "is_digit c = (c \<in> set ''0123456789'')"

definition digit_value :: "char \<Rightarrow> int" where
  "digit_value c = int (length (takeWhile (\<lambda>d. d \<noteq> c) ''0123456789''))"

definition digits_pattern :: "string \<Rightarrow> bool" where
  \<comment> \<open>the schema pattern \<open>^\d+$\<close>\<close>
  "digits_pattern s = (s \<noteq> [] \<and> list_all is_digit s)"

definition decimal :: "string \<Rightarrow> int" where
  "decimal ds = foldl (\<lambda>acc c. acc * 10 + digit_value c) 0 ds"

definition parseInt10 :: "string \<Rightarrow> int option" where
  \<comment> \<open>\<open>parseInt(s, 10)\<close>: leading white space, a sign, then the longest run of digits;
      \<open>None\<close> is \<open>NaN\<close>. The value is the exact integer; JavaScript's is the nearest
      double, the same below \<open>2^53\<close>.\<close>
  "parseInt10 s =
     (case dropWhile js_whitespace s of
        [] \<Rightarrow> None
      | c # cs \<Rightarrow>
          let ds = takeWhile is_digit (if c = CHR ''-'' \<or> c = CHR ''+'' then cs else c # cs)
          in if ds = [] then None
             else Some (if c = CHR ''-'' then - decimal ds else decimal ds))"

fun show_nat :: "nat \<Rightarrow> string" where
  "show_nat n =
     (if n < 10 then [''0123456789'' ! n]
      else show_nat (n div 10) @ [''0123456789'' ! (n mod 10)])"

definition show_int :: "int \<Rightarrow> string" where
  "show_int i = (if i < 0 then CHR ''-'' # show_nat (nat (- i)) else show_nat (nat i))"

fun join_comma :: "string list \<Rightarrow> string" where
  \<comment> \<open>\<open>xs.join(', ')\<close>\<close>
  "join_comma [] = []"
| "join_comma [x] = x"
| "join_comma (x # y # ys) = x @ '', '' @ join_comma (y # ys)"

fun str_includes :: "string \<Rightarrow> string \<Rightarrow> bool" where
  \<comment> \<open>\<open>s.includes(sub)\<close>\<close>
  "str_includes sub [] = (sub = [])"
| "str_includes sub (c # cs) = (take (length sub) (c # cs) = sub \<or> str_includes sub cs)"

definition startsWith :: "string \<Rightarrow> string \<Rightarrow> bool" where
  "startsWith pre s = (take (length pre) s = pre)"

definition or_else :: "string option \<Rightarrow> string \<Rightarrow> string" where
  \<comment> \<open>\<open>a || b\<close> for a string or \<open>undefined\<close>: the empty string is falsy\<close>
  "or_else a b = (case a of Some s \<Rightarrow> if s \<noteq> [] then s else b | None \<Rightarrow> b)"

definition enum_bool :: "string option \<Rightarrow> bool" where
  \<comment> \<open>the schema \<open>enum: ['true', 'false']\<close> on an optional parameter\<close>
  "enum_bool x = (case x of None \<Rightarrow> True | Some v \<Rightarrow> v = ''true'' \<or> v = ''false'')"

definition pattern_digits :: "string option \<Rightarrow> bool" where
  \<comment> \<open>the schema \<open>pattern: '^\\d+$'\<close> on an optional parameter\<close>
  "pattern_digits x = (case x of None \<Rightarrow> True | Some v \<Rightarrow> digits_pattern v)"

text \<open>
  The validator coerces a listed property to the type of its schema. To boolean: the
  strings \<open>true\<close> and \<open>false\<close>, the numbers 1 and 0, and \<open>null\<close>; an array of one
  item stands for the item.
\<close>

definition coerce_scalar_boolean :: "jsval \<Rightarrow> bool option" where
  "coerce_scalar_boolean v =
     (case v of
        JBool b \<Rightarrow> Some b
      | JStr s \<Rightarrow> if s = ''true'' then Some True else if s = ''false'' then Some False else None
      | JNum n \<Rightarrow> if n = 1 then Some True else if n = 0 then Some False else None
      | JNull \<Rightarrow> Some False
      | _ \<Rightarrow> None)"

definition coerce_boolean :: "jsval \<Rightarrow> bool option" where
  "coerce_boolean v =
     (case v of
        JArray [item] \<Rightarrow> coerce_scalar_boolean item
      | _ \<Rightarrow> coerce_scalar_boolean v)"

text \<open>
  The checks of the schema keywords the routes use. Each gives the violation it finds,
  if any; a keyword on an absent property without default passes.
\<close>

definition check_required :: "string \<Rightarrow> string \<Rightarrow> 'a option \<Rightarrow> violation option" where
  "check_required place name x =
     (case x of None \<Rightarrow> Some (Violation place (Required name)) | Some _ \<Rightarrow> None)"

definition check_enum :: "string \<Rightarrow> int list \<Rightarrow> int \<Rightarrow> violation option" where
  "check_enum place allowed x = (if x \<in> set allowed then None else Some (Violation place Enum))"

definition check_maximum :: "string \<Rightarrow> int \<Rightarrow> int \<Rightarrow> violation option" where
  "check_maximum place bound x =
     (if x \<le> bound then None else Some (Violation place (Maximum bound)))"

definition check_minimum :: "string \<Rightarrow> int \<Rightarrow> int \<Rightarrow> violation option" where
  "check_minimum place bound x =
     (if bound \<le> x then None else Some (Violation place (Minimum bound)))"

definition check_maxLength :: "string \<Rightarrow> nat \<Rightarrow> string option \<Rightarrow> violation option" where
  "check_maxLength place bound x =
     (case x of
        None \<Rightarrow> None
      | Some s \<Rightarrow> if length s \<le> bound then None else Some (Violation place (MaxLength bound)))"

definition check_minLength :: "string \<Rightarrow> nat \<Rightarrow> string option \<Rightarrow> violation option" where
  "check_minLength place bound x =
     (case x of
        None \<Rightarrow> None
      | Some s \<Rightarrow> if bound \<le> length s then None else Some (Violation place (MinLength bound)))"

definition check_pattern :: "string \<Rightarrow> string option \<Rightarrow> violation option" where
  \<comment> \<open>the one pattern of these schemas, \<open>^\d+$\<close>\<close>
  "check_pattern place x = (if pattern_digits x then None else Some (Violation place Pattern))"

definition check_enum_bool :: "string \<Rightarrow> string option \<Rightarrow> violation option" where
  "check_enum_bool place x = (if enum_bool x then None else Some (Violation place Enum))"

definition check_boolean :: "string \<Rightarrow> jsval option \<Rightarrow> violation option" where
  "check_boolean place x =
     (case x of
        None \<Rightarrow> None
      | Some v \<Rightarrow>
          (case coerce_boolean v of
             None \<Rightarrow> Some (Violation place (Type ''boolean''))
           | Some _ \<Rightarrow> None))"

fun first_violation :: "violation option list \<Rightarrow> violation option" where
  "first_violation [] = None"
| "first_violation (None # checks) = first_violation checks"
| "first_violation (Some v # checks) = Some v"

definition DEFAULT_EXPIRATION :: int where
  "DEFAULT_EXPIRATION = 60 * 60 * 24 * 1000"

fun message :: "js_error \<Rightarrow> string" where
  "message (Error m) = m"

section \<open>The creation endpoints: the store\<close>

text \<open>The \<open>data\<close> object given to \<open>prisma.secret.create\<close>; \<open>None\<close> is \<open>undefined\<close>.\<close>

record create_data =
  cd_title :: "string option"
  cd_maxViews :: int
  cd_preventBurn :: "jsval option"
  cd_data :: string
  cd_user_id :: "string option"
  cd_expiresAt :: int
  cd_ipAddress :: string

text \<open>
  \<open>prisma.secret.create\<close>: the row gets the id and \<open>createdAt\<close> the store provides and
  the column defaults of the migration for what \<open>data\<close> leaves out. The call throws
  when the store fails, and when \<open>preventBurn\<close> is given and is not a boolean (the
  client validates the argument against the column type).
\<close>

definition column_preventBurn :: "jsval option \<Rightarrow> bool option" where
  \<comment> \<open>the value of the column: the default \<open>false\<close>, the boolean given, or no value
      (\<open>None\<close>) for an argument that is not a boolean\<close>
  "column_preventBurn v =
     (case v of
        None \<Rightarrow> Some False
      | Some (JBool b) \<Rightarrow> Some b
      | Some _ \<Rightarrow> None)"

definition new_row :: "env \<Rightarrow> create_data \<Rightarrow> bool \<Rightarrow> secret" where
  "new_row ev cd pb =
     \<lparr>secret_id = new_id ev, data = cd_data cd, title = cd_title cd,
      maxViews = cd_maxViews cd, password = None, allowed_ip = None,
      preventBurn = pb, createdAt = db_now ev, expiresAt = cd_expiresAt cd,
      user_id = cd_user_id cd, isPublic = False, ipAddress = cd_ipAddress cd\<rparr>"

definition secret_create :: "env \<Rightarrow> create_data \<Rightarrow> db \<Rightarrow> js_error + (secret \<times> db)" where
  "secret_create ev cd d =
     (case create_fault ev of
        Some e \<Rightarrow> Inl e
      | None \<Rightarrow>
          (case column_preventBurn (cd_preventBurn cd) of
             None \<Rightarrow> Inl (Error ''Argument preventBurn: Invalid value provided. Expected Boolean.'')
           | Some pb \<Rightarrow>
               let row = new_row ev cd pb
               in Inr (row, d\<lparr>secrets := secrets d @ [row]\<rparr>)))"

text \<open>
  \<open>prisma.statistic.upsert\<close> on the row \<open>secrets_created\<close>: increment it, or create it
  with the column default 1.
\<close>

definition statistic_upsert :: "env \<Rightarrow> db \<Rightarrow> js_error + db" where
  "statistic_upsert ev d =
     (case upsert_fault ev of
        Some e \<Rightarrow> Inl e
      | None \<Rightarrow>
          Inr (d\<lparr>secrets_created :=
                   (case secrets_created d of None \<Rightarrow> Some 1 | Some v \<Rightarrow> Some (v + 1))\<rparr>))"

section \<open>The creation endpoints: what the six handlers share\<close>

text \<open>The block "Build the shareable URL", the same in every handler.\<close>

definition baseUrl :: "config \<Rightarrow> conn \<Rightarrow> string" where
  "baseUrl cfg cn =
     (let hostConfig = host cfg in
      if hostConfig = [] \<or> hostConfig = ''localhost'' \<or> hostConfig = ''!changeme!'' \<or>
         str_includes ''changeme'' hostConfig
      then
        let forwardedProto = x_forwarded_proto cn;
            isSecure = (secure cn \<or> x_forwarded_ssl cn = Some ''on'' \<or>
                        forwardedProto = Some ''https'');
            protocol = or_else forwardedProto (if isSecure then ''https'' else ''http'');
            h = or_else (host_header cn) (or_else (hostname cn) ''localhost:3000'')
        in protocol @ ''://'' @ h
      else if startsWith ''http'' hostConfig then hostConfig
      else ''https://'' @ hostConfig)"

definition shareableUrl :: "config \<Rightarrow> conn \<Rightarrow> env \<Rightarrow> secret \<Rightarrow> string \<Rightarrow> string" where
  "shareableUrl cfg cn ev s encryptionKey =
     baseUrl cfg cn @ ''/secret/'' @ secret_id s @ ''#'' @ base64 ev encryptionKey"

text \<open>
  The rest of each \<open>try\<close> block once the \<open>data\<close> object is built: create the row, count
  it, reply 200 with the body \<open>respond\<close> builds from the row and the url. An error of
  either store call is caught and answered with 500 and the handler's \<open>failure\<close> text;
  the row of a successful create stays when the count fails.
\<close>

definition try_store ::
  "config \<Rightarrow> conn \<Rightarrow> env \<Rightarrow> string \<Rightarrow> create_data \<Rightarrow> string \<Rightarrow>
   (secret \<Rightarrow> string \<Rightarrow> success_body) \<Rightarrow> db \<Rightarrow> reply \<times> db" where
  "try_store cfg cn ev encryptionKey cd failure respond d =
     (case secret_create ev cd d of
        Inl error \<Rightarrow> (ServerError failure (message error), d)
      | Inr (s, d1) \<Rightarrow>
          (case statistic_upsert ev d1 of
             Inl error \<Rightarrow> (ServerError failure (message error), d1)
           | Inr d2 \<Rightarrow> (Ok200 (respond s (shareableUrl cfg cn ev s encryptionKey)), d2)))"

text \<open>\<open>title ? encrypt(title, encryptionKey) : undefined\<close>\<close>

definition encrypt_title :: "env \<Rightarrow> string option \<Rightarrow> string \<Rightarrow> string option" where
  "encrypt_title ev t encryptionKey =
     (case t of
        Some s \<Rightarrow> if s \<noteq> [] then Some (encrypt ev s encryptionKey) else None
      | None \<Rightarrow> None)"

definition ttl_message :: "config \<Rightarrow> string" where
  "ttl_message cfg = ''TTL must be one of: '' @ join_comma (map show_int (VALID_TTL cfg))"

definition maxViews_message :: "int \<Rightarrow> string" where
  "maxViews_message limit = ''maxViews must be a number between 1 and '' @ show_int limit"

section \<open>POST /api/encrypt and GET /api/encrypt (encrypt controller)\<close>

text \<open>
  A route is its schema and its handler: a request that fails the schema is answered
  400 before the handler runs. The validator first puts the \<open>default\<close> of the schema in
  the place of an absent property and then validates it like a given one; it takes
  \<open>required\<close> before the properties, the properties in the order of the schema, and
  within a property \<open>enum\<close> before \<open>maximum\<close>, \<open>minimum\<close>, \<open>maxLength\<close>, \<open>minLength\<close>
  and \<open>pattern\<close>. The handlers follow the source statement by statement; a
  destructuring default is \<open>dflt\<close>, and \<open>parseInt\<close> of a property the schema has made
  an integer is that integer.
\<close>

definition schema_encrypt_post :: "config \<Rightarrow> encrypt_body \<Rightarrow> violation option" where
  "schema_encrypt_post cfg b =
     first_violation
       [check_required ''body'' ''password'' (eb_password b),
        check_minLength ''body/password'' 1 (eb_password b),
        check_enum ''body/ttl'' (VALID_TTL cfg) (dflt (eb_ttl b) 86400),
        check_minimum ''body/ttl'' 1 (dflt (eb_ttl b) 86400),
        check_maximum ''body/maxViews'' (maxViewsLimit cfg) (dflt (eb_maxViews b) 1),
        check_minimum ''body/maxViews'' 1 (dflt (eb_maxViews b) 1),
        check_maxLength ''body/title'' 255 (eb_title b)]"

definition encrypt_post :: "config \<Rightarrow> conn \<Rightarrow> env \<Rightarrow> encrypt_body \<Rightarrow> db \<Rightarrow> reply \<times> db" where
  "encrypt_post cfg cn ev b d =
     (case schema_encrypt_post cfg b of
        Some violation \<Rightarrow> (SchemaError violation, d)
      | None \<Rightarrow>
        let pw = dflt (eb_password b) [];
            ttl = dflt (eb_ttl b) 86400;
            maxViews_in = dflt (eb_maxViews b) 1;
            preventBurn_in = dflt (eb_preventBurn b) False
        in
        if pw = [] \<or> length (trim pw) = 0
        then (BadRequest ''Password is required and must be a non-empty string'', d)
        else
          let maxViewsNum = maxViews_in;
              limit = maxViewsLimit cfg
          in
          if maxViewsNum < 1 \<or> maxViewsNum > limit
          then (BadRequest (maxViews_message limit), d)
          else if \<not> enableBurnAfterTime cfg \<and> preventBurn_in = False
          then (BadRequest ''Burn after time feature is disabled for this instance'', d)
          else
            let finalPreventBurn = (if enableBurnAfterTime cfg then preventBurn_in else True);
                encryptionKey = generateKey ev;
                encryptedPassword = encrypt ev pw encryptionKey;
                encryptedTitle = encrypt_title ev (eb_title b) encryptionKey
            in
            try_store cfg cn ev encryptionKey
              \<lparr>cd_title = encryptedTitle,
               cd_maxViews = maxViewsNum,
               cd_preventBurn = Some (JBool finalPreventBurn),
               cd_data = encryptedPassword,
               cd_user_id = request_user_id cn,
               cd_expiresAt = date_now ev + (if ttl \<noteq> 0 then ttl * 1000 else DEFAULT_EXPIRATION),
               cd_ipAddress = []\<rparr>
              ''Failed to encrypt secret and create shareable link''
              (\<lambda>s shareable.
                 \<lparr>resp_url = shareable, resp_secretId = secret_id s, resp_password = None,
                  resp_expiresAt = SydneyString (formatDateToSydney ev (expiresAt s))\<rparr>)
              d)"

definition schema_encrypt_get :: "query \<Rightarrow> violation option" where
  "schema_encrypt_get q =
     first_violation
       [check_required ''querystring'' ''password'' (q_password q),
        check_pattern ''querystring/ttl'' (q_ttl q),
        check_pattern ''querystring/maxViews'' (q_maxViews q),
        check_enum_bool ''querystring/preventBurn'' (q_preventBurn q)]"

definition encrypt_get :: "config \<Rightarrow> conn \<Rightarrow> env \<Rightarrow> query \<Rightarrow> db \<Rightarrow> reply \<times> db" where
  "encrypt_get cfg cn ev q d =
     (case schema_encrypt_get q of
        Some violation \<Rightarrow> (SchemaError violation, d)
      | None \<Rightarrow>
        let pw = dflt (q_password q) [];
            ttl = dflt (q_ttl q) ''86400'';
            maxViews_in = dflt (q_maxViews q) ''1'';
            preventBurn_in = dflt (q_preventBurn q) ''false''
        in
        if pw = [] \<or> length (trim pw) = 0
        then (BadRequest ''Password is required and must be a non-empty string'', d)
        else
          (case parseInt10 ttl of
             None \<Rightarrow> (BadRequest (ttl_message cfg), d)
           | Some ttlNum \<Rightarrow>
               if ttlNum \<notin> set (VALID_TTL cfg) then (BadRequest (ttl_message cfg), d)
               else
                 let limit = maxViewsLimit cfg in
                 (case parseInt10 maxViews_in of
                    None \<Rightarrow> (BadRequest (maxViews_message limit), d)
                  | Some maxViewsNum \<Rightarrow>
                      if maxViewsNum < 1 \<or> maxViewsNum > limit
                      then (BadRequest (maxViews_message limit), d)
                      else
                        let preventBurnBool = (preventBurn_in = ''true'') in
                        if \<not> enableBurnAfterTime cfg \<and> \<not> preventBurnBool
                        then (BadRequest ''Burn after time feature is disabled for this instance'', d)
                        else
                          let finalPreventBurn =
                                (if enableBurnAfterTime cfg then preventBurnBool else True);
                              encryptionKey = generateKey ev;
                              encryptedPassword = encrypt ev pw encryptionKey;
                              encryptedTitle = encrypt_title ev (q_title q) encryptionKey
                          in
                          try_store cfg cn ev encryptionKey
                            \<lparr>cd_title = encryptedTitle,
                             cd_maxViews = maxViewsNum,
                             cd_preventBurn = Some (JBool finalPreventBurn),
                             cd_data = encryptedPassword,
                             cd_user_id = request_user_id cn,
                             cd_expiresAt = date_now ev + ttlNum * 1000,
                             cd_ipAddress = []\<rparr>
                            ''Failed to encrypt secret and create shareable link''
                            (\<lambda>s shareable.
                               \<lparr>resp_url = shareable, resp_secretId = secret_id s,
                                resp_password = None,
                                resp_expiresAt =
                                  SydneyString (formatDateToSydney ev (expiresAt s))\<rparr>)
                            d)))"

section \<open>POST and GET /api/password/generate, first version (password controller)\<close>

text \<open>
  The body schema of \<open>POST /generate\<close>. The two versions differ in the maximum of
  \<open>maxViews\<close>, which is the argument \<open>cap\<close>, and in that the second (\<open>v2\<close>) lists
  \<open>showPassword\<close> as a boolean, after \<open>title\<close>.
\<close>

definition schema_generate_post ::
  "config \<Rightarrow> int \<Rightarrow> bool \<Rightarrow> generate_body \<Rightarrow> violation option" where
  "schema_generate_post cfg cap v2 b =
     first_violation
       [check_maximum ''body/length'' 128 (dflt (gb_length b) 16),
        check_minimum ''body/length'' 4 (dflt (gb_length b) 16),
        check_enum ''body/ttl'' (VALID_TTL cfg) (dflt (gb_ttl b) 86400),
        check_minimum ''body/ttl'' 1 (dflt (gb_ttl b) 86400),
        check_maximum ''body/maxViews'' cap (dflt (gb_maxViews b) 1),
        check_minimum ''body/maxViews'' 1 (dflt (gb_maxViews b) 1),
        check_maxLength ''body/title'' 255 (gb_title b),
        (if v2 then check_boolean ''body/showPassword'' (gb_showPassword b) else None)]"

text \<open>
  \<open>showPassword\<close> as the second version's handler has it: the boolean the validator
  made of the property, \<open>false\<close> when the body has none.
\<close>

definition body_showPassword :: "generate_body \<Rightarrow> bool" where
  "body_showPassword b =
     (case gb_showPassword b of
        None \<Rightarrow> False
      | Some v \<Rightarrow> dflt (coerce_boolean v) False)"

definition charset_message :: string where
  "charset_message =
     ''At least one character set must be enabled (numbers, symbols, uppercase, or lowercase)''"

definition generate_failure :: string where
  "generate_failure = ''Failed to generate password and create secret''"

definition password_post_v1 ::
  "config \<Rightarrow> conn \<Rightarrow> env \<Rightarrow> generate_body \<Rightarrow> db \<Rightarrow> reply \<times> db" where
  "password_post_v1 cfg cn ev b d =
     (case schema_generate_post cfg 999 False b of
        Some violation \<Rightarrow> (SchemaError violation, d)
      | None \<Rightarrow>
        let len = dflt (gb_length b) 16;
            numbers = dflt (gb_numbers b) True;
            symbols = dflt (gb_symbols b) True;
            uppercase = dflt (gb_uppercase b) True;
            lowercase = dflt (gb_lowercase b) True;
            excludeSimilarCharacters = dflt (gb_excludeSimilarCharacters b) False;
            strict = dflt (gb_strict b) False;
            ttl = dflt (gb_ttl b) 86400;
            maxViews_in = dflt (gb_maxViews b) 1
        in
        if \<not> numbers \<and> \<not> symbols \<and> \<not> uppercase \<and> \<not> lowercase
        then (BadRequest charset_message, d)
        else if len < 4 \<or> len > 128
        then (BadRequest ''Password length must be between 4 and 128 characters'', d)
        else
          let generatedPassword =
                generate ev \<lparr>opt_length = len, opt_numbers = numbers, opt_symbols = symbols,
                             opt_uppercase = uppercase, opt_lowercase = lowercase,
                             opt_excludeSimilarCharacters = excludeSimilarCharacters,
                             opt_strict = strict\<rparr>;
              encryptionKey = generateKey ev;
              encryptedPassword = encrypt ev generatedPassword encryptionKey;
              encryptedTitle = encrypt_title ev (gb_title b) encryptionKey
          in
          try_store cfg cn ev encryptionKey
            \<lparr>cd_title = encryptedTitle,
             cd_maxViews = maxViews_in,
             cd_preventBurn = None,
             cd_data = encryptedPassword,
             cd_user_id = request_user_id cn,
             cd_expiresAt = date_now ev + (if ttl \<noteq> 0 then ttl * 1000 else DEFAULT_EXPIRATION),
             cd_ipAddress = []\<rparr>
            generate_failure
            (\<lambda>s shareable.
               \<lparr>resp_url = shareable, resp_secretId = secret_id s,
                resp_password = Some generatedPassword,
                resp_expiresAt = DateValue (expiresAt s)\<rparr>)
            d)"

text \<open>
  The query schema of \<open>GET /generate\<close>; the second version adds \<open>preventBurn\<close> and
  \<open>showPassword\<close> (\<open>v2\<close>).
\<close>

definition schema_generate_get :: "bool \<Rightarrow> query \<Rightarrow> violation option" where
  "schema_generate_get v2 q =
     first_violation
       [check_pattern ''querystring/length'' (q_length q),
        check_enum_bool ''querystring/numbers'' (q_numbers q),
        check_enum_bool ''querystring/symbols'' (q_symbols q),
        check_enum_bool ''querystring/uppercase'' (q_uppercase q),
        check_enum_bool ''querystring/lowercase'' (q_lowercase q),
        check_enum_bool ''querystring/excludeSimilarCharacters'' (q_excludeSimilarCharacters q),
        check_enum_bool ''querystring/strict'' (q_strict q),
        check_pattern ''querystring/ttl'' (q_ttl q),
        check_pattern ''querystring/maxViews'' (q_maxViews q),
        (if v2 then check_enum_bool ''querystring/preventBurn'' (q_preventBurn q) else None),
        (if v2 then check_enum_bool ''querystring/showPassword'' (q_showPassword q) else None)]"

definition lengthNum_of :: "string \<Rightarrow> int option" where
  \<comment> \<open>\<open>lengthNum\<close> when it passes \<open>isNaN(lengthNum) || lengthNum < 4 || lengthNum > 128\<close>,
      \<open>None\<close> when that test replies 400\<close>
  "lengthNum_of s =
     (case parseInt10 s of
        None \<Rightarrow> None
      | Some lengthNum \<Rightarrow> if lengthNum < 4 \<or> lengthNum > 128 then None else Some lengthNum)"

definition query_options :: "query \<Rightarrow> int \<Rightarrow> gen_opts" where
  \<comment> \<open>\<open>{ length: lengthNum, ...options }\<close>\<close>
  "query_options q lengthNum =
     \<lparr>opt_length = lengthNum,
      opt_numbers = (dflt (q_numbers q) ''true'' = ''true''),
      opt_symbols = (dflt (q_symbols q) ''true'' = ''true''),
      opt_uppercase = (dflt (q_uppercase q) ''true'' = ''true''),
      opt_lowercase = (dflt (q_lowercase q) ''true'' = ''true''),
      opt_excludeSimilarCharacters = (dflt (q_excludeSimilarCharacters q) ''false'' = ''true''),
      opt_strict = (dflt (q_strict q) ''false'' = ''true'')\<rparr>"

definition password_get_v1 :: "config \<Rightarrow> conn \<Rightarrow> env \<Rightarrow> query \<Rightarrow> db \<Rightarrow> reply \<times> db" where
  "password_get_v1 cfg cn ev q d =
     (case schema_generate_get False q of
        Some violation \<Rightarrow> (SchemaError violation, d)
      | None \<Rightarrow>
        let len = dflt (q_length q) ''16'';
            ttl = dflt (q_ttl q) ''86400'';
            maxViews_in = dflt (q_maxViews q) ''1''
        in
        case lengthNum_of len of
          None \<Rightarrow> (BadRequest ''Password length must be a number between 4 and 128'', d)
        | Some lengthNum \<Rightarrow>
          (case parseInt10 ttl of
             None \<Rightarrow> (BadRequest (ttl_message cfg), d)
           | Some ttlNum \<Rightarrow>
               if ttlNum \<notin> set (VALID_TTL cfg) then (BadRequest (ttl_message cfg), d)
               else
                 (case parseInt10 maxViews_in of
                    None \<Rightarrow> (BadRequest ''maxViews must be a number between 1 and 999'', d)
                  | Some maxViewsNum \<Rightarrow>
                      if maxViewsNum < 1 \<or> maxViewsNum > 999
                      then (BadRequest ''maxViews must be a number between 1 and 999'', d)
                      else
                        let options = query_options q lengthNum in
                        if \<not> opt_numbers options \<and> \<not> opt_symbols options \<and>
                           \<not> opt_uppercase options \<and> \<not> opt_lowercase options
                        then (BadRequest charset_message, d)
                        else
                          let generatedPassword = generate ev options;
                              encryptionKey = generateKey ev;
                              encryptedPassword = encrypt ev generatedPassword encryptionKey
                          in
                          try_store cfg cn ev encryptionKey
                            \<lparr>cd_title = None,
                             cd_maxViews = maxViewsNum,
                             cd_preventBurn = None,
                             cd_data = encryptedPassword,
                             cd_user_id = request_user_id cn,
                             cd_expiresAt = date_now ev + ttlNum * 1000,
                             cd_ipAddress = []\<rparr>
                            generate_failure
                            (\<lambda>s shareable.
                               \<lparr>resp_url = shareable, resp_secretId = secret_id s,
                                resp_password = Some generatedPassword,
                                resp_expiresAt = DateValue (expiresAt s)\<rparr>)
                            d)))"

section \<open>POST and GET /api/password/generate, second version (password controller)\<close>

definition password_post_v2 ::
  "config \<Rightarrow> conn \<Rightarrow> env \<Rightarrow> generate_body \<Rightarrow> db \<Rightarrow> reply \<times> db" where
  "password_post_v2 cfg cn ev b d =
     (case schema_generate_post cfg (maxViewsLimit cfg) True b of
        Some violation \<Rightarrow> (SchemaError violation, d)
      | None \<Rightarrow>
        let len = dflt (gb_length b) 16;
            numbers = dflt (gb_numbers b) True;
            symbols = dflt (gb_symbols b) True;
            uppercase = dflt (gb_uppercase b) True;
            lowercase = dflt (gb_lowercase b) True;
            excludeSimilarCharacters = dflt (gb_excludeSimilarCharacters b) False;
            strict = dflt (gb_strict b) False;
            ttl = dflt (gb_ttl b) 86400;
            maxViews_in = dflt (gb_maxViews b) 1;
            preventBurn_in = dflt (gb_preventBurn b) (JBool False);
            showPassword = body_showPassword b
        in
        if \<not> numbers \<and> \<not> symbols \<and> \<not> uppercase \<and> \<not> lowercase
        then (BadRequest charset_message, d)
        else if len < 4 \<or> len > 128
        then (BadRequest ''Password length must be between 4 and 128 characters'', d)
        else
          let maxViewsNum = maxViews_in;
              limit = maxViewsLimit cfg
          in
          if maxViewsNum < 1 \<or> maxViewsNum > limit
          then (BadRequest (maxViews_message limit), d)
          else if \<not> enableBurnAfterTime cfg \<and> preventBurn_in = JBool False
          then (BadRequest ''Burn after time feature is disabled for this instance'', d)
          else
            let finalPreventBurn =
                  (if enableBurnAfterTime cfg then preventBurn_in else JBool True);
                generatedPassword =
                  generate ev \<lparr>opt_length = len, opt_numbers = numbers, opt_symbols = symbols,
                               opt_uppercase = uppercase, opt_lowercase = lowercase,
                               opt_excludeSimilarCharacters = excludeSimilarCharacters,
                               opt_strict = strict\<rparr>;
                encryptionKey = generateKey ev;
                encryptedPassword = encrypt ev generatedPassword encryptionKey;
                encryptedTitle = encrypt_title ev (gb_title b) encryptionKey
            in
            try_store cfg cn ev encryptionKey
              \<lparr>cd_title = encryptedTitle,
               cd_maxViews = maxViewsNum,
               cd_preventBurn = Some finalPreventBurn,
               cd_data = encryptedPassword,
               cd_user_id = request_user_id cn,
               cd_expiresAt = date_now ev + (if ttl \<noteq> 0 then ttl * 1000 else DEFAULT_EXPIRATION),
               cd_ipAddress = []\<rparr>
              generate_failure
              (\<lambda>s shareable.
                 \<lparr>resp_url = shareable, resp_secretId = secret_id s,
                  resp_password = (if showPassword then Some generatedPassword else None),
                  resp_expiresAt = SydneyString (formatDateToSydney ev (expiresAt s))\<rparr>)
              d)"

definition password_get_v2 :: "config \<Rightarrow> conn \<Rightarrow> env \<Rightarrow> query \<Rightarrow> db \<Rightarrow> reply \<times> db" where
  "password_get_v2 cfg cn ev q d =
     (case schema_generate_get True q of
        Some violation \<Rightarrow> (SchemaError violation, d)
      | None \<Rightarrow>
        let len = dflt (q_length q) ''16'';
            ttl = dflt (q_ttl q) ''86400'';
            maxViews_in = dflt (q_maxViews q) ''1'';
            preventBurn_in = dflt (q_preventBurn q) ''false'';
            showPassword = dflt (q_showPassword q) ''false''
        in
        case lengthNum_of len of
          None \<Rightarrow> (BadRequest ''Password length must be a number between 4 and 128'', d)
        | Some lengthNum \<Rightarrow>
          (case parseInt10 ttl of
             None \<Rightarrow> (BadRequest (ttl_message cfg), d)
           | Some ttlNum \<Rightarrow>
               if ttlNum \<notin> set (VALID_TTL cfg) then (BadRequest (ttl_message cfg), d)
               else
                 let limit = maxViewsLimit cfg in
                 (case parseInt10 maxViews_in of
                    None \<Rightarrow> (BadRequest (maxViews_message limit), d)
                  | Some maxViewsNum \<Rightarrow>
                      if maxViewsNum < 1 \<or> maxViewsNum > limit
                      then (BadRequest (maxViews_message limit), d)
                      else
                        let preventBurnBool = (preventBurn_in = ''true'') in
                        if \<not> enableBurnAfterTime cfg \<and> \<not> preventBurnBool
                        then (BadRequest ''Burn after time feature is disabled for this instance'', d)
                        else
                          let finalPreventBurn =
                                (if enableBurnAfterTime cfg then preventBurnBool else True);
                              options = query_options q lengthNum
                          in
                          if \<not> opt_numbers options \<and> \<not> opt_symbols options \<and>
                             \<not> opt_uppercase options \<and> \<not> opt_lowercase options
                          then (BadRequest charset_message, d)
                          else
                            let generatedPassword = generate ev options;
                                encryptionKey = generateKey ev;
                                encryptedPassword = encrypt ev generatedPassword encryptionKey
                            in
                            try_store cfg cn ev encryptionKey
                              \<lparr>cd_title = None,
                               cd_maxViews = maxViewsNum,
                               cd_preventBurn = Some (JBool finalPreventBurn),
                               cd_data = encryptedPassword,
                               cd_user_id = request_user_id cn,
                               cd_expiresAt = date_now ev + ttlNum * 1000,
                               cd_ipAddress = []\<rparr>
                              generate_failure
                              (\<lambda>s shareable.
                                 \<lparr>resp_url = shareable, resp_secretId = secret_id s,
                                  resp_password =
                                    (if showPassword = ''true'' then Some generatedPassword
                                     else None),
                                  resp_expiresAt =
                                    SydneyString (formatDateToSydney ev (expiresAt s))\<rparr>)
                              d)))"

section \<open>The creation endpoints together\<close>

datatype request =
    EncryptPost encrypt_body
  | EncryptGet query
  | PasswordPostV1 generate_body
  | PasswordGetV1 query
  | PasswordPostV2 generate_body
  | PasswordGetV2 query

fun handle :: "config \<Rightarrow> conn \<Rightarrow> env \<Rightarrow> request \<Rightarrow> db \<Rightarrow> reply \<times> db" where
  "handle cfg cn ev (EncryptPost b) d = encrypt_post cfg cn ev b d"
| "handle cfg cn ev (EncryptGet q) d = encrypt_get cfg cn ev q d"
| "handle cfg cn ev (PasswordPostV1 b) d = password_post_v1 cfg cn ev b d"
| "handle cfg cn ev (PasswordGetV1 q) d = password_get_v1 cfg cn ev q d"
| "handle cfg cn ev (PasswordPostV2 b) d = password_post_v2 cfg cn ev b d"
| "handle cfg cn ev (PasswordGetV2 q) d = password_get_v2 cfg cn ev q d"

section \<open>What a request asks for\<close>

text \<open>
  The values the handlers compute from a request before they validate them, by route:
  \<open>maxViewsNum\<close> and the ttl in seconds (\<open>None\<close> is \<open>NaN\<close>), after the defaults for an
  absent property.
\<close>

fun requested_maxViews :: "request \<Rightarrow> int option" where
  "requested_maxViews (EncryptPost b) = Some (dflt (eb_maxViews b) 1)"
| "requested_maxViews (EncryptGet q) = parseInt10 (dflt (q_maxViews q) ''1'')"
| "requested_maxViews (PasswordPostV1 b) = Some (dflt (gb_maxViews b) 1)"
| "requested_maxViews (PasswordGetV1 q) = parseInt10 (dflt (q_maxViews q) ''1'')"
| "requested_maxViews (PasswordPostV2 b) = Some (dflt (gb_maxViews b) 1)"
| "requested_maxViews (PasswordGetV2 q) = parseInt10 (dflt (q_maxViews q) ''1'')"

fun requested_ttl :: "request \<Rightarrow> int option" where
  "requested_ttl (EncryptPost b) = Some (dflt (eb_ttl b) 86400)"
| "requested_ttl (EncryptGet q) = parseInt10 (dflt (q_ttl q) ''86400'')"
| "requested_ttl (PasswordPostV1 b) = Some (dflt (gb_ttl b) 86400)"
| "requested_ttl (PasswordGetV1 q) = parseInt10 (dflt (q_ttl q) ''86400'')"
| "requested_ttl (PasswordPostV2 b) = Some (dflt (gb_ttl b) 86400)"
| "requested_ttl (PasswordGetV2 q) = parseInt10 (dflt (q_ttl q) ''86400'')"

text \<open>
  The upper bound a route puts on \<open>maxViews\<close>: the literal 999 in the first version
  of the password controller, \<open>secret.maxViewsLimit\<close> elsewhere.
\<close>

fun views_cap :: "config \<Rightarrow> request \<Rightarrow> int" where
  "views_cap cfg (PasswordPostV1 b) = 999"
| "views_cap cfg (PasswordGetV1 q) = 999"
| "views_cap cfg (EncryptPost b) = maxViewsLimit cfg"
| "views_cap cfg (EncryptGet q) = maxViewsLimit cfg"
| "views_cap cfg (PasswordPostV2 b) = maxViewsLimit cfg"
| "views_cap cfg (PasswordGetV2 q) = maxViewsLimit cfg"

text \<open>The routes whose handler reads \<open>secret.enableBurnAfterTime\<close>.\<close>

fun consults_burn_policy :: "request \<Rightarrow> bool" where
  "consults_burn_policy (PasswordPostV1 b) = False"
| "consults_burn_policy (PasswordGetV1 q) = False"
| "consults_burn_policy (EncryptPost b) = True"
| "consults_burn_policy (EncryptGet q) = True"
| "consults_burn_policy (PasswordPostV2 b) = True"
| "consults_burn_policy (PasswordGetV2 q) = True"

text \<open>
  The second operand of the handlers' burn test: \<open>preventBurn === false\<close> on a body,
  \<open>!preventBurnBool\<close> on a query, after the default.
\<close>

fun preventBurn_is_false :: "request \<Rightarrow> bool" where
  "preventBurn_is_false (EncryptPost b) = (dflt (eb_preventBurn b) False = False)"
| "preventBurn_is_false (EncryptGet q) = (dflt (q_preventBurn q) ''false'' \<noteq> ''true'')"
| "preventBurn_is_false (PasswordPostV2 b) = (dflt (gb_preventBurn b) (JBool False) = JBool False)"
| "preventBurn_is_false (PasswordGetV2 q) = (dflt (q_preventBurn q) ''false'' \<noteq> ''true'')"
| "preventBurn_is_false (PasswordPostV1 b) = (dflt (gb_preventBurn b) (JBool False) = JBool False)"
| "preventBurn_is_false (PasswordGetV1 q) = (dflt (q_preventBurn q) ''false'' \<noteq> ''true'')"

text \<open>
  The text a route encrypts: the \<open>password\<close> of the request on the encrypt routes, the
  password \<open>generate\<close> returns for the request's options on the password routes
  (\<open>None\<close> when the request has no password, or a length that does not pass).
\<close>

definition body_options :: "generate_body \<Rightarrow> gen_opts" where
  "body_options b =
     \<lparr>opt_length = dflt (gb_length b) 16,
      opt_numbers = dflt (gb_numbers b) True,
      opt_symbols = dflt (gb_symbols b) True,
      opt_uppercase = dflt (gb_uppercase b) True,
      opt_lowercase = dflt (gb_lowercase b) True,
      opt_excludeSimilarCharacters = dflt (gb_excludeSimilarCharacters b) False,
      opt_strict = dflt (gb_strict b) False\<rparr>"

definition generated_for_query :: "env \<Rightarrow> query \<Rightarrow> string option" where
  "generated_for_query ev q =
     (case lengthNum_of (dflt (q_length q) ''16'') of
        None \<Rightarrow> None
      | Some lengthNum \<Rightarrow> Some (generate ev (query_options q lengthNum)))"

fun plaintext :: "env \<Rightarrow> request \<Rightarrow> string option" where
  "plaintext ev (EncryptPost b) = eb_password b"
| "plaintext ev (EncryptGet q) = q_password q"
| "plaintext ev (PasswordPostV1 b) = Some (generate ev (body_options b))"
| "plaintext ev (PasswordGetV1 q) = generated_for_query ev q"
| "plaintext ev (PasswordPostV2 b) = Some (generate ev (body_options b))"
| "plaintext ev (PasswordGetV2 q) = generated_for_query ev q"

text \<open>The title a route encrypts; the \<open>GET /generate\<close> handlers take none.\<close>

fun clear_title :: "request \<Rightarrow> string option" where
  "clear_title (EncryptPost b) = eb_title b"
| "clear_title (EncryptGet q) = q_title q"
| "clear_title (PasswordPostV1 b) = gb_title b"
| "clear_title (PasswordGetV1 q) = None"
| "clear_title (PasswordPostV2 b) = gb_title b"
| "clear_title (PasswordGetV2 q) = None"

text \<open>Whether the 200 reply of a route carries the text it encrypted.\<close>

fun shows_password :: "request \<Rightarrow> bool" where
  "shows_password (EncryptPost b) = False"
| "shows_password (EncryptGet q) = False"
| "shows_password (PasswordPostV1 b) = True"
| "shows_password (PasswordGetV1 q) = True"
| "shows_password (PasswordPostV2 b) = body_showPassword b"
| "shows_password (PasswordGetV2 q) = (dflt (q_showPassword q) ''false'' = ''true'')"

text \<open>The \<open>expiresAt\<close> of the 200 reply of a route.\<close>

fun shown_expiry :: "env \<Rightarrow> request \<Rightarrow> int \<Rightarrow> expires_repr" where
  "shown_expiry ev (PasswordPostV1 b) t = DateValue t"
| "shown_expiry ev (PasswordGetV1 q) t = DateValue t"
| "shown_expiry ev (EncryptPost b) t = SydneyString (formatDateToSydney ev t)"
| "shown_expiry ev (EncryptGet q) t = SydneyString (formatDateToSydney ev t)"
| "shown_expiry ev (PasswordPostV2 b) t = SydneyString (formatDateToSydney ev t)"
| "shown_expiry ev (PasswordGetV2 q) t = SydneyString (formatDateToSydney ev t)"


section \<open>View consumption\<close>

text \<open>
  Modelled from the spec: the view path (\<open>viewSecret\<close>, the ViewConsumer of section 4.2
  and the store operations \<open>atomicConsumeView\<close> and \<open>deleteIfExists\<close> of section 6) is
  not among the source files. The row below has the fields of the spec's Secret that
  consumption reads or writes: the opaque payload, the counter \<open>remainingViews\<close> and
  \<open>preventBurn\<close>.
\<close>

record view_row =
  ciphertext :: string
  remainingViews :: nat
  preventBurn_v :: bool

text \<open>
  Modelled from the spec: the result of \<open>atomicConsumeView(id)\<close>, "record | Exhausted |
  NotFound" (section 6).
\<close>

datatype consumed = Record view_row | RowExhausted | RowNotFound

text \<open>
  Modelled from the spec: \<open>atomicConsumeView\<close>, one atomic conditional update of the
  store: "decrement \<open>remainingViews\<close> by 1 and return the payload only if
  \<open>remainingViews > 0\<close>, in the same atomic step as the check" (section 4.2). The
  argument is what the store holds for the id, \<open>None\<close> for no row.
\<close>

definition atomicConsumeView :: "view_row option \<Rightarrow> consumed \<times> view_row option" where
  "atomicConsumeView stored =
     (case stored of
        None \<Rightarrow> (RowNotFound, None)
      | Some r \<Rightarrow>
          if remainingViews r > 0
          then let r' = r\<lparr>remainingViews := remainingViews r - 1\<rparr> in (Record r', Some r')
          else (RowExhausted, Some r))"

text \<open>
  Modelled from the spec: \<open>deleteIfExists(id) -> bool\<close> (section 6), "a missing row is
  not an error" (section 4.3).
\<close>

definition deleteIfExists :: "view_row option \<Rightarrow> bool \<times> view_row option" where
  "deleteIfExists stored = (stored \<noteq> None, None)"

text \<open>
  Modelled from the spec: the deny reasons a \<open>consume\<close> call can meet on a secret that
  has no password and has not expired (section 6), and the result of
  \<open>consume(id) -> SecretPayload | Deny(reason)\<close> (section 4.2).
\<close>

datatype deny = NotFound | Exhausted

datatype outcome = SecretPayload string | Deny deny

text \<open>
  Modelled from the spec: where one caller of \<open>consume\<close> stands. It has not reached the
  store yet; or its decrement brought the counter to 0 on a row without \<open>preventBurn\<close>
  and its "immediately following conditional delete" (section 4.2) is still to come; or
  it has returned.
\<close>

datatype phase = Calling | Deleting string | Returned outcome

text \<open>
  Modelled from the spec: the row of the one id all callers consume, the callers, and
  the number of physical deletions so far (calls of \<open>deleteIfExists\<close> that found the
  row).
\<close>

record view_state =
  stored_row :: "view_row option"
  callers :: "phase list"
  deletions :: nat

text \<open>
  Modelled from the spec: the next store round trip of caller \<open>i\<close>. "For a single id,
  all consume calls are linearized by the store's atomic conditional-update primitive"
  (section 5), so concurrent callers advance one atomic store call at a time, in any
  order.
\<close>

definition consume_step :: "nat \<Rightarrow> view_state \<Rightarrow> view_state" where
  "consume_step i st =
     (if i < length (callers st) then
        (case callers st ! i of
           Calling \<Rightarrow>
             (case atomicConsumeView (stored_row st) of
                (Record r', stored') \<Rightarrow>
                  st\<lparr>stored_row := stored',
                     callers := (callers st)
                       [i := if remainingViews r' = 0 \<and> \<not> preventBurn_v r'
                             then Deleting (ciphertext r')
                             else Returned (SecretPayload (ciphertext r'))]\<rparr>
              | (RowExhausted, stored') \<Rightarrow>
                  st\<lparr>stored_row := stored', callers := (callers st)[i := Returned (Deny Exhausted)]\<rparr>
              | (RowNotFound, stored') \<Rightarrow>
                  st\<lparr>stored_row := stored', callers := (callers st)[i := Returned (Deny NotFound)]\<rparr>)
         | Deleting payload \<Rightarrow>
             (case deleteIfExists (stored_row st) of
                (existed, stored') \<Rightarrow>
                  st\<lparr>stored_row := stored',
                     callers := (callers st)[i := Returned (SecretPayload payload)],
                     deletions := (if existed then deletions st + 1 else deletions st)\<rparr>)
         | Returned out \<Rightarrow> st)
      else st)"

text \<open>
  Modelled from the spec: an interleaving of the callers is the list of caller indices in
  the order in which their store calls take effect.
\<close>

fun run_schedule :: "nat list \<Rightarrow> view_state \<Rightarrow> view_state" where
  "run_schedule [] st = st"
| "run_schedule (i # sched) st = run_schedule sched (consume_step i st)"

text \<open>
  Modelled from the spec: a secret just created with \<open>maxViews = n\<close>
  ("\<open>remainingViews\<close>: initialized to \<open>maxViews\<close>", section 3) and \<open>k\<close> callers about to
  consume it.
\<close>

definition fresh_secret :: "string \<Rightarrow> nat \<Rightarrow> bool \<Rightarrow> nat \<Rightarrow> view_state" where
  "fresh_secret payload n pb k =
     \<lparr>stored_row = Some \<lparr>ciphertext = payload, remainingViews = n, preventBurn_v = pb\<rparr>,
      callers = replicate k Calling, deletions = 0\<rparr>"

text \<open>Classes of callers, for counting.\<close>

fun holds_payload :: "phase \<Rightarrow> bool" where
  "holds_payload (Deleting p) = True"
| "holds_payload (Returned (SecretPayload p)) = True"
| "holds_payload _ = False"

fun succeeded :: "phase \<Rightarrow> bool" where
  "succeeded (Returned (SecretPayload p)) = True"
| "succeeded _ = False"

fun denied :: "phase \<Rightarrow> bool" where
  "denied (Returned (Deny reason)) = True"
| "denied _ = False"

fun deleting :: "phase \<Rightarrow> bool" where
  "deleting (Deleting p) = True"
| "deleting _ = False"

fun returned :: "phase \<Rightarrow> bool" where
  "returned (Returned out) = True"
| "returned _ = False"

text \<open>How many store calls a caller still has to make, at most.\<close>


fun calls_left :: "phase \<Rightarrow> nat" where
  "calls_left Calling = 2"
| "calls_left (Deleting p) = 1"
| "calls_left (Returned out) = 0"

definition how_many :: "(phase \<Rightarrow> bool) \<Rightarrow> phase list \<Rightarrow> nat" where
  "how_many P cs = length (filter P cs)"

definition successes :: "view_state \<Rightarrow> nat" where
  "successes st = how_many succeeded (callers st)"

text \<open>
  The invariant of consumption: the callers that hold the payload and the views that
  remain add up to \<open>maxViews\<close>; the row is deleted at most once, by the one caller whose
  decrement reached 0; a caller is denied only once all views are taken.
\<close>

definition consume_inv :: "nat \<Rightarrow> bool \<Rightarrow> view_state \<Rightarrow> bool" where
  "consume_inv n pb st =
     (let h = how_many holds_payload (callers st);
          m = how_many deleting (callers st)
      in (case stored_row st of
            Some r \<Rightarrow> h + remainingViews r = n \<and> preventBurn_v r = pb \<and> deletions st = 0 \<and>
                      m = (if remainingViews r = 0 \<and> \<not> pb \<and> 0 < n then 1 else 0)
          | None \<Rightarrow> h = n \<and> 0 < n \<and> \<not> pb \<and> deletions st = 1 \<and> m = 0) \<and>
         (list_ex denied (callers st) \<longrightarrow> h = n))"

section \<open>Data for evaluation\<close>

text \<open>Rows and a process for evaluating the sweeper on concrete data.\<close>

definition sample_secret :: "string \<Rightarrow> int \<Rightarrow> bool \<Rightarrow> int \<Rightarrow> secret" where
  "sample_secret i n b t =
     \<lparr>secret_id = i, data = ''6f70617175652d626c6f62'', title = None, maxViews = n,
      password = None, allowed_ip = None, preventBurn = b, createdAt = 0, expiresAt = t,
      user_id = None, isPublic = False, ipAddress = []\<rparr>"

definition sample_proc :: proc where
  "sample_proc =
     \<lparr>database = \<lparr>secrets = [sample_secret ''a'' 5 True 300000,
                               sample_secret ''b'' 1 False 3600000,
                               sample_secret ''c'' 0 False 86400000],
                   secrets_created = Some 3\<rparr>,
      console = [], timer = Some 20000\<rparr>"

text \<open>
  A configuration, a connection and an environment for evaluating the handlers. The
  functions of the environment are stand-ins; those for \<open>encrypt\<close> and the base64
  encoding keep their arguments visible.
\<close>

definition sample_cfg :: config where
  "sample_cfg =
     \<lparr>maxViewsLimit = 100, enableBurnAfterTime = True, host = ''!changeme!'',
      VALID_TTL = [300, 3600, 86400, 604800, 1209600, 2419200]\<rparr>"

definition sample_conn :: conn where
  "sample_conn =
     \<lparr>x_forwarded_proto = None, x_forwarded_ssl = None, host_header = Some ''hemmelig.test'',
      secure = False, hostname = None, request_user_id = None\<rparr>"

definition sample_env :: env where
  "sample_env =
     \<lparr>date_now = 1700000000000,
      generateKey = ''KEY'',
      generate = (\<lambda>options. ''generated-password''),
      encrypt = (\<lambda>text k. ''enc('' @ text @ '','' @ k @ '')''),
      base64 = (\<lambda>k. ''b64('' @ k @ '')''),
      new_id = ''id1'',
      db_now = 1700000000007,
      create_fault = None,
      upsert_fault = None,
      formatDateToSydney = (\<lambda>t. ''sydney-time'')\<rparr>"

definition empty_db :: db where
  "empty_db = \<lparr>secrets = [], secrets_created = None\<rparr>"

definition no_body :: generate_body where
  \<comment> \<open>the body \<open>{}\<close>\<close>
  "no_body =
     \<lparr>gb_length = None, gb_numbers = None, gb_symbols = None, gb_uppercase = None,
      gb_lowercase = None, gb_excludeSimilarCharacters = None, gb_strict = None,
      gb_ttl = None, gb_maxViews = None, gb_preventBurn = None, gb_title = None,
      gb_showPassword = None\<rparr>"

definition no_query :: query where
  \<comment> \<open>the empty query string\<close>
  "no_query =
     \<lparr>q_password = None, q_length = None, q_numbers = None, q_symbols = None,
      q_uppercase = None, q_lowercase = None, q_excludeSimilarCharacters = None,
      q_strict = None, q_ttl = None, q_maxViews = None, q_preventBurn = None,
      q_showPassword = None, q_title = None\<rparr>"

definition only_password :: "string \<Rightarrow> encrypt_body" where
  \<comment> \<open>the body \<open>{ "password": p }\<close>\<close>
  "only_password p =
     \<lparr>eb_password = Some p, eb_ttl = None, eb_maxViews = None, eb_preventBurn = None,
      eb_title = None\<rparr>"

section \<open>The expiry sweeper: theorems\<close>

lemma dbCleaner_ok:
  "dbCleaner None now p =
     Inr (p\<lparr>database := (database p)\<lparr>secrets := filter (\<lambda>s. now < expiresAt s) (secrets (database p))\<rparr>\<rparr>)"
  by (simp add: dbCleaner_def secret_deleteMany_lte_def not_le)

lemma dbCleaner_fault:
  "dbCleaner (Some e) now p =
     Inr (p\<lparr>console := console p @ [(e, ''Nothing to delete from the database'')]\<rparr>)"
  by (simp add: dbCleaner_def secret_deleteMany_lte_def)

lemma dbCleaner_returns: "\<exists>p'. dbCleaner fault now p = Inr p'"
  by (cases fault) (simp_all add: dbCleaner_ok dbCleaner_fault)

lemma run_ticks_returns: "\<exists>p'. run_ticks ticks p = Inr p'"
proof (induction ticks arbitrary: p)
  case Nil
  show ?case by simp
next
  case (Cons t ticks)
  obtain fault now where t: "t = (fault, now)" by (cases t)
  obtain p1 where p1: "dbCleaner fault now p = Inr p1"
    using dbCleaner_returns by blast
  from Cons.IH [of p1] show ?case by (simp add: t p1)
qed

text \<open>
  Claim C5. The sweeper is scheduled with a period of 20 seconds (20000 ms), and a tick
  whose store call succeeds keeps exactly the rows with \<open>expiresAt > now\<close>, unchanged
  and in order, and removes every row with \<open>expiresAt \<le> now\<close>, whatever its
  \<open>maxViews\<close> and \<open>preventBurn\<close>; nothing else in the database changes.
\<close>

theorem sweeper_deletes_exactly_expired:
  "timer (main None p0) = Some (20 * 1000) \<and>
   (\<exists>p'. dbCleaner None now p = Inr p' \<and>
      secrets (database p') = filter (\<lambda>s. now < expiresAt s) (secrets (database p)) \<and>
      (\<forall>s. s \<in> set (secrets (database p')) \<longleftrightarrow>
             s \<in> set (secrets (database p)) \<and> \<not> expiresAt s \<le> now) \<and>
      (\<forall>s \<in> set (secrets (database p)). expiresAt s \<le> now \<longrightarrow>
             s \<notin> set (secrets (database p'))) \<and>
      (\<forall>s \<in> set (secrets (database p)). now < expiresAt s \<longrightarrow>
             s \<in> set (secrets (database p'))) \<and>
      secrets_created (database p') = secrets_created (database p) \<and>
      console p' = console p \<and> timer p' = timer p)"
  by (auto simp add: main_def dbCleaner_ok)

theorem sweeper_deletes_exactly_expired_witness:
  "timer (main None sample_proc) = Some 20000 \<and>
   (\<exists>p'. dbCleaner None 3600000 sample_proc = Inr p' \<and>
      secrets (database p') = [sample_secret ''c'' 0 False 86400000] \<and>
      sample_secret ''a'' 5 True 300000 \<notin> set (secrets (database p')) \<and>
      sample_secret ''b'' 1 False 3600000 \<notin> set (secrets (database p')))"
  using sweeper_deletes_exactly_expired [of sample_proc 3600000 sample_proc]
  by (auto simp add: sample_proc_def sample_secret_def)

text \<open>
  Claim C8. A store error raised during a sweep tick is caught and logged inside that
  tick: \<open>dbCleaner\<close> returns normally, the database (all that request handlers share
  with the sweeper) and the timer are as before, the log has one more line; a run of
  the timer over any sequence of ticks, faulty or not, never ends in a rejection; and
  the tick after a faulty one sweeps exactly as it would have without the fault.
\<close>

theorem sweeper_contains_store_errors:
  "(\<exists>p'. dbCleaner (Some e) now p = Inr p' \<and>
      database p' = database p \<and> timer p' = timer p \<and>
      console p' = console p @ [(e, ''Nothing to delete from the database'')] \<and>
      (\<exists>p''. dbCleaner None now2 p' = Inr p'' \<and>
         secrets (database p'') = filter (\<lambda>s. now2 < expiresAt s) (secrets (database p)) \<and>
         run_ticks [(Some e, now), (None, now2)] p = Inr p'')) \<and>
   (\<exists>q. run_ticks ticks p = Inr q)"
  using run_ticks_returns [of ticks p]
  by (simp add: dbCleaner_fault dbCleaner_ok)

theorem sweeper_contains_store_errors_witness:
  "\<exists>p''. run_ticks [(Some (Error ''connection refused''), 3600000), (None, 3620000)] sample_proc
           = Inr p'' \<and>
         secrets (database p'') = [sample_secret ''c'' 0 False 86400000] \<and>
         console p'' = [(Error ''connection refused'', ''Nothing to delete from the database'')]"
  using sweeper_contains_store_errors
    [of "Error ''connection refused''" 3600000 sample_proc 3620000 "[]"]
  by (auto simp add: sample_proc_def sample_secret_def dbCleaner_ok)

text \<open>
  Claim C9. The sweep is idempotent. A second run at the same instant returns the
  process the first run left; so does a second run at a later instant \<open>now2\<close> when no
  row expires between the two runs (no row has \<open>now1 < expiresAt \<le> now2\<close>). Neither
  run raises an error, whether or not the store fails.
\<close>

theorem sweep_idempotent:
  "(\<exists>p1. dbCleaner None now1 p = Inr p1 \<and>
      dbCleaner None now1 p1 = Inr p1 \<and>
      ((\<forall>s \<in> set (secrets (database p)). \<not> (now1 < expiresAt s \<and> expiresAt s \<le> now2)) \<longrightarrow>
         dbCleaner None now2 p1 = Inr p1)) \<and>
   (\<exists>p1 p2. dbCleaner f1 now1 p = Inr p1 \<and> dbCleaner f2 now2 p1 = Inr p2)"
proof -
  let ?keep = "filter (\<lambda>s. now1 < expiresAt s) (secrets (database p))"
  let ?p1 = "p\<lparr>database := (database p)\<lparr>secrets := ?keep\<rparr>\<rparr>"
  have first: "dbCleaner None now1 p = Inr ?p1"
    by (rule dbCleaner_ok)
  have second: "dbCleaner None now1 ?p1 = Inr ?p1"
    by (simp add: dbCleaner_ok)
  have later: "dbCleaner None now2 ?p1 = Inr ?p1"
    if quiet: "\<forall>s \<in> set (secrets (database p)). \<not> (now1 < expiresAt s \<and> expiresAt s \<le> now2)"
  proof -
    have "filter (\<lambda>s. now2 < expiresAt s) ?keep = ?keep"
      using quiet by (auto intro!: filter_cong simp add: not_le)
    then show ?thesis by (simp add: dbCleaner_ok)
  qed
  obtain q1 where q1: "dbCleaner f1 now1 p = Inr q1"
    using dbCleaner_returns by blast
  obtain q2 where q2: "dbCleaner f2 now2 q1 = Inr q2"
    using dbCleaner_returns by blast
  from first second later q1 q2 show ?thesis by blast
qed

theorem sweep_idempotent_witness:
  "filter (\<lambda>s. 3600000 < expiresAt s \<and> expiresAt s \<le> 3620000)
     (secrets (database sample_proc)) = [] \<and>
   (\<exists>p1. dbCleaner None 3600000 sample_proc = Inr p1 \<and>
      secrets (database p1) = [sample_secret ''c'' 0 False 86400000] \<and>
      dbCleaner None 3620000 p1 = Inr p1)"
proof -
  have quiet: "\<forall>s \<in> set (secrets (database sample_proc)).
      \<not> (3600000 < expiresAt s \<and> expiresAt s \<le> 3620000)"
    by (simp add: sample_proc_def sample_secret_def)
  from sweep_idempotent [of 3600000 sample_proc 3620000 None None] quiet
  show ?thesis
    by (auto simp add: dbCleaner_ok sample_proc_def sample_secret_def)
qed

section \<open>The organization-email gate: theorems\<close>

lemma authenticationRegex_view_path:
  "take 11 url = ''/api/secret'' \<Longrightarrow> \<not> authenticationRegex_test url"
proof
  assume pre: "take 11 url = ''/api/secret''" and m: "authenticationRegex_test url"
  have len: "length ''/api/authentication/signup'' = 26"
    by simp
  from m have "map ascii_lower (take 26 url) = ''/api/authentication/signup''"
    unfolding authenticationRegex_test_def Let_def len by (rule conjunct1)
  then have "take 11 (map ascii_lower (take 26 url)) = take 11 ''/api/authentication/signup''"
    by (rule arg_cong)
  moreover have "take 11 (map ascii_lower (take 26 url)) = map ascii_lower (take 11 url)"
    by (simp add: take_map)
  moreover have "take 11 ''/api/authentication/signup'' = ''/api/authen''"
    by simp
  ultimately have "map ascii_lower (take 11 url) = ''/api/authen''"
    by simp
  with pre show False
    by (simp add: ascii_lower_def)
qed

lemma list_ex_image: "list_ex (\<lambda>d. g d = u) ds \<longleftrightarrow> u \<in> g ` set ds"
  by (induction ds) auto

text \<open>
  Claim C7. The gate replies 403 exactly when the setting is set and non-empty, the url
  matches the signup pattern, and the domain of the request's email (the empty string
  when the body has none) is not among the domains of the comma-separated, trimmed,
  non-empty entries of the setting (\<open>allowedDomains\<close>). In every other case it sends nothing; in particular
  it sends nothing on a url that starts with \<open>/api/secret\<close>.
\<close>

theorem organization_email_gate:
  "(restrictOrganizationEmailHandler ged restrict body_email url = Some (Reply 403 errorMessage)
      \<longleftrightarrow>
    (\<exists>r. restrict = Some r \<and> r \<noteq> [] \<and> authenticationRegex_test url \<and>
         ged (case body_email of Some e \<Rightarrow> e | None \<Rightarrow> []) \<notin> ged ` set (allowedDomains r))) \<and>
   (restrictOrganizationEmailHandler ged restrict body_email url \<noteq> Some (Reply 403 errorMessage)
      \<longrightarrow> restrictOrganizationEmailHandler ged restrict body_email url = None) \<and>
   (take 11 url = ''/api/secret''
      \<longrightarrow> restrictOrganizationEmailHandler ged restrict body_email url = None)"
proof -
  have view: "take 11 url = ''/api/secret'' \<Longrightarrow> \<not> authenticationRegex_test url"
    by (rule authenticationRegex_view_path)
  show ?thesis
    using view
    by (cases restrict)
       (auto simp add: restrictOrganizationEmailHandler_def Let_def list_ex_image
             split: option.splits)
qed

theorem organization_email_gate_witness:
  "restrictOrganizationEmailHandler after_at (Some ''example.com, corp.example.org'')
      (Some ''mallory@evil.test'') ''/api/authentication/signup'' = Some (Reply 403 errorMessage) \<and>
   restrictOrganizationEmailHandler after_at (Some ''example.com, corp.example.org'')
      (Some ''alice@corp.example.org'') ''/API/Authentication/SignUp?x=1'' = None \<and>
   restrictOrganizationEmailHandler after_at (Some ''example.com, corp.example.org'')
      (Some ''mallory@evil.test'') ''/api/secret/abc123'' = None"
proof -
  have sp: "allowedDomains ''example.com, corp.example.org''
      = [''example.com'', ''corp.example.org'']"
    by (simp add: allowedDomains_def trim_def js_whitespace_def)
  have m1: "authenticationRegex_test ''/api/authentication/signup''"
    by (simp add: authenticationRegex_test_def ascii_lower_def)
  have m2: "authenticationRegex_test ''/API/Authentication/SignUp?x=1''"
    by (simp add: authenticationRegex_test_def ascii_lower_def line_terminator_def Let_def)
  have d1: "after_at ''mallory@evil.test'' = ''evil.test''"
    and d2: "after_at ''alice@corp.example.org'' = ''corp.example.org''"
    and d3: "after_at ''example.com'' = ''example.com''"
    and d4: "after_at ''corp.example.org'' = ''corp.example.org''"
    by (simp_all add: after_at_def)
  show ?thesis
    using organization_email_gate [of after_at "Some ''example.com, corp.example.org''"
            "Some ''mallory@evil.test''" "''/api/authentication/signup''"]
          organization_email_gate [of after_at "Some ''example.com, corp.example.org''"
            "Some ''alice@corp.example.org''" "''/API/Authentication/SignUp?x=1''"]
          organization_email_gate [of after_at "Some ''example.com, corp.example.org''"
            "Some ''mallory@evil.test''" "''/api/secret/abc123''"]
    by (simp add: sp m1 m2 d1 d2 d3 d4)
qed

section \<open>The creation endpoints: what a request leaves behind\<close>

lemma try_store_cases:
  assumes "try_store cfg cn ev k cd f respond d = (r, d')"
  obtains (failed) "secrets d' = secrets d" "reply_code r = 500"
  | (stored) pb where "column_preventBurn (cd_preventBurn cd) = Some pb"
      "secrets d' = secrets d @ [new_row ev cd pb]"
      "reply_code r = 500 \<or>
       r = Ok200 (respond (new_row ev cd pb) (shareableUrl cfg cn ev (new_row ev cd pb) k))"
  using assms
  by (auto simp add: try_store_def secret_create_def statistic_upsert_def Let_def
           split: option.splits sum.splits prod.splits)

lemma first_violation_None:
  "first_violation checks = None \<longleftrightarrow> list_all (\<lambda>c. c = None) checks"
  by (induction checks rule: first_violation.induct) simp_all

lemma schema_encrypt_post_facts:
  assumes "schema_encrypt_post cfg b = None"
  shows "dflt (eb_ttl b) 86400 \<noteq> 0"
    and "dflt (eb_ttl b) 86400 \<in> set (VALID_TTL cfg)"
  using assms
  by (auto simp add: schema_encrypt_post_def first_violation_None check_enum_def check_minimum_def
      split: if_splits)

lemma schema_encrypt_post_password:
  assumes "schema_encrypt_post cfg b = None"
  obtains p where "eb_password b = Some p" and "dflt (eb_password b) [] = p"
  using assms
  by (auto simp add: schema_encrypt_post_def first_violation_None check_required_def dflt_def
      split: option.splits)

lemma schema_encrypt_get_password:
  assumes "schema_encrypt_get q = None"
  obtains p where "q_password q = Some p" and "dflt (q_password q) [] = p"
  using assms
  by (auto simp add: schema_encrypt_get_def first_violation_None check_required_def dflt_def
      split: option.splits)

lemma schema_generate_post_facts:
  assumes "schema_generate_post cfg cap v2 b = None"
  shows "dflt (gb_ttl b) 86400 \<noteq> 0"
    and "dflt (gb_ttl b) 86400 \<in> set (VALID_TTL cfg)"
    and "1 \<le> dflt (gb_maxViews b) 1" and "dflt (gb_maxViews b) 1 \<le> cap"
  using assms
  by (auto simp add: schema_generate_post_def first_violation_None check_enum_def
      check_minimum_def check_maximum_def split: if_splits)

lemma encrypt_title_None: "encrypt_title ev None k = None"
  by (simp add: encrypt_title_def)

lemma encrypt_post_cases:
  assumes run: "encrypt_post cfg cn ev b d = (r, d')"
  obtains (rejected) "d' = d" "reply_code r = 400"
  | (admitted) 
      "schema_encrypt_post cfg b = None"
      "1 \<le> dflt (eb_maxViews b) 1"
      "dflt (eb_maxViews b) 1 \<le> maxViewsLimit cfg"
      "enableBurnAfterTime cfg \<or> dflt (eb_preventBurn b) False"
      "try_store cfg cn ev (generateKey ev)
         \<lparr>cd_title = encrypt_title ev (eb_title b) (generateKey ev), cd_maxViews = dflt (eb_maxViews b) 1, cd_preventBurn = Some (JBool (if enableBurnAfterTime cfg then dflt (eb_preventBurn b) False else True)),
          cd_data = encrypt ev (dflt (eb_password b) []) (generateKey ev),
          cd_user_id = request_user_id cn, cd_expiresAt = date_now ev + (if dflt (eb_ttl b) 86400 \<noteq> 0 then dflt (eb_ttl b) 86400 * 1000 else DEFAULT_EXPIRATION),
          cd_ipAddress = []\<rparr>
         ''Failed to encrypt secret and create shareable link''
         (\<lambda>s shareable.
            \<lparr>resp_url = shareable, resp_secretId = secret_id s, resp_password = None,
             resp_expiresAt = SydneyString (formatDateToSydney ev (expiresAt s))\<rparr>)
         d = (r, d')"
  using run
  by (auto simp add: encrypt_post_def Let_def split: if_splits option.splits)

lemma outcome_encrypt_post:
  assumes run: "handle cfg cn ev req d = (r, d')" and req: "req = EncryptPost b"
  shows "(d' = d \<and> reply_code r = 400) \<or>
   (\<exists>m t p. requested_maxViews req = Some m \<and> 1 \<le> m \<and> m \<le> views_cap cfg req \<and>
      requested_ttl req = Some t \<and> t \<in> set (VALID_TTL cfg) \<and>
      (consults_burn_policy req \<longrightarrow> enableBurnAfterTime cfg \<or> \<not> preventBurn_is_false req) \<and>
      plaintext ev req = Some p \<and>
      ((secrets d' = secrets d \<and> reply_code r = 500) \<or>
       (\<exists>pb. (consults_burn_policy req \<and> \<not> enableBurnAfterTime cfg \<longrightarrow> pb) \<and>
          (\<not> consults_burn_policy req \<longrightarrow> \<not> pb) \<and>
          secrets d' = secrets d @ [\<lparr>secret_id = new_id ev, data = encrypt ev p (generateKey ev),
                   title = encrypt_title ev (clear_title req) (generateKey ev), maxViews = m,
                   password = None, allowed_ip = None, preventBurn = pb,
                   createdAt = db_now ev, expiresAt = date_now ev + t * 1000,
                   user_id = request_user_id cn, isPublic = False, ipAddress = []\<rparr>] \<and>
          (reply_code r = 500 \<or>
           r = Ok200 \<lparr>resp_url = shareableUrl cfg cn ev \<lparr>secret_id = new_id ev, data = encrypt ev p (generateKey ev),
                   title = encrypt_title ev (clear_title req) (generateKey ev), maxViews = m,
                   password = None, allowed_ip = None, preventBurn = pb,
                   createdAt = db_now ev, expiresAt = date_now ev + t * 1000,
                   user_id = request_user_id cn, isPublic = False, ipAddress = []\<rparr> (generateKey ev),
                      resp_secretId = new_id ev,
                      resp_password = (if shows_password req then Some p else None),
                      resp_expiresAt = shown_expiry ev req (date_now ev + t * 1000)\<rparr>))))"
proof -
  from run req have "encrypt_post cfg cn ev b d = (r, d')" by simp
  then show ?thesis
  proof (cases rule: encrypt_post_cases)
    case rejected
    then show ?thesis by simp
  next
    case admitted
    from admitted(1) obtain p where p: "eb_password b = Some p" "dflt (eb_password b) [] = p"
      by (rule schema_encrypt_post_password)
    note f = schema_encrypt_post_facts [OF admitted(1)]
    have facts: "requested_maxViews req = Some (dflt (eb_maxViews b) 1) \<and> 1 \<le> (dflt (eb_maxViews b) 1) \<and> (dflt (eb_maxViews b) 1) \<le> views_cap cfg req \<and>
      requested_ttl req = Some (dflt (eb_ttl b) 86400) \<and> (dflt (eb_ttl b) 86400) \<in> set (VALID_TTL cfg) \<and>
      (consults_burn_policy req \<longrightarrow> enableBurnAfterTime cfg \<or> \<not> preventBurn_is_false req) \<and>
      plaintext ev req = Some p"
      using admitted(2-4) p f req by (simp add: generated_for_query_def body_options_def)
    have tail: "(secrets d' = secrets d \<and> reply_code r = 500) \<or>
       (\<exists>pb. (consults_burn_policy req \<and> \<not> enableBurnAfterTime cfg \<longrightarrow> pb) \<and>
          (\<not> consults_burn_policy req \<longrightarrow> \<not> pb) \<and>
          secrets d' = secrets d @ [\<lparr>secret_id = new_id ev, data = encrypt ev p (generateKey ev),
                   title = encrypt_title ev (clear_title req) (generateKey ev), maxViews = (dflt (eb_maxViews b) 1),
                   password = None, allowed_ip = None, preventBurn = pb,
                   createdAt = db_now ev, expiresAt = date_now ev + (dflt (eb_ttl b) 86400) * 1000,
                   user_id = request_user_id cn, isPublic = False, ipAddress = []\<rparr>] \<and>
          (reply_code r = 500 \<or>
           r = Ok200 \<lparr>resp_url = shareableUrl cfg cn ev \<lparr>secret_id = new_id ev, data = encrypt ev p (generateKey ev),
                   title = encrypt_title ev (clear_title req) (generateKey ev), maxViews = (dflt (eb_maxViews b) 1),
                   password = None, allowed_ip = None, preventBurn = pb,
                   createdAt = db_now ev, expiresAt = date_now ev + (dflt (eb_ttl b) 86400) * 1000,
                   user_id = request_user_id cn, isPublic = False, ipAddress = []\<rparr> (generateKey ev),
                      resp_secretId = new_id ev,
                      resp_password = (if shows_password req then Some p else None),
                      resp_expiresAt = shown_expiry ev req (date_now ev + (dflt (eb_ttl b) 86400) * 1000)\<rparr>))"
      using admitted(5)
    proof (cases rule: try_store_cases)
      case failed
      then show ?thesis by simp
    next
      case (stored pb)
      have policy: "(consults_burn_policy req \<and> \<not> enableBurnAfterTime cfg \<longrightarrow> pb) \<and>
          (\<not> consults_burn_policy req \<longrightarrow> \<not> pb)"
        using stored(1) req by (cases "enableBurnAfterTime cfg") (simp_all add: column_preventBurn_def)
      have row: "new_row ev
         \<lparr>cd_title = encrypt_title ev (eb_title b) (generateKey ev), cd_maxViews = dflt (eb_maxViews b) 1, cd_preventBurn = Some (JBool (if enableBurnAfterTime cfg then dflt (eb_preventBurn b) False else True)),
          cd_data = encrypt ev (dflt (eb_password b) []) (generateKey ev),
          cd_user_id = request_user_id cn, cd_expiresAt = date_now ev + (if dflt (eb_ttl b) 86400 \<noteq> 0 then dflt (eb_ttl b) 86400 * 1000 else DEFAULT_EXPIRATION),
          cd_ipAddress = []\<rparr> pb
        = \<lparr>secret_id = new_id ev, data = encrypt ev p (generateKey ev),
                   title = encrypt_title ev (clear_title req) (generateKey ev), maxViews = (dflt (eb_maxViews b) 1),
                   password = None, allowed_ip = None, preventBurn = pb,
                   createdAt = db_now ev, expiresAt = date_now ev + (dflt (eb_ttl b) 86400) * 1000,
                   user_id = request_user_id cn, isPublic = False, ipAddress = []\<rparr>"
        using p f req by (simp add: new_row_def encrypt_title_None)
      note kept = stored(2,3) [unfolded row]
      show ?thesis
        by (rule disjI2, rule exI [of _ pb]) (use policy kept req in simp)
    qed
    from facts tail have both: "requested_maxViews req = Some (dflt (eb_maxViews b) 1) \<and> 1 \<le> (dflt (eb_maxViews b) 1) \<and> (dflt (eb_maxViews b) 1) \<le> views_cap cfg req \<and>
      requested_ttl req = Some (dflt (eb_ttl b) 86400) \<and> (dflt (eb_ttl b) 86400) \<in> set (VALID_TTL cfg) \<and>
      (consults_burn_policy req \<longrightarrow> enableBurnAfterTime cfg \<or> \<not> preventBurn_is_false req) \<and>
      plaintext ev req = Some p \<and>
      ((secrets d' = secrets d \<and> reply_code r = 500) \<or>
       (\<exists>pb. (consults_burn_policy req \<and> \<not> enableBurnAfterTime cfg \<longrightarrow> pb) \<and>
          (\<not> consults_burn_policy req \<longrightarrow> \<not> pb) \<and>
          secrets d' = secrets d @ [\<lparr>secret_id = new_id ev, data = encrypt ev p (generateKey ev),
                   title = encrypt_title ev (clear_title req) (generateKey ev), maxViews = (dflt (eb_maxViews b) 1),
                   password = None, allowed_ip = None, preventBurn = pb,
                   createdAt = db_now ev, expiresAt = date_now ev + (dflt (eb_ttl b) 86400) * 1000,
                   user_id = request_user_id cn, isPublic = False, ipAddress = []\<rparr>] \<and>
          (reply_code r = 500 \<or>
           r = Ok200 \<lparr>resp_url = shareableUrl cfg cn ev \<lparr>secret_id = new_id ev, data = encrypt ev p (generateKey ev),
                   title = encrypt_title ev (clear_title req) (generateKey ev), maxViews = (dflt (eb_maxViews b) 1),
                   password = None, allowed_ip = None, preventBurn = pb,
                   createdAt = db_now ev, expiresAt = date_now ev + (dflt (eb_ttl b) 86400) * 1000,
                   user_id = request_user_id cn, isPublic = False, ipAddress = []\<rparr> (generateKey ev),
                      resp_secretId = new_id ev,
                      resp_password = (if shows_password req then Some p else None),
                      resp_expiresAt = shown_expiry ev req (date_now ev + (dflt (eb_ttl b) 86400) * 1000)\<rparr>)))"
      by (elim conjE) (intro conjI; assumption)
    show ?thesis
      by (rule disjI2, rule exI [of _ "(dflt (eb_maxViews b) 1)"], rule exI [of _ "(dflt (eb_ttl b) 86400)"], rule exI [of _ "p"])
         (rule both)
  qed
qed

lemma encrypt_get_cases:
  assumes run: "encrypt_get cfg cn ev q d = (r, d')"
  obtains (rejected) "d' = d" "reply_code r = 400"
  | (admitted) ttlNum maxViewsNum where
      "schema_encrypt_get q = None"
      "parseInt10 (dflt (q_ttl q) ''86400'') = Some ttlNum"
      "ttlNum \<in> set (VALID_TTL cfg)"
      "parseInt10 (dflt (q_maxViews q) ''1'') = Some maxViewsNum"
      "1 \<le> maxViewsNum"
      "maxViewsNum \<le> maxViewsLimit cfg"
      "enableBurnAfterTime cfg \<or> dflt (q_preventBurn q) ''false'' = ''true''"
      "try_store cfg cn ev (generateKey ev)
         \<lparr>cd_title = encrypt_title ev (q_title q) (generateKey ev), cd_maxViews = maxViewsNum, cd_preventBurn = Some (JBool (if enableBurnAfterTime cfg then dflt (q_preventBurn q) ''false'' = ''true'' else True)),
          cd_data = encrypt ev (dflt (q_password q) []) (generateKey ev),
          cd_user_id = request_user_id cn, cd_expiresAt = date_now ev + ttlNum * 1000,
          cd_ipAddress = []\<rparr>
         ''Failed to encrypt secret and create shareable link''
         (\<lambda>s shareable.
            \<lparr>resp_url = shareable, resp_secretId = secret_id s, resp_password = None,
             resp_expiresAt = SydneyString (formatDateToSydney ev (expiresAt s))\<rparr>)
         d = (r, d')"
  using run
  by (auto simp add: encrypt_get_def Let_def split: if_splits option.splits)

lemma outcome_encrypt_get:
  assumes run: "handle cfg cn ev req d = (r, d')" and req: "req = EncryptGet q"
  shows "(d' = d \<and> reply_code r = 400) \<or>
   (\<exists>m t p. requested_maxViews req = Some m \<and> 1 \<le> m \<and> m \<le> views_cap cfg req \<and>
      requested_ttl req = Some t \<and> t \<in> set (VALID_TTL cfg) \<and>
      (consults_burn_policy req \<longrightarrow> enableBurnAfterTime cfg \<or> \<not> preventBurn_is_false req) \<and>
      plaintext ev req = Some p \<and>
      ((secrets d' = secrets d \<and> reply_code r = 500) \<or>
       (\<exists>pb. (consults_burn_policy req \<and> \<not> enableBurnAfterTime cfg \<longrightarrow> pb) \<and>
          (\<not> consults_burn_policy req \<longrightarrow> \<not> pb) \<and>
          secrets d' = secrets d @ [\<lparr>secret_id = new_id ev, data = encrypt ev p (generateKey ev),
                   title = encrypt_title ev (clear_title req) (generateKey ev), maxViews = m,
                   password = None, allowed_ip = None, preventBurn = pb,
                   createdAt = db_now ev, expiresAt = date_now ev + t * 1000,
                   user_id = request_user_id cn, isPublic = False, ipAddress = []\<rparr>] \<and>
          (reply_code r = 500 \<or>
           r = Ok200 \<lparr>resp_url = shareableUrl cfg cn ev \<lparr>secret_id = new_id ev, data = encrypt ev p (generateKey ev),
                   title = encrypt_title ev (clear_title req) (generateKey ev), maxViews = m,
                   password = None, allowed_ip = None, preventBurn = pb,
                   createdAt = db_now ev, expiresAt = date_now ev + t * 1000,
                   user_id = request_user_id cn, isPublic = False, ipAddress = []\<rparr> (generateKey ev),
                      resp_secretId = new_id ev,
                      resp_password = (if shows_password req then Some p else None),
                      resp_expiresAt = shown_expiry ev req (date_now ev + t * 1000)\<rparr>))))"
proof -
  from run req have "encrypt_get cfg cn ev q d = (r, d')" by simp
  then show ?thesis
  proof (cases rule: encrypt_get_cases)
    case rejected
    then show ?thesis by simp
  next
    case (admitted ttlNum maxViewsNum)
    from admitted(1) obtain p where p: "q_password q = Some p" "dflt (q_password q) [] = p"
      by (rule schema_encrypt_get_password)
    have facts: "requested_maxViews req = Some maxViewsNum \<and> 1 \<le> maxViewsNum \<and> maxViewsNum \<le> views_cap cfg req \<and>
      requested_ttl req = Some ttlNum \<and> ttlNum \<in> set (VALID_TTL cfg) \<and>
      (consults_burn_policy req \<longrightarrow> enableBurnAfterTime cfg \<or> \<not> preventBurn_is_false req) \<and>
      plaintext ev req = Some p"
      using admitted(2-7) p req by (simp add: generated_for_query_def body_options_def)
    have tail: "(secrets d' = secrets d \<and> reply_code r = 500) \<or>
       (\<exists>pb. (consults_burn_policy req \<and> \<not> enableBurnAfterTime cfg \<longrightarrow> pb) \<and>
          (\<not> consults_burn_policy req \<longrightarrow> \<not> pb) \<and>
          secrets d' = secrets d @ [\<lparr>secret_id = new_id ev, data = encrypt ev p (generateKey ev),
                   title = encrypt_title ev (clear_title req) (generateKey ev), maxViews = maxViewsNum,
                   password = None, allowed_ip = None, preventBurn = pb,
                   createdAt = db_now ev, expiresAt = date_now ev + ttlNum * 1000,
                   user_id = request_user_id cn, isPublic = False, ipAddress = []\<rparr>] \<and>
          (reply_code r = 500 \<or>
           r = Ok200 \<lparr>resp_url = shareableUrl cfg cn ev \<lparr>secret_id = new_id ev, data = encrypt ev p (generateKey ev),
                   title = encrypt_title ev (clear_title req) (generateKey ev), maxViews = maxViewsNum,
                   password = None, allowed_ip = None, preventBurn = pb,
                   createdAt = db_now ev, expiresAt = date_now ev + ttlNum * 1000,
                   user_id = request_user_id cn, isPublic = False, ipAddress = []\<rparr> (generateKey ev),
                      resp_secretId = new_id ev,
                      resp_password = (if shows_password req then Some p else None),
                      resp_expiresAt = shown_expiry ev req (date_now ev + ttlNum * 1000)\<rparr>))"
      using admitted(8)
    proof (cases rule: try_store_cases)
      case failed
      then show ?thesis by simp
    next
      case (stored pb)
      have policy: "(consults_burn_policy req \<and> \<not> enableBurnAfterTime cfg \<longrightarrow> pb) \<and>
          (\<not> consults_burn_policy req \<longrightarrow> \<not> pb)"
        using stored(1) req by (cases "enableBurnAfterTime cfg") (simp_all add: column_preventBurn_def)
      have row: "new_row ev
         \<lparr>cd_title = encrypt_title ev (q_title q) (generateKey ev), cd_maxViews = maxViewsNum, cd_preventBurn = Some (JBool (if enableBurnAfterTime cfg then dflt (q_preventBurn q) ''false'' = ''true'' else True)),
          cd_data = encrypt ev (dflt (q_password q) []) (generateKey ev),
          cd_user_id = request_user_id cn, cd_expiresAt = date_now ev + ttlNum * 1000,
          cd_ipAddress = []\<rparr> pb
        = \<lparr>secret_id = new_id ev, data = encrypt ev p (generateKey ev),
                   title = encrypt_title ev (clear_title req) (generateKey ev), maxViews = maxViewsNum,
                   password = None, allowed_ip = None, preventBurn = pb,
                   createdAt = db_now ev, expiresAt = date_now ev + ttlNum * 1000,
                   user_id = request_user_id cn, isPublic = False, ipAddress = []\<rparr>"
        using p req by (simp add: new_row_def encrypt_title_None)
      note kept = stored(2,3) [unfolded row]
      show ?thesis
        by (rule disjI2, rule exI [of _ pb]) (use policy kept req in simp)
    qed
    from facts tail have both: "requested_maxViews req = Some maxViewsNum \<and> 1 \<le> maxViewsNum \<and> maxViewsNum \<le> views_cap cfg req \<and>
      requested_ttl req = Some ttlNum \<and> ttlNum \<in> set (VALID_TTL cfg) \<and>
      (consults_burn_policy req \<longrightarrow> enableBurnAfterTime cfg \<or> \<not> preventBurn_is_false req) \<and>
      plaintext ev req = Some p \<and>
      ((secrets d' = secrets d \<and> reply_code r = 500) \<or>
       (\<exists>pb. (consults_burn_policy req \<and> \<not> enableBurnAfterTime cfg \<longrightarrow> pb) \<and>
          (\<not> consults_burn_policy req \<longrightarrow> \<not> pb) \<and>
          secrets d' = secrets d @ [\<lparr>secret_id = new_id ev, data = encrypt ev p (generateKey ev),
                   title = encrypt_title ev (clear_title req) (generateKey ev), maxViews = maxViewsNum,
                   password = None, allowed_ip = None, preventBurn = pb,
                   createdAt = db_now ev, expiresAt = date_now ev + ttlNum * 1000,
                   user_id = request_user_id cn, isPublic = False, ipAddress = []\<rparr>] \<and>
          (reply_code r = 500 \<or>
           r = Ok200 \<lparr>resp_url = shareableUrl cfg cn ev \<lparr>secret_id = new_id ev, data = encrypt ev p (generateKey ev),
                   title = encrypt_title ev (clear_title req) (generateKey ev), maxViews = maxViewsNum,
                   password = None, allowed_ip = None, preventBurn = pb,
                   createdAt = db_now ev, expiresAt = date_now ev + ttlNum * 1000,
                   user_id = request_user_id cn, isPublic = False, ipAddress = []\<rparr> (generateKey ev),
                      resp_secretId = new_id ev,
                      resp_password = (if shows_password req then Some p else None),
                      resp_expiresAt = shown_expiry ev req (date_now ev + ttlNum * 1000)\<rparr>)))"
      by (elim conjE) (intro conjI; assumption)
    show ?thesis
      by (rule disjI2, rule exI [of _ "maxViewsNum"], rule exI [of _ "ttlNum"], rule exI [of _ "p"])
         (rule both)
  qed
qed

lemma password_post_v1_cases:
  assumes run: "password_post_v1 cfg cn ev b d = (r, d')"
  obtains (rejected) "d' = d" "reply_code r = 400"
  | (admitted) 
      "schema_generate_post cfg 999 False b = None"
      "try_store cfg cn ev (generateKey ev)
         \<lparr>cd_title = encrypt_title ev (gb_title b) (generateKey ev), cd_maxViews = dflt (gb_maxViews b) 1, cd_preventBurn = None,
          cd_data = encrypt ev (generate ev (body_options b)) (generateKey ev),
          cd_user_id = request_user_id cn, cd_expiresAt = date_now ev + (if dflt (gb_ttl b) 86400 \<noteq> 0 then dflt (gb_ttl b) 86400 * 1000 else DEFAULT_EXPIRATION),
          cd_ipAddress = []\<rparr>
         generate_failure
         (\<lambda>s shareable.
            \<lparr>resp_url = shareable, resp_secretId = secret_id s, resp_password = Some (generate ev (body_options b)),
             resp_expiresAt = DateValue (expiresAt s)\<rparr>)
         d = (r, d')"
  using run
  by (auto simp add: password_post_v1_def Let_def body_options_def split: if_splits option.splits)

lemma outcome_password_post_v1:
  assumes run: "handle cfg cn ev req d = (r, d')" and req: "req = PasswordPostV1 b"
  shows "(d' = d \<and> reply_code r = 400) \<or>
   (\<exists>m t p. requested_maxViews req = Some m \<and> 1 \<le> m \<and> m \<le> views_cap cfg req \<and>
      requested_ttl req = Some t \<and> t \<in> set (VALID_TTL cfg) \<and>
      (consults_burn_policy req \<longrightarrow> enableBurnAfterTime cfg \<or> \<not> preventBurn_is_false req) \<and>
      plaintext ev req = Some p \<and>
      ((secrets d' = secrets d \<and> reply_code r = 500) \<or>
       (\<exists>pb. (consults_burn_policy req \<and> \<not> enableBurnAfterTime cfg \<longrightarrow> pb) \<and>
          (\<not> consults_burn_policy req \<longrightarrow> \<not> pb) \<and>
          secrets d' = secrets d @ [\<lparr>secret_id = new_id ev, data = encrypt ev p (generateKey ev),
                   title = encrypt_title ev (clear_title req) (generateKey ev), maxViews = m,
                   password = None, allowed_ip = None, preventBurn = pb,
                   createdAt = db_now ev, expiresAt = date_now ev + t * 1000,
                   user_id = request_user_id cn, isPublic = False, ipAddress = []\<rparr>] \<and>
          (reply_code r = 500 \<or>
           r = Ok200 \<lparr>resp_url = shareableUrl cfg cn ev \<lparr>secret_id = new_id ev, data = encrypt ev p (generateKey ev),
                   title = encrypt_title ev (clear_title req) (generateKey ev), maxViews = m,
                   password = None, allowed_ip = None, preventBurn = pb,
                   createdAt = db_now ev, expiresAt = date_now ev + t * 1000,
                   user_id = request_user_id cn, isPublic = False, ipAddress = []\<rparr> (generateKey ev),
                      resp_secretId = new_id ev,
                      resp_password = (if shows_password req then Some p else None),
                      resp_expiresAt = shown_expiry ev req (date_now ev + t * 1000)\<rparr>))))"
proof -
  from run req have "password_post_v1 cfg cn ev b d = (r, d')" by simp
  then show ?thesis
  proof (cases rule: password_post_v1_cases)
    case rejected
    then show ?thesis by simp
  next
    case admitted
    note f = schema_generate_post_facts [OF admitted(1)]
    have facts: "requested_maxViews req = Some (dflt (gb_maxViews b) 1) \<and> 1 \<le> (dflt (gb_maxViews b) 1) \<and> (dflt (gb_maxViews b) 1) \<le> views_cap cfg req \<and>
      requested_ttl req = Some (dflt (gb_ttl b) 86400) \<and> (dflt (gb_ttl b) 86400) \<in> set (VALID_TTL cfg) \<and>
      (consults_burn_policy req \<longrightarrow> enableBurnAfterTime cfg \<or> \<not> preventBurn_is_false req) \<and>
      plaintext ev req = Some (generate ev (body_options b))"
      using  f req by (simp add: generated_for_query_def body_options_def)
    have tail: "(secrets d' = secrets d \<and> reply_code r = 500) \<or>
       (\<exists>pb. (consults_burn_policy req \<and> \<not> enableBurnAfterTime cfg \<longrightarrow> pb) \<and>
          (\<not> consults_burn_policy req \<longrightarrow> \<not> pb) \<and>
          secrets d' = secrets d @ [\<lparr>secret_id = new_id ev, data = encrypt ev (generate ev (body_options b)) (generateKey ev),
                   title = encrypt_title ev (clear_title req) (generateKey ev), maxViews = (dflt (gb_maxViews b) 1),
                   password = None, allowed_ip = None, preventBurn = pb,
                   createdAt = db_now ev, expiresAt = date_now ev + (dflt (gb_ttl b) 86400) * 1000,
                   user_id = request_user_id cn, isPublic = False, ipAddress = []\<rparr>] \<and>
          (reply_code r = 500 \<or>
           r = Ok200 \<lparr>resp_url = shareableUrl cfg cn ev \<lparr>secret_id = new_id ev, data = encrypt ev (generate ev (body_options b)) (generateKey ev),
                   title = encrypt_title ev (clear_title req) (generateKey ev), maxViews = (dflt (gb_maxViews b) 1),
                   password = None, allowed_ip = None, preventBurn = pb,
                   createdAt = db_now ev, expiresAt = date_now ev + (dflt (gb_ttl b) 86400) * 1000,
                   user_id = request_user_id cn, isPublic = False, ipAddress = []\<rparr> (generateKey ev),
                      resp_secretId = new_id ev,
                      resp_password = (if shows_password req then Some (generate ev (body_options b)) else None),
                      resp_expiresAt = shown_expiry ev req (date_now ev + (dflt (gb_ttl b) 86400) * 1000)\<rparr>))"
      using admitted(2)
    proof (cases rule: try_store_cases)
      case failed
      then show ?thesis by simp
    next
      case (stored pb)
      have policy: "(consults_burn_policy req \<and> \<not> enableBurnAfterTime cfg \<longrightarrow> pb) \<and>
          (\<not> consults_burn_policy req \<longrightarrow> \<not> pb)"
        using stored(1) req by (cases "enableBurnAfterTime cfg") (simp_all add: column_preventBurn_def)
      have row: "new_row ev
         \<lparr>cd_title = encrypt_title ev (gb_title b) (generateKey ev), cd_maxViews = dflt (gb_maxViews b) 1, cd_preventBurn = None,
          cd_data = encrypt ev (generate ev (body_options b)) (generateKey ev),
          cd_user_id = request_user_id cn, cd_expiresAt = date_now ev + (if dflt (gb_ttl b) 86400 \<noteq> 0 then dflt (gb_ttl b) 86400 * 1000 else DEFAULT_EXPIRATION),
          cd_ipAddress = []\<rparr> pb
        = \<lparr>secret_id = new_id ev, data = encrypt ev (generate ev (body_options b)) (generateKey ev),
                   title = encrypt_title ev (clear_title req) (generateKey ev), maxViews = (dflt (gb_maxViews b) 1),
                   password = None, allowed_ip = None, preventBurn = pb,
                   createdAt = db_now ev, expiresAt = date_now ev + (dflt (gb_ttl b) 86400) * 1000,
                   user_id = request_user_id cn, isPublic = False, ipAddress = []\<rparr>"
        using f req by (simp add: new_row_def encrypt_title_None)
      note kept = stored(2,3) [unfolded row]
      show ?thesis
        by (rule disjI2, rule exI [of _ pb]) (use policy kept req in simp)
    qed
    from facts tail have both: "requested_maxViews req = Some (dflt (gb_maxViews b) 1) \<and> 1 \<le> (dflt (gb_maxViews b) 1) \<and> (dflt (gb_maxViews b) 1) \<le> views_cap cfg req \<and>
      requested_ttl req = Some (dflt (gb_ttl b) 86400) \<and> (dflt (gb_ttl b) 86400) \<in> set (VALID_TTL cfg) \<and>
      (consults_burn_policy req \<longrightarrow> enableBurnAfterTime cfg \<or> \<not> preventBurn_is_false req) \<and>
      plaintext ev req = Some (generate ev (body_options b)) \<and>
      ((secrets d' = secrets d \<and> reply_code r = 500) \<or>
       (\<exists>pb. (consults_burn_policy req \<and> \<not> enableBurnAfterTime cfg \<longrightarrow> pb) \<and>
          (\<not> consults_burn_policy req \<longrightarrow> \<not> pb) \<and>
          secrets d' = secrets d @ [\<lparr>secret_id = new_id ev, data = encrypt ev (generate ev (body_options b)) (generateKey ev),
                   title = encrypt_title ev (clear_title req) (generateKey ev), maxViews = (dflt (gb_maxViews b) 1),
                   password = None, allowed_ip = None, preventBurn = pb,
                   createdAt = db_now ev, expiresAt = date_now ev + (dflt (gb_ttl b) 86400) * 1000,
                   user_id = request_user_id cn, isPublic = False, ipAddress = []\<rparr>] \<and>
          (reply_code r = 500 \<or>
           r = Ok200 \<lparr>resp_url = shareableUrl cfg cn ev \<lparr>secret_id = new_id ev, data = encrypt ev (generate ev (body_options b)) (generateKey ev),
                   title = encrypt_title ev (clear_title req) (generateKey ev), maxViews = (dflt (gb_maxViews b) 1),
                   password = None, allowed_ip = None, preventBurn = pb,
                   createdAt = db_now ev, expiresAt = date_now ev + (dflt (gb_ttl b) 86400) * 1000,
                   user_id = request_user_id cn, isPublic = False, ipAddress = []\<rparr> (generateKey ev),
                      resp_secretId = new_id ev,
                      resp_password = (if shows_password req then Some (generate ev (body_options b)) else None),
                      resp_expiresAt = shown_expiry ev req (date_now ev + (dflt (gb_ttl b) 86400) * 1000)\<rparr>)))"
      by (elim conjE) (intro conjI; assumption)
    show ?thesis
      by (rule disjI2, rule exI [of _ "(dflt (gb_maxViews b) 1)"], rule exI [of _ "(dflt (gb_ttl b) 86400)"], rule exI [of _ "(generate ev (body_options b))"])
         (rule both)
  qed
qed

lemma password_get_v1_cases:
  assumes run: "password_get_v1 cfg cn ev q d = (r, d')"
  obtains (rejected) "d' = d" "reply_code r = 400"
  | (admitted) lengthNum ttlNum maxViewsNum where
      "lengthNum_of (dflt (q_length q) ''16'') = Some lengthNum"
      "parseInt10 (dflt (q_ttl q) ''86400'') = Some ttlNum"
      "ttlNum \<in> set (VALID_TTL cfg)"
      "parseInt10 (dflt (q_maxViews q) ''1'') = Some maxViewsNum"
      "1 \<le> maxViewsNum"
      "maxViewsNum \<le> 999"
      "try_store cfg cn ev (generateKey ev)
         \<lparr>cd_title = None, cd_maxViews = maxViewsNum, cd_preventBurn = None,
          cd_data = encrypt ev (generate ev (query_options q lengthNum)) (generateKey ev),
          cd_user_id = request_user_id cn, cd_expiresAt = date_now ev + ttlNum * 1000,
          cd_ipAddress = []\<rparr>
         generate_failure
         (\<lambda>s shareable.
            \<lparr>resp_url = shareable, resp_secretId = secret_id s, resp_password = Some (generate ev (query_options q lengthNum)),
             resp_expiresAt = DateValue (expiresAt s)\<rparr>)
         d = (r, d')"
  using run
  by (auto simp add: password_get_v1_def Let_def split: if_splits option.splits)

lemma outcome_password_get_v1:
  assumes run: "handle cfg cn ev req d = (r, d')" and req: "req = PasswordGetV1 q"
  shows "(d' = d \<and> reply_code r = 400) \<or>
   (\<exists>m t p. requested_maxViews req = Some m \<and> 1 \<le> m \<and> m \<le> views_cap cfg req \<and>
      requested_ttl req = Some t \<and> t \<in> set (VALID_TTL cfg) \<and>
      (consults_burn_policy req \<longrightarrow> enableBurnAfterTime cfg \<or> \<not> preventBurn_is_false req) \<and>
      plaintext ev req = Some p \<and>
      ((secrets d' = secrets d \<and> reply_code r = 500) \<or>
       (\<exists>pb. (consults_burn_policy req \<and> \<not> enableBurnAfterTime cfg \<longrightarrow> pb) \<and>
          (\<not> consults_burn_policy req \<longrightarrow> \<not> pb) \<and>
          secrets d' = secrets d @ [\<lparr>secret_id = new_id ev, data = encrypt ev p (generateKey ev),
                   title = encrypt_title ev (clear_title req) (generateKey ev), maxViews = m,
                   password = None, allowed_ip = None, preventBurn = pb,
                   createdAt = db_now ev, expiresAt = date_now ev + t * 1000,
                   user_id = request_user_id cn, isPublic = False, ipAddress = []\<rparr>] \<and>
          (reply_code r = 500 \<or>
           r = Ok200 \<lparr>resp_url = shareableUrl cfg cn ev \<lparr>secret_id = new_id ev, data = encrypt ev p (generateKey ev),
                   title = encrypt_title ev (clear_title req) (generateKey ev), maxViews = m,
                   password = None, allowed_ip = None, preventBurn = pb,
                   createdAt = db_now ev, expiresAt = date_now ev + t * 1000,
                   user_id = request_user_id cn, isPublic = False, ipAddress = []\<rparr> (generateKey ev),
                      resp_secretId = new_id ev,
                      resp_password = (if shows_password req then Some p else None),
                      resp_expiresAt = shown_expiry ev req (date_now ev + t * 1000)\<rparr>))))"
proof -
  from run req have "password_get_v1 cfg cn ev q d = (r, d')" by simp
  then show ?thesis
  proof (cases rule: password_get_v1_cases)
    case rejected
    then show ?thesis by simp
  next
    case (admitted lengthNum ttlNum maxViewsNum)
    have facts: "requested_maxViews req = Some maxViewsNum \<and> 1 \<le> maxViewsNum \<and> maxViewsNum \<le> views_cap cfg req \<and>
      requested_ttl req = Some ttlNum \<and> ttlNum \<in> set (VALID_TTL cfg) \<and>
      (consults_burn_policy req \<longrightarrow> enableBurnAfterTime cfg \<or> \<not> preventBurn_is_false req) \<and>
      plaintext ev req = Some (generate ev (query_options q lengthNum))"
      using admitted(1-6) req by (simp add: generated_for_query_def body_options_def)
    have tail: "(secrets d' = secrets d \<and> reply_code r = 500) \<or>
       (\<exists>pb. (consults_burn_policy req \<and> \<not> enableBurnAfterTime cfg \<longrightarrow> pb) \<and>
          (\<not> consults_burn_policy req \<longrightarrow> \<not> pb) \<and>
          secrets d' = secrets d @ [\<lparr>secret_id = new_id ev, data = encrypt ev (generate ev (query_options q lengthNum)) (generateKey ev),
                   title = encrypt_title ev (clear_title req) (generateKey ev), maxViews = maxViewsNum,
                   password = None, allowed_ip = None, preventBurn = pb,
                   createdAt = db_now ev, expiresAt = date_now ev + ttlNum * 1000,
                   user_id = request_user_id cn, isPublic = False, ipAddress = []\<rparr>] \<and>
          (reply_code r = 500 \<or>
           r = Ok200 \<lparr>resp_url = shareableUrl cfg cn ev \<lparr>secret_id = new_id ev, data = encrypt ev (generate ev (query_options q lengthNum)) (generateKey ev),
                   title = encrypt_title ev (clear_title req) (generateKey ev), maxViews = maxViewsNum,
                   password = None, allowed_ip = None, preventBurn = pb,
                   createdAt = db_now ev, expiresAt = date_now ev + ttlNum * 1000,
                   user_id = request_user_id cn, isPublic = False, ipAddress = []\<rparr> (generateKey ev),
                      resp_secretId = new_id ev,
                      resp_password = (if shows_password req then Some (generate ev (query_options q lengthNum)) else None),
                      resp_expiresAt = shown_expiry ev req (date_now ev + ttlNum * 1000)\<rparr>))"
      using admitted(7)
    proof (cases rule: try_store_cases)
      case failed
      then show ?thesis by simp
    next
      case (stored pb)
      have policy: "(consults_burn_policy req \<and> \<not> enableBurnAfterTime cfg \<longrightarrow> pb) \<and>
          (\<not> consults_burn_policy req \<longrightarrow> \<not> pb)"
        using stored(1) req by (cases "enableBurnAfterTime cfg") (simp_all add: column_preventBurn_def)
      have row: "new_row ev
         \<lparr>cd_title = None, cd_maxViews = maxViewsNum, cd_preventBurn = None,
          cd_data = encrypt ev (generate ev (query_options q lengthNum)) (generateKey ev),
          cd_user_id = request_user_id cn, cd_expiresAt = date_now ev + ttlNum * 1000,
          cd_ipAddress = []\<rparr> pb
        = \<lparr>secret_id = new_id ev, data = encrypt ev (generate ev (query_options q lengthNum)) (generateKey ev),
                   title = encrypt_title ev (clear_title req) (generateKey ev), maxViews = maxViewsNum,
                   password = None, allowed_ip = None, preventBurn = pb,
                   createdAt = db_now ev, expiresAt = date_now ev + ttlNum * 1000,
                   user_id = request_user_id cn, isPublic = False, ipAddress = []\<rparr>"
        using req by (simp add: new_row_def encrypt_title_None)
      note kept = stored(2,3) [unfolded row]
      show ?thesis
        by (rule disjI2, rule exI [of _ pb]) (use policy kept req in simp)
    qed
    from facts tail have both: "requested_maxViews req = Some maxViewsNum \<and> 1 \<le> maxViewsNum \<and> maxViewsNum \<le> views_cap cfg req \<and>
      requested_ttl req = Some ttlNum \<and> ttlNum \<in> set (VALID_TTL cfg) \<and>
      (consults_burn_policy req \<longrightarrow> enableBurnAfterTime cfg \<or> \<not> preventBurn_is_false req) \<and>
      plaintext ev req = Some (generate ev (query_options q lengthNum)) \<and>
      ((secrets d' = secrets d \<and> reply_code r = 500) \<or>
       (\<exists>pb. (consults_burn_policy req \<and> \<not> enableBurnAfterTime cfg \<longrightarrow> pb) \<and>
          (\<not> consults_burn_policy req \<longrightarrow> \<not> pb) \<and>
          secrets d' = secrets d @ [\<lparr>secret_id = new_id ev, data = encrypt ev (generate ev (query_options q lengthNum)) (generateKey ev),
                   title = encrypt_title ev (clear_title req) (generateKey ev), maxViews = maxViewsNum,
                   password = None, allowed_ip = None, preventBurn = pb,
                   createdAt = db_now ev, expiresAt = date_now ev + ttlNum * 1000,
                   user_id = request_user_id cn, isPublic = False, ipAddress = []\<rparr>] \<and>
          (reply_code r = 500 \<or>
           r = Ok200 \<lparr>resp_url = shareableUrl cfg cn ev \<lparr>secret_id = new_id ev, data = encrypt ev (generate ev (query_options q lengthNum)) (generateKey ev),
                   title = encrypt_title ev (clear_title req) (generateKey ev), maxViews = maxViewsNum,
                   password = None, allowed_ip = None, preventBurn = pb,
                   createdAt = db_now ev, expiresAt = date_now ev + ttlNum * 1000,
                   user_id = request_user_id cn, isPublic = False, ipAddress = []\<rparr> (generateKey ev),
                      resp_secretId = new_id ev,
                      resp_password = (if shows_password req then Some (generate ev (query_options q lengthNum)) else None),
                      resp_expiresAt = shown_expiry ev req (date_now ev + ttlNum * 1000)\<rparr>)))"
      by (elim conjE) (intro conjI; assumption)
    show ?thesis
      by (rule disjI2, rule exI [of _ "maxViewsNum"], rule exI [of _ "ttlNum"], rule exI [of _ "(generate ev (query_options q lengthNum))"])
         (rule both)
  qed
qed

lemma password_post_v2_cases:
  assumes run: "password_post_v2 cfg cn ev b d = (r, d')"
  obtains (rejected) "d' = d" "reply_code r = 400"
  | (admitted) 
      "schema_generate_post cfg (maxViewsLimit cfg) True b = None"
      "enableBurnAfterTime cfg \<or> dflt (gb_preventBurn b) (JBool False) \<noteq> JBool False"
      "try_store cfg cn ev (generateKey ev)
         \<lparr>cd_title = encrypt_title ev (gb_title b) (generateKey ev), cd_maxViews = dflt (gb_maxViews b) 1, cd_preventBurn = Some (if enableBurnAfterTime cfg then dflt (gb_preventBurn b) (JBool False) else JBool True),
          cd_data = encrypt ev (generate ev (body_options b)) (generateKey ev),
          cd_user_id = request_user_id cn, cd_expiresAt = date_now ev + (if dflt (gb_ttl b) 86400 \<noteq> 0 then dflt (gb_ttl b) 86400 * 1000 else DEFAULT_EXPIRATION),
          cd_ipAddress = []\<rparr>
         generate_failure
         (\<lambda>s shareable.
            \<lparr>resp_url = shareable, resp_secretId = secret_id s, resp_password = (if body_showPassword b then Some (generate ev (body_options b)) else None),
             resp_expiresAt = SydneyString (formatDateToSydney ev (expiresAt s))\<rparr>)
         d = (r, d')"
  using run
  by (auto simp add: password_post_v2_def Let_def body_options_def split: if_splits option.splits)

lemma outcome_password_post_v2:
  assumes run: "handle cfg cn ev req d = (r, d')" and req: "req = PasswordPostV2 b"
  shows "(d' = d \<and> reply_code r = 400) \<or>
   (\<exists>m t p. requested_maxViews req = Some m \<and> 1 \<le> m \<and> m \<le> views_cap cfg req \<and>
      requested_ttl req = Some t \<and> t \<in> set (VALID_TTL cfg) \<and>
      (consults_burn_policy req \<longrightarrow> enableBurnAfterTime cfg \<or> \<not> preventBurn_is_false req) \<and>
      plaintext ev req = Some p \<and>
      ((secrets d' = secrets d \<and> reply_code r = 500) \<or>
       (\<exists>pb. (consults_burn_policy req \<and> \<not> enableBurnAfterTime cfg \<longrightarrow> pb) \<and>
          (\<not> consults_burn_policy req \<longrightarrow> \<not> pb) \<and>
          secrets d' = secrets d @ [\<lparr>secret_id = new_id ev, data = encrypt ev p (generateKey ev),
                   title = encrypt_title ev (clear_title req) (generateKey ev), maxViews = m,
                   password = None, allowed_ip = None, preventBurn = pb,
                   createdAt = db_now ev, expiresAt = date_now ev + t * 1000,
                   user_id = request_user_id cn, isPublic = False, ipAddress = []\<rparr>] \<and>
          (reply_code r = 500 \<or>
           r = Ok200 \<lparr>resp_url = shareableUrl cfg cn ev \<lparr>secret_id = new_id ev, data = encrypt ev p (generateKey ev),
                   title = encrypt_title ev (clear_title req) (generateKey ev), maxViews = m,
                   password = None, allowed_ip = None, preventBurn = pb,
                   createdAt = db_now ev, expiresAt = date_now ev + t * 1000,
                   user_id = request_user_id cn, isPublic = False, ipAddress = []\<rparr> (generateKey ev),
                      resp_secretId = new_id ev,
                      resp_password = (if shows_password req then Some p else None),
                      resp_expiresAt = shown_expiry ev req (date_now ev + t * 1000)\<rparr>))))"
proof -
  from run req have "password_post_v2 cfg cn ev b d = (r, d')" by simp
  then show ?thesis
  proof (cases rule: password_post_v2_cases)
    case rejected
    then show ?thesis by simp
  next
    case admitted
    note f = schema_generate_post_facts [OF admitted(1)]
    have facts: "requested_maxViews req = Some (dflt (gb_maxViews b) 1) \<and> 1 \<le> (dflt (gb_maxViews b) 1) \<and> (dflt (gb_maxViews b) 1) \<le> views_cap cfg req \<and>
      requested_ttl req = Some (dflt (gb_ttl b) 86400) \<and> (dflt (gb_ttl b) 86400) \<in> set (VALID_TTL cfg) \<and>
      (consults_burn_policy req \<longrightarrow> enableBurnAfterTime cfg \<or> \<not> preventBurn_is_false req) \<and>
      plaintext ev req = Some (generate ev (body_options b))"
      using admitted(2) f req by (simp add: generated_for_query_def body_options_def)
    have tail: "(secrets d' = secrets d \<and> reply_code r = 500) \<or>
       (\<exists>pb. (consults_burn_policy req \<and> \<not> enableBurnAfterTime cfg \<longrightarrow> pb) \<and>
          (\<not> consults_burn_policy req \<longrightarrow> \<not> pb) \<and>
          secrets d' = secrets d @ [\<lparr>secret_id = new_id ev, data = encrypt ev (generate ev (body_options b)) (generateKey ev),
                   title = encrypt_title ev (clear_title req) (generateKey ev), maxViews = (dflt (gb_maxViews b) 1),
                   password = None, allowed_ip = None, preventBurn = pb,
                   createdAt = db_now ev, expiresAt = date_now ev + (dflt (gb_ttl b) 86400) * 1000,
                   user_id = request_user_id cn, isPublic = False, ipAddress = []\<rparr>] \<and>
          (reply_code r = 500 \<or>
           r = Ok200 \<lparr>resp_url = shareableUrl cfg cn ev \<lparr>secret_id = new_id ev, data = encrypt ev (generate ev (body_options b)) (generateKey ev),
                   title = encrypt_title ev (clear_title req) (generateKey ev), maxViews = (dflt (gb_maxViews b) 1),
                   password = None, allowed_ip = None, preventBurn = pb,
                   createdAt = db_now ev, expiresAt = date_now ev + (dflt (gb_ttl b) 86400) * 1000,
                   user_id = request_user_id cn, isPublic = False, ipAddress = []\<rparr> (generateKey ev),
                      resp_secretId = new_id ev,
                      resp_password = (if shows_password req then Some (generate ev (body_options b)) else None),
                      resp_expiresAt = shown_expiry ev req (date_now ev + (dflt (gb_ttl b) 86400) * 1000)\<rparr>))"
      using admitted(3)
    proof (cases rule: try_store_cases)
      case failed
      then show ?thesis by simp
    next
      case (stored pb)
      have policy: "(consults_burn_policy req \<and> \<not> enableBurnAfterTime cfg \<longrightarrow> pb) \<and>
          (\<not> consults_burn_policy req \<longrightarrow> \<not> pb)"
        using stored(1) req by (cases "enableBurnAfterTime cfg") (simp_all add: column_preventBurn_def)
      have row: "new_row ev
         \<lparr>cd_title = encrypt_title ev (gb_title b) (generateKey ev), cd_maxViews = dflt (gb_maxViews b) 1, cd_preventBurn = Some (if enableBurnAfterTime cfg then dflt (gb_preventBurn b) (JBool False) else JBool True),
          cd_data = encrypt ev (generate ev (body_options b)) (generateKey ev),
          cd_user_id = request_user_id cn, cd_expiresAt = date_now ev + (if dflt (gb_ttl b) 86400 \<noteq> 0 then dflt (gb_ttl b) 86400 * 1000 else DEFAULT_EXPIRATION),
          cd_ipAddress = []\<rparr> pb
        = \<lparr>secret_id = new_id ev, data = encrypt ev (generate ev (body_options b)) (generateKey ev),
                   title = encrypt_title ev (clear_title req) (generateKey ev), maxViews = (dflt (gb_maxViews b) 1),
                   password = None, allowed_ip = None, preventBurn = pb,
                   createdAt = db_now ev, expiresAt = date_now ev + (dflt (gb_ttl b) 86400) * 1000,
                   user_id = request_user_id cn, isPublic = False, ipAddress = []\<rparr>"
        using f req by (simp add: new_row_def encrypt_title_None)
      note kept = stored(2,3) [unfolded row]
      show ?thesis
        by (rule disjI2, rule exI [of _ pb]) (use policy kept req in simp)
    qed
    from facts tail have both: "requested_maxViews req = Some (dflt (gb_maxViews b) 1) \<and> 1 \<le> (dflt (gb_maxViews b) 1) \<and> (dflt (gb_maxViews b) 1) \<le> views_cap cfg req \<and>
      requested_ttl req = Some (dflt (gb_ttl b) 86400) \<and> (dflt (gb_ttl b) 86400) \<in> set (VALID_TTL cfg) \<and>
      (consults_burn_policy req \<longrightarrow> enableBurnAfterTime cfg \<or> \<not> preventBurn_is_false req) \<and>
      plaintext ev req = Some (generate ev (body_options b)) \<and>
      ((secrets d' = secrets d \<and> reply_code r = 500) \<or>
       (\<exists>pb. (consults_burn_policy req \<and> \<not> enableBurnAfterTime cfg \<longrightarrow> pb) \<and>
          (\<not> consults_burn_policy req \<longrightarrow> \<not> pb) \<and>
          secrets d' = secrets d @ [\<lparr>secret_id = new_id ev, data = encrypt ev (generate ev (body_options b)) (generateKey ev),
                   title = encrypt_title ev (clear_title req) (generateKey ev), maxViews = (dflt (gb_maxViews b) 1),
                   password = None, allowed_ip = None, preventBurn = pb,
                   createdAt = db_now ev, expiresAt = date_now ev + (dflt (gb_ttl b) 86400) * 1000,
                   user_id = request_user_id cn, isPublic = False, ipAddress = []\<rparr>] \<and>
          (reply_code r = 500 \<or>
           r = Ok200 \<lparr>resp_url = shareableUrl cfg cn ev \<lparr>secret_id = new_id ev, data = encrypt ev (generate ev (body_options b)) (generateKey ev),
                   title = encrypt_title ev (clear_title req) (generateKey ev), maxViews = (dflt (gb_maxViews b) 1),
                   password = None, allowed_ip = None, preventBurn = pb,
                   createdAt = db_now ev, expiresAt = date_now ev + (dflt (gb_ttl b) 86400) * 1000,
                   user_id = request_user_id cn, isPublic = False, ipAddress = []\<rparr> (generateKey ev),
                      resp_secretId = new_id ev,
                      resp_password = (if shows_password req then Some (generate ev (body_options b)) else None),
                      resp_expiresAt = shown_expiry ev req (date_now ev + (dflt (gb_ttl b) 86400) * 1000)\<rparr>)))"
      by (elim conjE) (intro conjI; assumption)
    show ?thesis
      by (rule disjI2, rule exI [of _ "(dflt (gb_maxViews b) 1)"], rule exI [of _ "(dflt (gb_ttl b) 86400)"], rule exI [of _ "(generate ev (body_options b))"])
         (rule both)
  qed
qed

lemma password_get_v2_cases:
  assumes run: "password_get_v2 cfg cn ev q d = (r, d')"
  obtains (rejected) "d' = d" "reply_code r = 400"
  | (admitted) lengthNum ttlNum maxViewsNum where
      "lengthNum_of (dflt (q_length q) ''16'') = Some lengthNum"
      "parseInt10 (dflt (q_ttl q) ''86400'') = Some ttlNum"
      "ttlNum \<in> set (VALID_TTL cfg)"
      "parseInt10 (dflt (q_maxViews q) ''1'') = Some maxViewsNum"
      "1 \<le> maxViewsNum"
      "maxViewsNum \<le> maxViewsLimit cfg"
      "enableBurnAfterTime cfg \<or> dflt (q_preventBurn q) ''false'' = ''true''"
      "try_store cfg cn ev (generateKey ev)
         \<lparr>cd_title = None, cd_maxViews = maxViewsNum, cd_preventBurn = Some (JBool (if enableBurnAfterTime cfg then dflt (q_preventBurn q) ''false'' = ''true'' else True)),
          cd_data = encrypt ev (generate ev (query_options q lengthNum)) (generateKey ev),
          cd_user_id = request_user_id cn, cd_expiresAt = date_now ev + ttlNum * 1000,
          cd_ipAddress = []\<rparr>
         generate_failure
         (\<lambda>s shareable.
            \<lparr>resp_url = shareable, resp_secretId = secret_id s, resp_password = (if dflt (q_showPassword q) ''false'' = ''true'' then Some (generate ev (query_options q lengthNum)) else None),
             resp_expiresAt = SydneyString (formatDateToSydney ev (expiresAt s))\<rparr>)
         d = (r, d')"
  using run
  by (auto simp add: password_get_v2_def Let_def split: if_splits option.splits)

lemma outcome_password_get_v2:
  assumes run: "handle cfg cn ev req d = (r, d')" and req: "req = PasswordGetV2 q"
  shows "(d' = d \<and> reply_code r = 400) \<or>
   (\<exists>m t p. requested_maxViews req = Some m \<and> 1 \<le> m \<and> m \<le> views_cap cfg req \<and>
      requested_ttl req = Some t \<and> t \<in> set (VALID_TTL cfg) \<and>
      (consults_burn_policy req \<longrightarrow> enableBurnAfterTime cfg \<or> \<not> preventBurn_is_false req) \<and>
      plaintext ev req = Some p \<and>
      ((secrets d' = secrets d \<and> reply_code r = 500) \<or>
       (\<exists>pb. (consults_burn_policy req \<and> \<not> enableBurnAfterTime cfg \<longrightarrow> pb) \<and>
          (\<not> consults_burn_policy req \<longrightarrow> \<not> pb) \<and>
          secrets d' = secrets d @ [\<lparr>secret_id = new_id ev, data = encrypt ev p (generateKey ev),
                   title = encrypt_title ev (clear_title req) (generateKey ev), maxViews = m,
                   password = None, allowed_ip = None, preventBurn = pb,
                   createdAt = db_now ev, expiresAt = date_now ev + t * 1000,
                   user_id = request_user_id cn, isPublic = False, ipAddress = []\<rparr>] \<and>
          (reply_code r = 500 \<or>
           r = Ok200 \<lparr>resp_url = shareableUrl cfg cn ev \<lparr>secret_id = new_id ev, data = encrypt ev p (generateKey ev),
                   title = encrypt_title ev (clear_title req) (generateKey ev), maxViews = m,
                   password = None, allowed_ip = None, preventBurn = pb,
                   createdAt = db_now ev, expiresAt = date_now ev + t * 1000,
                   user_id = request_user_id cn, isPublic = False, ipAddress = []\<rparr> (generateKey ev),
                      resp_secretId = new_id ev,
                      resp_password = (if shows_password req then Some p else None),
                      resp_expiresAt = shown_expiry ev req (date_now ev + t * 1000)\<rparr>))))"
proof -
  from run req have "password_get_v2 cfg cn ev q d = (r, d')" by simp
  then show ?thesis
  proof (cases rule: password_get_v2_cases)
    case rejected
    then show ?thesis by simp
  next
    case (admitted lengthNum ttlNum maxViewsNum)
    have facts: "requested_maxViews req = Some maxViewsNum \<and> 1 \<le> maxViewsNum \<and> maxViewsNum \<le> views_cap cfg req \<and>
      requested_ttl req = Some ttlNum \<and> ttlNum \<in> set (VALID_TTL cfg) \<and>
      (consults_burn_policy req \<longrightarrow> enableBurnAfterTime cfg \<or> \<not> preventBurn_is_false req) \<and>
      plaintext ev req = Some (generate ev (query_options q lengthNum))"
      using admitted(1-7) req by (simp add: generated_for_query_def body_options_def)
    have tail: "(secrets d' = secrets d \<and> reply_code r = 500) \<or>
       (\<exists>pb. (consults_burn_policy req \<and> \<not> enableBurnAfterTime cfg \<longrightarrow> pb) \<and>
          (\<not> consults_burn_policy req \<longrightarrow> \<not> pb) \<and>
          secrets d' = secrets d @ [\<lparr>secret_id = new_id ev, data = encrypt ev (generate ev (query_options q lengthNum)) (generateKey ev),
                   title = encrypt_title ev (clear_title req) (generateKey ev), maxViews = maxViewsNum,
                   password = None, allowed_ip = None, preventBurn = pb,
                   createdAt = db_now ev, expiresAt = date_now ev + ttlNum * 1000,
                   user_id = request_user_id cn, isPublic = False, ipAddress = []\<rparr>] \<and>
          (reply_code r = 500 \<or>
           r = Ok200 \<lparr>resp_url = shareableUrl cfg cn ev \<lparr>secret_id = new_id ev, data = encrypt ev (generate ev (query_options q lengthNum)) (generateKey ev),
                   title = encrypt_title ev (clear_title req) (generateKey ev), maxViews = maxViewsNum,
                   password = None, allowed_ip = None, preventBurn = pb,
                   createdAt = db_now ev, expiresAt = date_now ev + ttlNum * 1000,
                   user_id = request_user_id cn, isPublic = False, ipAddress = []\<rparr> (generateKey ev),
                      resp_secretId = new_id ev,
                      resp_password = (if shows_password req then Some (generate ev (query_options q lengthNum)) else None),
                      resp_expiresAt = shown_expiry ev req (date_now ev + ttlNum * 1000)\<rparr>))"
      using admitted(8)
    proof (cases rule: try_store_cases)
      case failed
      then show ?thesis by simp
    next
      case (stored pb)
      have policy: "(consults_burn_policy req \<and> \<not> enableBurnAfterTime cfg \<longrightarrow> pb) \<and>
          (\<not> consults_burn_policy req \<longrightarrow> \<not> pb)"
        using stored(1) req by (cases "enableBurnAfterTime cfg") (simp_all add: column_preventBurn_def)
      have row: "new_row ev
         \<lparr>cd_title = None, cd_maxViews = maxViewsNum, cd_preventBurn = Some (JBool (if enableBurnAfterTime cfg then dflt (q_preventBurn q) ''false'' = ''true'' else True)),
          cd_data = encrypt ev (generate ev (query_options q lengthNum)) (generateKey ev),
          cd_user_id = request_user_id cn, cd_expiresAt = date_now ev + ttlNum * 1000,
          cd_ipAddress = []\<rparr> pb
        = \<lparr>secret_id = new_id ev, data = encrypt ev (generate ev (query_options q lengthNum)) (generateKey ev),
                   title = encrypt_title ev (clear_title req) (generateKey ev), maxViews = maxViewsNum,
                   password = None, allowed_ip = None, preventBurn = pb,
                   createdAt = db_now ev, expiresAt = date_now ev + ttlNum * 1000,
                   user_id = request_user_id cn, isPublic = False, ipAddress = []\<rparr>"
        using req by (simp add: new_row_def encrypt_title_None)
      note kept = stored(2,3) [unfolded row]
      show ?thesis
        by (rule disjI2, rule exI [of _ pb]) (use policy kept req in simp)
    qed
    from facts tail have both: "requested_maxViews req = Some maxViewsNum \<and> 1 \<le> maxViewsNum \<and> maxViewsNum \<le> views_cap cfg req \<and>
      requested_ttl req = Some ttlNum \<and> ttlNum \<in> set (VALID_TTL cfg) \<and>
      (consults_burn_policy req \<longrightarrow> enableBurnAfterTime cfg \<or> \<not> preventBurn_is_false req) \<and>
      plaintext ev req = Some (generate ev (query_options q lengthNum)) \<and>
      ((secrets d' = secrets d \<and> reply_code r = 500) \<or>
       (\<exists>pb. (consults_burn_policy req \<and> \<not> enableBurnAfterTime cfg \<longrightarrow> pb) \<and>
          (\<not> consults_burn_policy req \<longrightarrow> \<not> pb) \<and>
          secrets d' = secrets d @ [\<lparr>secret_id = new_id ev, data = encrypt ev (generate ev (query_options q lengthNum)) (generateKey ev),
                   title = encrypt_title ev (clear_title req) (generateKey ev), maxViews = maxViewsNum,
                   password = None, allowed_ip = None, preventBurn = pb,
                   createdAt = db_now ev, expiresAt = date_now ev + ttlNum * 1000,
                   user_id = request_user_id cn, isPublic = False, ipAddress = []\<rparr>] \<and>
          (reply_code r = 500 \<or>
           r = Ok200 \<lparr>resp_url = shareableUrl cfg cn ev \<lparr>secret_id = new_id ev, data = encrypt ev (generate ev (query_options q lengthNum)) (generateKey ev),
                   title = encrypt_title ev (clear_title req) (generateKey ev), maxViews = maxViewsNum,
                   password = None, allowed_ip = None, preventBurn = pb,
                   createdAt = db_now ev, expiresAt = date_now ev + ttlNum * 1000,
                   user_id = request_user_id cn, isPublic = False, ipAddress = []\<rparr> (generateKey ev),
                      resp_secretId = new_id ev,
                      resp_password = (if shows_password req then Some (generate ev (query_options q lengthNum)) else None),
                      resp_expiresAt = shown_expiry ev req (date_now ev + ttlNum * 1000)\<rparr>)))"
      by (elim conjE) (intro conjI; assumption)
    show ?thesis
      by (rule disjI2, rule exI [of _ "maxViewsNum"], rule exI [of _ "ttlNum"], rule exI [of _ "(generate ev (query_options q lengthNum))"])
         (rule both)
  qed
qed

lemma handle_outcome:
  assumes run: "handle cfg cn ev req d = (r, d')"
  shows "(d' = d \<and> reply_code r = 400) \<or>
   (\<exists>m t p. requested_maxViews req = Some m \<and> 1 \<le> m \<and> m \<le> views_cap cfg req \<and>
      requested_ttl req = Some t \<and> t \<in> set (VALID_TTL cfg) \<and>
      (consults_burn_policy req \<longrightarrow> enableBurnAfterTime cfg \<or> \<not> preventBurn_is_false req) \<and>
      plaintext ev req = Some p \<and>
      ((secrets d' = secrets d \<and> reply_code r = 500) \<or>
       (\<exists>pb. (consults_burn_policy req \<and> \<not> enableBurnAfterTime cfg \<longrightarrow> pb) \<and>
          (\<not> consults_burn_policy req \<longrightarrow> \<not> pb) \<and>
          secrets d' = secrets d @ [\<lparr>secret_id = new_id ev, data = encrypt ev p (generateKey ev),
                   title = encrypt_title ev (clear_title req) (generateKey ev), maxViews = m,
                   password = None, allowed_ip = None, preventBurn = pb,
                   createdAt = db_now ev, expiresAt = date_now ev + t * 1000,
                   user_id = request_user_id cn, isPublic = False, ipAddress = []\<rparr>] \<and>
          (reply_code r = 500 \<or>
           r = Ok200 \<lparr>resp_url = shareableUrl cfg cn ev \<lparr>secret_id = new_id ev, data = encrypt ev p (generateKey ev),
                   title = encrypt_title ev (clear_title req) (generateKey ev), maxViews = m,
                   password = None, allowed_ip = None, preventBurn = pb,
                   createdAt = db_now ev, expiresAt = date_now ev + t * 1000,
                   user_id = request_user_id cn, isPublic = False, ipAddress = []\<rparr> (generateKey ev),
                      resp_secretId = new_id ev,
                      resp_password = (if shows_password req then Some p else None),
                      resp_expiresAt = shown_expiry ev req (date_now ev + t * 1000)\<rparr>))))"
proof (cases req)
  case (EncryptPost b)
  from outcome_encrypt_post [OF run this] show ?thesis .
next
  case (EncryptGet q)
  from outcome_encrypt_get [OF run this] show ?thesis .
next
  case (PasswordPostV1 b)
  from outcome_password_post_v1 [OF run this] show ?thesis .
next
  case (PasswordGetV1 q)
  from outcome_password_get_v1 [OF run this] show ?thesis .
next
  case (PasswordPostV2 b)
  from outcome_password_post_v2 [OF run this] show ?thesis .
next
  case (PasswordGetV2 q)
  from outcome_password_get_v2 [OF run this] show ?thesis .
qed

section \<open>The creation endpoints: theorems\<close>

text \<open>Definitions to unfold for evaluating a handler on concrete data.\<close>

lemmas sample_defs = sample_cfg_def sample_conn_def sample_env_def empty_db_def no_body_def
  no_query_def only_password_def
lemmas store_defs = try_store_def secret_create_def statistic_upsert_def new_row_def
  column_preventBurn_def shareableUrl_def baseUrl_def or_else_def startsWith_def encrypt_title_def
lemmas parse_defs = parseInt10_def decimal_def digit_value_def is_digit_def js_whitespace_def
  digits_pattern_def pattern_digits_def enum_bool_def lengthNum_of_def query_options_def
lemmas schema_defs = schema_encrypt_post_def schema_encrypt_get_def schema_generate_post_def
  schema_generate_get_def check_required_def check_enum_def check_maximum_def check_minimum_def
  check_maxLength_def check_minLength_def check_pattern_def check_enum_bool_def
  check_boolean_def coerce_boolean_def coerce_scalar_boolean_def body_showPassword_def

lemma dbCleaner_only_removes:
  assumes "dbCleaner fault now p = Inr p'"
  shows "set (secrets (database p')) \<subseteq> set (secrets (database p))"
  using assms by (cases fault) (auto simp add: dbCleaner_ok dbCleaner_fault)

lemma schema_encrypt_post_policy:
  "schema_encrypt_post (cfg\<lparr>enableBurnAfterTime := x\<rparr>) b = schema_encrypt_post cfg b"
  by (simp add: schema_encrypt_post_def)

lemma schema_generate_post_policy:
  "schema_generate_post (cfg\<lparr>enableBurnAfterTime := x\<rparr>) (maxViewsLimit cfg) v2 b
   = schema_generate_post cfg (maxViewsLimit cfg) v2 b"
  by (simp add: schema_generate_post_def)

lemma ttl_message_policy: "ttl_message (cfg\<lparr>enableBurnAfterTime := x\<rparr>) = ttl_message cfg"
  by (simp add: ttl_message_def)

lemma burn_reply_encrypt_post:
  assumes "encrypt_post cfg cn ev b d = (r, d')" and "\<not> enableBurnAfterTime cfg"
    and "dflt (eb_preventBurn b) False = False"
  shows "r = BadRequest ''Burn after time feature is disabled for this instance'' \<or>
         encrypt_post (cfg\<lparr>enableBurnAfterTime := True\<rparr>) cn ev b d = (r, d)"
  using assms
  by (auto simp add: encrypt_post_def schema_encrypt_post_policy Let_def
           split: option.splits if_splits)

lemma burn_reply_encrypt_get:
  assumes "encrypt_get cfg cn ev q d = (r, d')" and "\<not> enableBurnAfterTime cfg"
    and "dflt (q_preventBurn q) ''false'' \<noteq> ''true''"
  shows "r = BadRequest ''Burn after time feature is disabled for this instance'' \<or>
         encrypt_get (cfg\<lparr>enableBurnAfterTime := True\<rparr>) cn ev q d = (r, d)"
  using assms
  by (auto simp add: encrypt_get_def ttl_message_policy Let_def
           split: option.splits if_splits)

lemma burn_reply_password_post_v2:
  assumes "password_post_v2 cfg cn ev b d = (r, d')" and "\<not> enableBurnAfterTime cfg"
    and "dflt (gb_preventBurn b) (JBool False) = JBool False"
  shows "r = BadRequest ''Burn after time feature is disabled for this instance'' \<or>
         password_post_v2 (cfg\<lparr>enableBurnAfterTime := True\<rparr>) cn ev b d = (r, d)"
  using assms
  by (auto simp add: password_post_v2_def schema_generate_post_policy Let_def
           split: option.splits if_splits)

lemma burn_reply_password_get_v2:
  assumes "password_get_v2 cfg cn ev q d = (r, d')" and "\<not> enableBurnAfterTime cfg"
    and "dflt (q_preventBurn q) ''false'' \<noteq> ''true''"
  shows "r = BadRequest ''Burn after time feature is disabled for this instance'' \<or>
         password_get_v2 (cfg\<lparr>enableBurnAfterTime := True\<rparr>) cn ev q d = (r, d)"
  using assms
  by (auto simp add: password_get_v2_def ttl_message_policy Let_def
           split: option.splits if_splits)

lemma burn_reply:
  assumes run: "handle cfg cn ev req d = (r, d')" and off: "\<not> enableBurnAfterTime cfg"
    and route: "consults_burn_policy req" and burn: "preventBurn_is_false req"
  shows "r = BadRequest ''Burn after time feature is disabled for this instance'' \<or>
         handle (cfg\<lparr>enableBurnAfterTime := True\<rparr>) cn ev req d = (r, d)"
proof (cases req)
  case (EncryptPost b)
  with run burn burn_reply_encrypt_post [OF _ off, of cn ev b d r d'] show ?thesis by simp
next
  case (EncryptGet q)
  with run burn burn_reply_encrypt_get [OF _ off, of cn ev q d r d'] show ?thesis by simp
next
  case (PasswordPostV1 b)
  with route show ?thesis by simp
next
  case (PasswordGetV1 q)
  with route show ?thesis by simp
next
  case (PasswordPostV2 b)
  with run burn burn_reply_password_post_v2 [OF _ off, of cn ev b d r d'] show ?thesis by simp
next
  case (PasswordGetV2 q)
  with run burn burn_reply_password_get_v2 [OF _ off, of cn ev q d r d'] show ?thesis by simp
qed

text \<open>
  Claim C3, as stated, fails: with \<open>enableBurnAfterTime\<close> off, \<open>POST /api/encrypt\<close>
  with the body \<open>{ "password": "hunter2" }\<close> (so \<open>preventBurn\<close> is its default
  \<open>false\<close>) is not admitted with \<open>preventBurn\<close> coerced to true: it is answered 400
  and nothing is stored.
\<close>

theorem burn_policy_counterexample:
  "\<not> enableBurnAfterTime (sample_cfg\<lparr>enableBurnAfterTime := False\<rparr>) \<and>
   handle (sample_cfg\<lparr>enableBurnAfterTime := False\<rparr>) sample_conn sample_env
     (EncryptPost (only_password ''hunter2'')) empty_db
   = (BadRequest ''Burn after time feature is disabled for this instance'', empty_db)"
  by (simp add: encrypt_post_def schema_defs dflt_def Let_def sample_defs trim_def
      js_whitespace_def)

text \<open>
  Claim C3, amended. On the routes whose handler reads the policy (both encrypt routes
  and the second version of both password routes), while \<open>enableBurnAfterTime\<close> is
  off: a request whose \<open>preventBurn\<close> is \<open>false\<close> (given or by default) is answered
  400 and stores nothing, and its reply is either the error
  \<open>Burn after time feature is disabled for this instance\<close> or the reply the same
  request gets when the policy is on (a validation that comes before the policy test
  has refused it); and every row that is stored has \<open>preventBurn = true\<close>.
\<close>

theorem burn_policy_off:
  assumes run: "handle cfg cn ev req d = (r, d')"
    and off: "\<not> enableBurnAfterTime cfg"
    and route: "consults_burn_policy req"
  shows "(preventBurn_is_false req \<longrightarrow>
            d' = d \<and> reply_code r = 400 \<and>
            (r = BadRequest ''Burn after time feature is disabled for this instance'' \<or>
             handle (cfg\<lparr>enableBurnAfterTime := True\<rparr>) cn ev req d = (r, d))) \<and>
         (secrets d' = secrets d \<or>
          (\<exists>s. secrets d' = secrets d @ [s] \<and> preventBurn s \<and> \<not> preventBurn_is_false req))"
proof -
  have slim: "(d' = d \<and> reply_code r = 400) \<or>
      ((consults_burn_policy req \<longrightarrow> enableBurnAfterTime cfg \<or> \<not> preventBurn_is_false req) \<and>
       (secrets d' = secrets d \<or>
        (\<exists>s. secrets d' = secrets d @ [s] \<and>
           (consults_burn_policy req \<and> \<not> enableBurnAfterTime cfg \<longrightarrow> preventBurn s))))"
    using handle_outcome [OF run] by (elim disjE exE conjE) auto
  have reply: "preventBurn_is_false req \<longrightarrow>
      r = BadRequest ''Burn after time feature is disabled for this instance'' \<or>
      handle (cfg\<lparr>enableBurnAfterTime := True\<rparr>) cn ev req d = (r, d)"
    using burn_reply [OF run off route] by blast
  from slim reply off route show ?thesis
    by auto
qed

theorem burn_policy_off_witness:
  "consults_burn_policy (EncryptPost ((only_password ''hunter2'')\<lparr>eb_preventBurn := Some True\<rparr>)) \<and>
   \<not> preventBurn_is_false (EncryptPost ((only_password ''hunter2'')\<lparr>eb_preventBurn := Some True\<rparr>)) \<and>
   map preventBurn (secrets (snd (handle (sample_cfg\<lparr>enableBurnAfterTime := False\<rparr>) sample_conn
     sample_env (EncryptPost ((only_password ''hunter2'')\<lparr>eb_preventBurn := Some True\<rparr>)) empty_db)))
   = [True] \<and>
   preventBurn_is_false (PasswordGetV2 no_query) \<and>
   handle (sample_cfg\<lparr>enableBurnAfterTime := False\<rparr>) sample_conn sample_env
     (PasswordGetV2 no_query) empty_db
   = (BadRequest ''Burn after time feature is disabled for this instance'', empty_db) \<and>
   preventBurn_is_false (EncryptGet (no_query\<lparr>q_password := Some ''hunter2'', q_maxViews := Some ''500''\<rparr>)) \<and>
   handle (sample_cfg\<lparr>enableBurnAfterTime := False\<rparr>) sample_conn sample_env
     (EncryptGet (no_query\<lparr>q_password := Some ''hunter2'', q_maxViews := Some ''500''\<rparr>)) empty_db
   = (BadRequest ''maxViews must be a number between 1 and 100'', empty_db) \<and>
   handle sample_cfg sample_conn sample_env
     (EncryptGet (no_query\<lparr>q_password := Some ''hunter2'', q_maxViews := Some ''500''\<rparr>)) empty_db
   = (BadRequest ''maxViews must be a number between 1 and 100'', empty_db)"
proof -
  let ?cfg = "sample_cfg\<lparr>enableBurnAfterTime := False\<rparr>"
  let ?keep = "EncryptPost ((only_password ''hunter2'')\<lparr>eb_preventBurn := Some True\<rparr>)"
  let ?early = "EncryptGet (no_query\<lparr>q_password := Some ''hunter2'', q_maxViews := Some ''500''\<rparr>)"
  have off: "\<not> enableBurnAfterTime ?cfg"
    by simp
  have on: "?cfg\<lparr>enableBurnAfterTime := True\<rparr> = sample_cfg"
    by (simp add: sample_cfg_def)
  obtain r d' where keep: "handle ?cfg sample_conn sample_env ?keep empty_db = (r, d')"
    by (cases "handle ?cfg sample_conn sample_env ?keep empty_db")
  have stored: "secrets d' \<noteq> secrets empty_db"
    using keep
    by (auto simp add: encrypt_post_def schema_defs dflt_def Let_def sample_defs
        store_defs trim_def js_whitespace_def)
  have route: "consults_burn_policy ?keep" and asks: "\<not> preventBurn_is_false ?keep"
    by (simp_all add: only_password_def dflt_def)
  from burn_policy_off [OF keep off route] stored
  have first: "map preventBurn (secrets d') = [True]"
    by (auto simp add: empty_db_def)
  obtain r2 d2 where burn: "handle ?cfg sample_conn sample_env (PasswordGetV2 no_query) empty_db = (r2, d2)"
    by (cases "handle ?cfg sample_conn sample_env (PasswordGetV2 no_query) empty_db")
  have route2: "consults_burn_policy (PasswordGetV2 no_query)"
    and asks2: "preventBurn_is_false (PasswordGetV2 no_query)"
    by (simp_all add: no_query_def dflt_def)
  have on2: "reply_code (fst (handle sample_cfg sample_conn sample_env (PasswordGetV2 no_query)
      empty_db)) = 200"
    by (simp add: password_get_v2_def schema_defs dflt_def Let_def sample_defs store_defs
        parse_defs generate_failure_def)
  from burn_policy_off [OF burn off route2] asks2 on2
  have second: "d2 = empty_db"
    "r2 = BadRequest ''Burn after time feature is disabled for this instance''"
    unfolding on by auto
  obtain r3 d3 where early: "handle ?cfg sample_conn sample_env ?early empty_db = (r3, d3)"
    by (cases "handle ?cfg sample_conn sample_env ?early empty_db")
  have route3: "consults_burn_policy ?early" and asks3: "preventBurn_is_false ?early"
    by (simp_all add: no_query_def dflt_def)
  have on3: "handle sample_cfg sample_conn sample_env ?early empty_db
      = (BadRequest ''maxViews must be a number between 1 and 100'', empty_db)"
    by (simp add: encrypt_get_def schema_defs dflt_def Let_def sample_defs
        parse_defs trim_def maxViews_message_def show_int_def)
  have off3: "handle ?cfg sample_conn sample_env ?early empty_db
      = (BadRequest ''maxViews must be a number between 1 and 100'', empty_db)"
    by (simp add: encrypt_get_def schema_defs dflt_def Let_def sample_defs
        parse_defs trim_def maxViews_message_def show_int_def)
  from first second keep burn route asks asks2 asks3 on3 off3 show ?thesis
    by simp
qed

text \<open>
  Claim C4, as stated, fails: under \<open>maxViewsLimit = 100\<close> the first version of
  \<open>POST /api/password/generate\<close> admits \<open>maxViews = 500\<close> and stores it; its bound
  is the literal 999 of its schema.
\<close>

theorem maxViews_limit_counterexample:
  "maxViewsLimit sample_cfg = 100 \<and>
   handle sample_cfg sample_conn sample_env (PasswordPostV1 (no_body\<lparr>gb_maxViews := Some 500\<rparr>)) empty_db
   = (Ok200 \<lparr>resp_url = ''http://hemmelig.test/secret/id1#b64(KEY)'', resp_secretId = ''id1'',
             resp_password = Some ''generated-password'', resp_expiresAt = DateValue 1700086400000\<rparr>,
      \<lparr>secrets = [\<lparr>secret_id = ''id1'', data = ''enc(generated-password,KEY)'', title = None,
                    maxViews = 500, password = None, allowed_ip = None, preventBurn = False,
                    createdAt = 1700000000007, expiresAt = 1700086400000, user_id = None,
                    isPublic = False, ipAddress = []\<rparr>], secrets_created = Some 1\<rparr>)"
  by (simp add: password_post_v1_def schema_defs dflt_def Let_def sample_defs store_defs
      DEFAULT_EXPIRATION_def generate_failure_def)

text \<open>
  Claim C4, amended. On every route a row is stored only if the requested \<open>maxViews\<close>
  is an integer from 1 up to the bound of the route, which is \<open>maxViewsLimit\<close> on the
  encrypt routes and the second version of the password routes and 999 on the first
  version of the password routes; the stored \<open>maxViews\<close> is the requested value; a
  request whose \<open>maxViews\<close> is below 1, above the bound or not a number is answered
  400 and stores nothing. A creation request leaves the rows already stored as they
  are, and the sweeper only removes rows.
\<close>

theorem maxViews_bounded_by_route_cap:
  assumes run: "handle cfg cn ev req d = (r, d')"
  shows "(secrets d' = secrets d \<or>
          (\<exists>s m. secrets d' = secrets d @ [s] \<and> requested_maxViews req = Some m \<and>
             maxViews s = m \<and> 1 \<le> m \<and> m \<le> views_cap cfg req)) \<and>
         ((\<forall>m. requested_maxViews req = Some m \<longrightarrow> m < 1 \<or> views_cap cfg req < m) \<longrightarrow>
            d' = d \<and> reply_code r = 400) \<and>
         (\<forall>s \<in> set (secrets d). s \<in> set (secrets d')) \<and>
         (\<forall>p'. dbCleaner fault now p = Inr p' \<longrightarrow>
            set (secrets (database p')) \<subseteq> set (secrets (database p)))"
proof -
  have sweep: "\<forall>p'. dbCleaner fault now p = Inr p' \<longrightarrow>
      set (secrets (database p')) \<subseteq> set (secrets (database p))"
    using dbCleaner_only_removes by blast
  have slim: "(d' = d \<and> reply_code r = 400) \<or>
      (\<exists>m. requested_maxViews req = Some m \<and> 1 \<le> m \<and> m \<le> views_cap cfg req \<and>
         (secrets d' = secrets d \<or> (\<exists>s. secrets d' = secrets d @ [s] \<and> maxViews s = m)))"
    using handle_outcome [OF run] by (elim disjE exE conjE) auto
  from slim sweep show ?thesis
    by auto
qed

theorem maxViews_bounded_by_route_cap_witness:
  "requested_maxViews (EncryptGet (no_query\<lparr>q_password := Some ''hunter2'', q_maxViews := Some ''5''\<rparr>)) = Some 5 \<and>
   map maxViews (secrets (snd (handle sample_cfg sample_conn sample_env
     (EncryptGet (no_query\<lparr>q_password := Some ''hunter2'', q_maxViews := Some ''5''\<rparr>)) empty_db))) = [5] \<and>
   views_cap sample_cfg (EncryptGet (no_query\<lparr>q_password := Some ''hunter2'', q_maxViews := Some ''5''\<rparr>)) = 100 \<and>
   handle sample_cfg sample_conn sample_env
     (EncryptGet (no_query\<lparr>q_password := Some ''hunter2'', q_maxViews := Some ''500''\<rparr>)) empty_db
   = (BadRequest ''maxViews must be a number between 1 and 100'', empty_db)"
proof -
  let ?ok = "EncryptGet (no_query\<lparr>q_password := Some ''hunter2'', q_maxViews := Some ''5''\<rparr>)"
  let ?bad = "EncryptGet (no_query\<lparr>q_password := Some ''hunter2'', q_maxViews := Some ''500''\<rparr>)"
  obtain r d' where ok: "handle sample_cfg sample_conn sample_env ?ok empty_db = (r, d')"
    by (cases "handle sample_cfg sample_conn sample_env ?ok empty_db")
  have stored: "secrets d' \<noteq> secrets empty_db"
    using ok
    by (auto simp add: encrypt_get_def schema_defs dflt_def Let_def sample_defs store_defs
        parse_defs trim_def)
  have req5: "requested_maxViews ?ok = Some 5"
    by (simp add: dflt_def no_query_def parse_defs)
  have cap: "views_cap sample_cfg ?ok = 100"
    by (simp add: sample_cfg_def)
  have e: "secrets empty_db = []"
    by (simp add: empty_db_def)
  from maxViews_bounded_by_route_cap [OF ok, of None 0 sample_proc] stored req5 e
  have first: "map maxViews (secrets d') = [5]"
    by auto
  obtain r2 d2 where bad: "handle sample_cfg sample_conn sample_env ?bad empty_db = (r2, d2)"
    by (cases "handle sample_cfg sample_conn sample_env ?bad empty_db")
  have req500: "requested_maxViews ?bad = Some 500"
    by (simp add: dflt_def no_query_def parse_defs)
  have cap2: "views_cap sample_cfg ?bad = 100"
    by (simp add: sample_cfg_def)
  from maxViews_bounded_by_route_cap [OF bad, of None 0 sample_proc] req500 cap2
  have "d2 = empty_db" and "reply_code r2 = 400"
    by auto
  moreover have "handle sample_cfg sample_conn sample_env ?bad empty_db
      = (BadRequest ''maxViews must be a number between 1 and 100'', empty_db)"
    by (simp add: encrypt_get_def schema_defs dflt_def Let_def sample_defs
        parse_defs trim_def maxViews_message_def show_int_def)
  ultimately show ?thesis
    using first ok req5 cap by simp
qed

text \<open>
  Claim C6. A creation request whose ttl, its own or the default 86400 of a request
  that has none, is not a member of \<open>VALID_TTL\<close> (or is not a number) is answered 400
  and stores nothing, on every route. The row an admitted request stores has
  \<open>expiresAt = Date.now() + ttl * 1000\<close> milliseconds, the ttl being that of the
  request and a member of \<open>VALID_TTL\<close>. A creation request leaves the rows already
  stored as they are, and the sweeper only removes rows.
\<close>

theorem ttl_allow_list_and_expiry:
  assumes run: "handle cfg cn ev req d = (r, d')"
  shows "((\<forall>t. requested_ttl req = Some t \<longrightarrow> t \<notin> set (VALID_TTL cfg)) \<longrightarrow>
            d' = d \<and> reply_code r = 400) \<and>
         (secrets d' = secrets d \<or>
          (\<exists>s t. secrets d' = secrets d @ [s] \<and> requested_ttl req = Some t \<and>
             t \<in> set (VALID_TTL cfg) \<and> expiresAt s = date_now ev + t * 1000)) \<and>
         (\<forall>s \<in> set (secrets d). s \<in> set (secrets d')) \<and>
         (\<forall>p'. dbCleaner fault now p = Inr p' \<longrightarrow>
            set (secrets (database p')) \<subseteq> set (secrets (database p)))"
proof -
  have sweep: "\<forall>p'. dbCleaner fault now p = Inr p' \<longrightarrow>
      set (secrets (database p')) \<subseteq> set (secrets (database p))"
    using dbCleaner_only_removes by blast
  have slim: "(d' = d \<and> reply_code r = 400) \<or>
      (\<exists>t. requested_ttl req = Some t \<and> t \<in> set (VALID_TTL cfg) \<and>
         (secrets d' = secrets d \<or>
          (\<exists>s. secrets d' = secrets d @ [s] \<and> expiresAt s = date_now ev + t * 1000)))"
    using handle_outcome [OF run] by (elim disjE exE conjE) auto
  from slim sweep show ?thesis
    by auto
qed

theorem ttl_allow_list_and_expiry_witness:
  "requested_ttl (EncryptGet (no_query\<lparr>q_password := Some ''hunter2'', q_ttl := Some ''3600''\<rparr>))
     = Some 3600 \<and>
   date_now sample_env = 1700000000000 \<and>
   map expiresAt (secrets (snd (handle sample_cfg sample_conn sample_env
     (EncryptGet (no_query\<lparr>q_password := Some ''hunter2'', q_ttl := Some ''3600''\<rparr>)) empty_db)))
     = [1700003600000] \<and>
   requested_ttl (PasswordPostV2 (no_body\<lparr>gb_ttl := Some 7\<rparr>)) = Some 7 \<and>
   handle sample_cfg sample_conn sample_env (PasswordPostV2 (no_body\<lparr>gb_ttl := Some 7\<rparr>)) empty_db
     = (SchemaError (Violation ''body/ttl'' Enum), empty_db) \<and>
   requested_ttl (EncryptPost (only_password ''hunter2'')) = Some 86400 \<and>
   handle (sample_cfg\<lparr>VALID_TTL := [300, 3600]\<rparr>) sample_conn sample_env
     (EncryptPost (only_password ''hunter2'')) empty_db
     = (SchemaError (Violation ''body/ttl'' Enum), empty_db)"
proof -
  let ?ok = "EncryptGet (no_query\<lparr>q_password := Some ''hunter2'', q_ttl := Some ''3600''\<rparr>)"
  let ?bad = "PasswordPostV2 (no_body\<lparr>gb_ttl := Some 7\<rparr>)"
  let ?none = "EncryptPost (only_password ''hunter2'')"
  let ?short = "sample_cfg\<lparr>VALID_TTL := [300, 3600]\<rparr>"
  obtain r d' where ok: "handle sample_cfg sample_conn sample_env ?ok empty_db = (r, d')"
    by (cases "handle sample_cfg sample_conn sample_env ?ok empty_db")
  have stored: "secrets d' \<noteq> secrets empty_db"
    using ok
    by (auto simp add: encrypt_get_def schema_defs dflt_def Let_def sample_defs store_defs
        parse_defs trim_def)
  have t: "requested_ttl ?ok = Some 3600"
    by (simp add: no_query_def dflt_def parse_defs)
  have now: "date_now sample_env = 1700000000000"
    by (simp add: sample_env_def)
  from ttl_allow_list_and_expiry [OF ok, of None 0 sample_proc] stored t now
  have first: "map expiresAt (secrets d') = [1700003600000]"
    by (auto simp add: empty_db_def)
  obtain r2 d2 where bad: "handle sample_cfg sample_conn sample_env ?bad empty_db = (r2, d2)"
    by (cases "handle sample_cfg sample_conn sample_env ?bad empty_db")
  have t2: "requested_ttl ?bad = Some 7"
    by (simp add: no_body_def dflt_def)
  have out: "7 \<notin> set (VALID_TTL sample_cfg)"
    by (simp add: sample_cfg_def)
  from ttl_allow_list_and_expiry [OF bad, of None 0 sample_proc] t2 out
  have "d2 = empty_db" and "reply_code r2 = 400"
    by auto
  moreover have "handle sample_cfg sample_conn sample_env ?bad empty_db
      = (SchemaError (Violation ''body/ttl'' Enum), empty_db)"
    by (simp add: password_post_v2_def schema_defs dflt_def sample_defs)
  moreover have t3: "requested_ttl ?none = Some 86400"
    by (simp add: only_password_def dflt_def)
  moreover have "handle ?short sample_conn sample_env ?none empty_db
      = (SchemaError (Violation ''body/ttl'' Enum), empty_db)"
    by (simp add: encrypt_post_def schema_defs dflt_def sample_defs)
  ultimately show ?thesis
    using first ok t now t2 by simp
qed

text \<open>
  Claim C2, as stated, fails. The body of \<open>POST /api/encrypt\<close> carries the text
  \<open>hunter2\<close> in the clear; the handler generates the key, encrypts the text with it,
  stores the result and returns the key in the fragment of the url. The first version
  of \<open>POST /api/password/generate\<close> generates the password on the server and returns
  it, in the clear, in the reply.
\<close>

theorem server_handles_plaintext_counterexample:
  "eb_password (only_password ''hunter2'') = Some ''hunter2'' \<and>
   handle sample_cfg sample_conn sample_env (EncryptPost (only_password ''hunter2'')) empty_db
   = (Ok200 \<lparr>resp_url = ''http://hemmelig.test/secret/id1#b64(KEY)'', resp_secretId = ''id1'',
             resp_password = None, resp_expiresAt = SydneyString ''sydney-time''\<rparr>,
      \<lparr>secrets = [\<lparr>secret_id = ''id1'', data = ''enc(hunter2,KEY)'', title = None,
                    maxViews = 1, password = None, allowed_ip = None, preventBurn = False,
                    createdAt = 1700000000007, expiresAt = 1700086400000, user_id = None,
                    isPublic = False, ipAddress = []\<rparr>], secrets_created = Some 1\<rparr>) \<and>
   fst (handle sample_cfg sample_conn sample_env (PasswordPostV1 no_body) empty_db)
   = Ok200 \<lparr>resp_url = ''http://hemmelig.test/secret/id1#b64(KEY)'', resp_secretId = ''id1'',
            resp_password = Some ''generated-password'', resp_expiresAt = DateValue 1700086400000\<rparr>"
  by (simp add: encrypt_post_def password_post_v1_def schema_defs
      dflt_def Let_def sample_defs store_defs trim_def js_whitespace_def
      DEFAULT_EXPIRATION_def generate_failure_def)

text \<open>
  Claim C2, amended. On every creation route under study the server has the text in
  the clear (from the request on the encrypt routes, from \<open>generate\<close> on the password
  routes) and generates the key itself. The row it stores is determined in every
  column: \<open>data\<close> is \<open>encrypt(text, key)\<close>, \<open>title\<close> is \<open>encrypt(title, key)\<close> or
  absent, \<open>password\<close> and \<open>allowed_ip\<close> are null, \<open>ipAddress\<close> is empty, \<open>user_id\<close>
  is that of the session, \<open>maxViews\<close> and \<open>expiresAt\<close> are those requested, \<open>id\<close> and
  \<open>createdAt\<close> come from the store; so the text and the key are in the row only as
  far as \<open>encrypt\<close> puts them there. What it returns with 200 is the url with the
  base64 of the key as its fragment, and the text itself exactly on the first version
  of the password routes and on the second when \<open>showPassword\<close> is set.
\<close>

theorem server_side_encryption:
  assumes run: "handle cfg cn ev req d = (r, d')" and stored: "secrets d' \<noteq> secrets d"
  shows "\<exists>p m t pb. plaintext ev req = Some p \<and> requested_maxViews req = Some m \<and>
           requested_ttl req = Some t \<and>
           secrets d' = secrets d @
             [\<lparr>secret_id = new_id ev, data = encrypt ev p (generateKey ev),
               title = encrypt_title ev (clear_title req) (generateKey ev), maxViews = m,
               password = None, allowed_ip = None, preventBurn = pb,
               createdAt = db_now ev, expiresAt = date_now ev + t * 1000,
               user_id = request_user_id cn, isPublic = False, ipAddress = []\<rparr>] \<and>
           (reply_code r = 500 \<or>
            r = Ok200 \<lparr>resp_url = baseUrl cfg cn @ ''/secret/'' @ new_id ev @ ''#'' @
                                  base64 ev (generateKey ev),
                       resp_secretId = new_id ev,
                       resp_password = (if shows_password req then Some p else None),
                       resp_expiresAt = shown_expiry ev req (date_now ev + t * 1000)\<rparr>)"
  using handle_outcome [OF run] stored
  by (elim disjE exE conjE) (auto simp add: shareableUrl_def)

theorem server_side_encryption_witness:
  "plaintext sample_env (PasswordPostV2 (no_body\<lparr>gb_title := Some ''db root''\<rparr>)) = Some ''generated-password'' \<and>
   handle sample_cfg sample_conn sample_env (PasswordPostV2 (no_body\<lparr>gb_title := Some ''db root''\<rparr>)) empty_db
   = (Ok200 \<lparr>resp_url = ''http://hemmelig.test/secret/id1#b64(KEY)'', resp_secretId = ''id1'',
             resp_password = None, resp_expiresAt = SydneyString ''sydney-time''\<rparr>,
      \<lparr>secrets = [\<lparr>secret_id = ''id1'', data = ''enc(generated-password,KEY)'',
                    title = Some ''enc(db root,KEY)'',
                    maxViews = 1, password = None, allowed_ip = None, preventBurn = False,
                    createdAt = 1700000000007, expiresAt = 1700086400000, user_id = None,
                    isPublic = False, ipAddress = []\<rparr>], secrets_created = Some 1\<rparr>)"
proof -
  let ?req = "PasswordPostV2 (no_body\<lparr>gb_title := Some ''db root''\<rparr>)"
  obtain r d' where run: "handle sample_cfg sample_conn sample_env ?req empty_db = (r, d')"
    by (cases "handle sample_cfg sample_conn sample_env ?req empty_db")
  have ev: "handle sample_cfg sample_conn sample_env ?req empty_db
   = (Ok200 \<lparr>resp_url = ''http://hemmelig.test/secret/id1#b64(KEY)'', resp_secretId = ''id1'',
             resp_password = None, resp_expiresAt = SydneyString ''sydney-time''\<rparr>,
      \<lparr>secrets = [\<lparr>secret_id = ''id1'', data = ''enc(generated-password,KEY)'',
                    title = Some ''enc(db root,KEY)'',
                    maxViews = 1, password = None, allowed_ip = None, preventBurn = False,
                    createdAt = 1700000000007, expiresAt = 1700086400000, user_id = None,
                    isPublic = False, ipAddress = []\<rparr>], secrets_created = Some 1\<rparr>)"
    by (simp add: password_post_v2_def schema_defs dflt_def Let_def sample_defs
        store_defs DEFAULT_EXPIRATION_def generate_failure_def)
  from run ev have stored: "secrets d' \<noteq> secrets empty_db"
    by (auto simp add: empty_db_def)
  from server_side_encryption [OF run stored]
  have "plaintext sample_env ?req = Some ''generated-password''"
    by (auto simp add: sample_env_def body_options_def)
  with ev show ?thesis
    by simp
qed

text \<open>
  Claim C10, as stated, fails. For the body \<open>{}\<close> the first version of
  \<open>POST /api/password/generate\<close> returns the generated password and the second does
  not; for \<open>{ "maxViews": 500 }\<close> under \<open>maxViewsLimit = 100\<close> the first creates a
  secret and the second replies 400; for \<open>{}\<close> with \<open>enableBurnAfterTime\<close> off the
  first creates a secret and the second replies 400; for \<open>{ "showPassword": "maybe" }\<close>
  the first creates a secret and the second replies 400.
\<close>

theorem generate_versions_differ_counterexample:
  "fst (password_post_v1 sample_cfg sample_conn sample_env no_body empty_db)
   = Ok200 \<lparr>resp_url = ''http://hemmelig.test/secret/id1#b64(KEY)'', resp_secretId = ''id1'',
            resp_password = Some ''generated-password'', resp_expiresAt = DateValue 1700086400000\<rparr> \<and>
   fst (password_post_v2 sample_cfg sample_conn sample_env no_body empty_db)
   = Ok200 \<lparr>resp_url = ''http://hemmelig.test/secret/id1#b64(KEY)'', resp_secretId = ''id1'',
            resp_password = None, resp_expiresAt = SydneyString ''sydney-time''\<rparr> \<and>
   reply_code (fst (password_post_v1 sample_cfg sample_conn sample_env
     (no_body\<lparr>gb_maxViews := Some 500\<rparr>) empty_db)) = 200 \<and>
   password_post_v2 sample_cfg sample_conn sample_env (no_body\<lparr>gb_maxViews := Some 500\<rparr>) empty_db
   = (SchemaError (Violation ''body/maxViews'' (Maximum 100)), empty_db) \<and>
   reply_code (fst (password_post_v1 (sample_cfg\<lparr>enableBurnAfterTime := False\<rparr>) sample_conn
     sample_env no_body empty_db)) = 200 \<and>
   password_post_v2 (sample_cfg\<lparr>enableBurnAfterTime := False\<rparr>) sample_conn sample_env no_body empty_db
   = (BadRequest ''Burn after time feature is disabled for this instance'', empty_db) \<and>
   reply_code (fst (password_post_v1 sample_cfg sample_conn sample_env
     (no_body\<lparr>gb_showPassword := Some (JStr ''maybe'')\<rparr>) empty_db)) = 200 \<and>
   password_post_v2 sample_cfg sample_conn sample_env
     (no_body\<lparr>gb_showPassword := Some (JStr ''maybe'')\<rparr>) empty_db
   = (SchemaError (Violation ''body/showPassword'' (Type ''boolean'')), empty_db)"
  by (simp add: password_post_v1_def password_post_v2_def
      schema_defs dflt_def Let_def sample_defs store_defs
      DEFAULT_EXPIRATION_def generate_failure_def)

lemma try_store_replies:
  assumes col: "column_preventBurn (cd_preventBurn cd2) = column_preventBurn (cd_preventBurn cd1)"
    and rest: "cd2 = cd1\<lparr>cd_preventBurn := cd_preventBurn cd2\<rparr>"
    and one: "try_store cfg cn ev k cd1 f respond1 d = (r1, d1)"
    and two: "try_store cfg cn ev k cd2 f respond2 d = (r2, d2)"
  shows "d2 = d1 \<and> reply_code r2 = reply_code r1 \<and> (\<forall>v. r1 \<noteq> SchemaError v) \<and>
         (reply_code r1 \<noteq> 200 \<longrightarrow> r2 = r1) \<and>
         (reply_code r1 = 200 \<longrightarrow>
            (\<exists>s. secrets d1 = secrets d @ [s] \<and>
               r1 = Ok200 (respond1 s (shareableUrl cfg cn ev s k)) \<and>
               r2 = Ok200 (respond2 s (shareableUrl cfg cn ev s k))))"
proof -
  have row: "new_row ev cd2 pb = new_row ev cd1 pb" for pb
    by (subst rest) (simp add: new_row_def)
  from one two col row show ?thesis
    by (auto simp add: try_store_def secret_create_def statistic_upsert_def Let_def
        split: option.splits sum.splits prod.splits)
qed

lemma schema_generate_post_versions:
  assumes caps: "dflt (gb_maxViews b) 1 \<le> 999 \<longleftrightarrow> dflt (gb_maxViews b) 1 \<le> maxViewsLimit cfg"
    and shown: "\<forall>v. gb_showPassword b = Some v \<longrightarrow> coerce_boolean v \<noteq> None"
  shows "schema_generate_post cfg (maxViewsLimit cfg) True b =
         map_option
           (\<lambda>v. if v = Violation ''body/maxViews'' (Maximum 999)
                then Violation ''body/maxViews'' (Maximum (maxViewsLimit cfg)) else v)
           (schema_generate_post cfg 999 False b)"
proof -
  have last: "check_boolean ''body/showPassword'' (gb_showPassword b) = None"
    using shown by (auto simp add: check_boolean_def split: option.splits)
  show ?thesis
    using caps
    by (simp add: schema_generate_post_def last check_maximum_def check_minimum_def
        check_enum_def check_maxLength_def split: option.splits)
qed

text \<open>
  Claim C10, amended. When \<open>enableBurnAfterTime\<close> is on, the body has no \<open>preventBurn\<close>
  or \<open>preventBurn = false\<close>, its \<open>showPassword\<close> is absent or a value the validator
  coerces to a boolean, and the requested \<open>maxViews\<close> is within both bounds (999 and
  \<open>maxViewsLimit\<close>) or within neither, the two versions of
  \<open>POST /api/password/generate\<close> leave the same database and reply with the same
  status. A 400 of the handler and a 500 are the same reply in both. A 400 of the
  schema validation names the same place and keyword in both, except that for
  \<open>maxViews\<close> above the bound the first names the bound 999 and the second
  \<open>maxViewsLimit\<close>. Their 200 replies have the same \<open>url\<close> and \<open>secretId\<close>, and differ
  in that the first always carries the generated password and the \<open>Date\<close> of expiry,
  the second the password only when \<open>showPassword\<close> is true and the expiry as the
  string \<open>formatDateToSydney\<close> makes.
\<close>

theorem generate_versions_agree_when:
  assumes policy: "enableBurnAfterTime cfg"
    and burn: "gb_preventBurn b = None \<or> gb_preventBurn b = Some (JBool False)"
    and shown: "\<forall>v. gb_showPassword b = Some v \<longrightarrow> coerce_boolean v \<noteq> None"
    and caps: "dflt (gb_maxViews b) 1 \<le> 999 \<longleftrightarrow> dflt (gb_maxViews b) 1 \<le> maxViewsLimit cfg"
    and v1: "password_post_v1 cfg cn ev b d = (r1, d1)"
    and v2: "password_post_v2 cfg cn ev b d = (r2, d2)"
  shows "d2 = d1 \<and> reply_code r2 = reply_code r1 \<and>
         (\<forall>v. r1 = SchemaError v \<longrightarrow>
            r2 = SchemaError (if v = Violation ''body/maxViews'' (Maximum 999)
                              then Violation ''body/maxViews'' (Maximum (maxViewsLimit cfg))
                              else v)) \<and>
         (reply_code r1 \<noteq> 200 \<and> (\<forall>v. r1 \<noteq> SchemaError v) \<longrightarrow> r2 = r1) \<and>
         (reply_code r1 = 200 \<longrightarrow>
            (\<exists>s. secrets d1 = secrets d @ [s] \<and>
               r1 = Ok200 \<lparr>resp_url = shareableUrl cfg cn ev s (generateKey ev),
                           resp_secretId = secret_id s,
                           resp_password = Some (generate ev (body_options b)),
                           resp_expiresAt = DateValue (expiresAt s)\<rparr> \<and>
               r2 = Ok200 \<lparr>resp_url = shareableUrl cfg cn ev s (generateKey ev),
                           resp_secretId = secret_id s,
                           resp_password = (if body_showPassword b
                                            then Some (generate ev (body_options b)) else None),
                           resp_expiresAt = SydneyString (formatDateToSydney ev (expiresAt s))\<rparr>))"
proof -
  note schema = schema_generate_post_versions [OF caps shown]
  have pb: "dflt (gb_preventBurn b) (JBool False) = JBool False"
    using burn by (auto simp add: dflt_def)
  show ?thesis
  proof (cases "schema_generate_post cfg 999 False b")
    case (Some v)
    with v1 v2 schema show ?thesis
      by (auto simp add: password_post_v1_def password_post_v2_def)
  next
    case None
    with schema have passes: "schema_generate_post cfg (maxViewsLimit cfg) True b = None"
      by simp
    from schema_generate_post_facts(3,4) [OF passes]
    have views: "1 \<le> dflt (gb_maxViews b) 1" "dflt (gb_maxViews b) 1 \<le> maxViewsLimit cfg"
      by auto
    show ?thesis
    proof (cases "(\<not> dflt (gb_numbers b) True \<and> \<not> dflt (gb_symbols b) True \<and>
                   \<not> dflt (gb_uppercase b) True \<and> \<not> dflt (gb_lowercase b) True) \<or>
                  dflt (gb_length b) 16 < 4 \<or> dflt (gb_length b) 16 > 128")
      case True
      with v1 v2 passes None show ?thesis
        by (auto simp add: password_post_v1_def password_post_v2_def Let_def split: if_splits)
    next
      case False
      let ?key = "generateKey ev"
      let ?text = "generate ev (body_options b)"
      let ?cd1 = "\<lparr>cd_title = encrypt_title ev (gb_title b) ?key,
                   cd_maxViews = dflt (gb_maxViews b) 1, cd_preventBurn = None,
                   cd_data = encrypt ev ?text ?key, cd_user_id = request_user_id cn,
                   cd_expiresAt = date_now ev +
                     (if dflt (gb_ttl b) 86400 \<noteq> 0 then dflt (gb_ttl b) 86400 * 1000
                      else DEFAULT_EXPIRATION),
                   cd_ipAddress = []\<rparr>"
      let ?cd2 = "?cd1\<lparr>cd_preventBurn := Some (JBool False)\<rparr>"
      let ?respond1 = "\<lambda>s shareable.
             \<lparr>resp_url = shareable, resp_secretId = secret_id s, resp_password = Some ?text,
              resp_expiresAt = DateValue (expiresAt s)\<rparr>"
      let ?respond2 = "\<lambda>s shareable.
             \<lparr>resp_url = shareable, resp_secretId = secret_id s,
              resp_password = (if body_showPassword b then Some ?text else None),
              resp_expiresAt = SydneyString (formatDateToSydney ev (expiresAt s))\<rparr>"
      from v1 False None
      have one: "try_store cfg cn ev ?key ?cd1 generate_failure ?respond1 d = (r1, d1)"
        by (simp add: password_post_v1_def Let_def body_options_def split: if_splits)
      from v2 False passes views policy pb
      have two: "try_store cfg cn ev ?key ?cd2 generate_failure ?respond2 d = (r2, d2)"
        by (simp add: password_post_v2_def Let_def body_options_def split: if_splits)
      have col: "column_preventBurn (cd_preventBurn ?cd2) = column_preventBurn (cd_preventBurn ?cd1)"
        by (simp add: column_preventBurn_def)
      have rest: "?cd2 = ?cd1\<lparr>cd_preventBurn := cd_preventBurn ?cd2\<rparr>"
        by simp
      from try_store_replies [OF col rest one two] show ?thesis
        by simp
    qed
  qed
qed

theorem generate_versions_agree_when_witness:
  "enableBurnAfterTime sample_cfg \<and>
   gb_preventBurn (no_body\<lparr>gb_showPassword := Some (JStr ''true''), gb_maxViews := Some 3\<rparr>) = None \<and>
   coerce_boolean (JStr ''true'') = Some True \<and>
   dflt (gb_maxViews (no_body\<lparr>gb_showPassword := Some (JStr ''true''), gb_maxViews := Some 3\<rparr>)) 1 = 3 \<and>
   maxViewsLimit sample_cfg = 100 \<and>
   snd (password_post_v2 sample_cfg sample_conn sample_env
     (no_body\<lparr>gb_showPassword := Some (JStr ''true''), gb_maxViews := Some 3\<rparr>) empty_db)
   = snd (password_post_v1 sample_cfg sample_conn sample_env
     (no_body\<lparr>gb_showPassword := Some (JStr ''true''), gb_maxViews := Some 3\<rparr>) empty_db) \<and>
   map maxViews (secrets (snd (password_post_v1 sample_cfg sample_conn sample_env
     (no_body\<lparr>gb_showPassword := Some (JStr ''true''), gb_maxViews := Some 3\<rparr>) empty_db))) = [3] \<and>
   reply_code (fst (password_post_v1 sample_cfg sample_conn sample_env
     (no_body\<lparr>gb_showPassword := Some (JStr ''true''), gb_maxViews := Some 3\<rparr>) empty_db)) = 200 \<and>
   reply_code (fst (password_post_v2 sample_cfg sample_conn sample_env
     (no_body\<lparr>gb_showPassword := Some (JStr ''true''), gb_maxViews := Some 3\<rparr>) empty_db)) = 200 \<and>
   password_post_v1 sample_cfg sample_conn sample_env (no_body\<lparr>gb_maxViews := Some 1000\<rparr>) empty_db
   = (SchemaError (Violation ''body/maxViews'' (Maximum 999)), empty_db) \<and>
   password_post_v2 sample_cfg sample_conn sample_env (no_body\<lparr>gb_maxViews := Some 1000\<rparr>) empty_db
   = (SchemaError (Violation ''body/maxViews'' (Maximum 100)), empty_db)"
proof -
  let ?b = "no_body\<lparr>gb_showPassword := Some (JStr ''true''), gb_maxViews := Some 3\<rparr>"
  let ?big = "no_body\<lparr>gb_maxViews := Some 1000\<rparr>"
  obtain r1 d1 where v1: "password_post_v1 sample_cfg sample_conn sample_env ?b empty_db = (r1, d1)"
    by (cases "password_post_v1 sample_cfg sample_conn sample_env ?b empty_db")
  obtain r2 d2 where v2: "password_post_v2 sample_cfg sample_conn sample_env ?b empty_db = (r2, d2)"
    by (cases "password_post_v2 sample_cfg sample_conn sample_env ?b empty_db")
  have policy: "enableBurnAfterTime sample_cfg"
    by (simp add: sample_cfg_def)
  have burn: "gb_preventBurn ?b = None \<or> gb_preventBurn ?b = Some (JBool False)"
    by (simp add: no_body_def)
  have co: "coerce_boolean (JStr ''true'') = Some True"
    by (simp add: coerce_boolean_def coerce_scalar_boolean_def)
  have shown: "\<forall>v. gb_showPassword ?b = Some v \<longrightarrow> coerce_boolean v \<noteq> None"
    by (auto simp add: co)
  have three: "dflt (gb_maxViews ?b) 1 = 3"
    by (simp add: dflt_def)
  have limit: "maxViewsLimit sample_cfg = 100"
    by (simp add: sample_cfg_def)
  have caps: "dflt (gb_maxViews ?b) 1 \<le> 999 \<longleftrightarrow> dflt (gb_maxViews ?b) 1 \<le> maxViewsLimit sample_cfg"
    unfolding three limit by simp
  have ev1: "map maxViews (secrets d1) = [3]" "reply_code r1 = 200"
    using v1
    by (auto simp add: password_post_v1_def schema_defs dflt_def Let_def sample_defs
        store_defs DEFAULT_EXPIRATION_def generate_failure_def)
  from generate_versions_agree_when [OF policy burn shown caps v1 v2] ev1
  have same: "d2 = d1" "reply_code r2 = 200"
    by simp_all
  have noburn: "gb_preventBurn ?b = None"
    by (simp add: no_body_def)
  have big1: "password_post_v1 sample_cfg sample_conn sample_env ?big empty_db
      = (SchemaError (Violation ''body/maxViews'' (Maximum 999)), empty_db)"
    by (simp add: password_post_v1_def schema_defs dflt_def sample_defs)
  have big2: "password_post_v2 sample_cfg sample_conn sample_env ?big empty_db
      = (SchemaError (Violation ''body/maxViews'' (Maximum 100)), empty_db)"
    by (simp add: password_post_v2_def schema_defs dflt_def sample_defs)
  from same noburn v1 v2 ev1 policy three limit co big1 big2 show ?thesis
    by simp
qed

section \<open>View consumption: theorems\<close>

lemma how_many_update:
  "i < length xs \<Longrightarrow>
     how_many P (xs[i := v]) + (if P (xs ! i) then 1 else 0)
       = how_many P xs + (if P v then 1 else 0)"
  unfolding how_many_def
proof (induction xs arbitrary: i)
  case Nil
  then show ?case by simp
next
  case (Cons x xs)
  then show ?case by (cases i) auto
qed

lemma list_ex_update:
  "i < length xs \<Longrightarrow> \<not> P (xs ! i) \<Longrightarrow> list_ex P (xs[i := v]) \<longleftrightarrow> list_ex P xs \<or> P v"
proof (induction xs arbitrary: i)
  case Nil
  then show ?case by simp
next
  case (Cons x xs)
  then show ?case by (cases i) auto
qed

lemma consume_inv_fresh: "consume_inv n pb (fresh_secret payload n pb k)"
  by (auto simp add: consume_inv_def fresh_secret_def list_ex_iff how_many_def)

lemma consume_inv_step:
  assumes inv: "consume_inv n pb st"
  shows "consume_inv n pb (consume_step i st)"
proof (cases "i < length (callers st)")
  case False
  with inv show ?thesis by (simp add: consume_step_def)
next
  case True
  note cu = how_many_update [OF True]
  show ?thesis
  proof (cases "callers st ! i")
    case Calling
    have nd: "\<not> denied (callers st ! i)" by (simp add: Calling)
    note lu = list_ex_update [of i "callers st" denied, OF True nd]
    from cu [of holds_payload] cu [of deleting] Calling
    have c: "\<And>v. how_many holds_payload ((callers st)[i := v])
                 = how_many holds_payload (callers st) + (if holds_payload v then 1 else 0)"
         "\<And>v. how_many deleting ((callers st)[i := v])
                 = how_many deleting (callers st) + (if deleting v then 1 else 0)"
      by simp_all
    show ?thesis
    proof (cases "stored_row st")
      case None
      with True Calling
      have step: "consume_step i st = st\<lparr>stored_row := None,
          callers := (callers st)[i := Returned (Deny NotFound)]\<rparr>"
        by (simp add: consume_step_def atomicConsumeView_def)
      from inv None show ?thesis
        by (auto simp add: consume_inv_def Let_def step c lu)
    next
      case (Some r)
      show ?thesis
      proof (cases "remainingViews r > 0")
        case False
        with True Calling Some
        have step: "consume_step i st = st\<lparr>stored_row := Some r,
            callers := (callers st)[i := Returned (Deny Exhausted)]\<rparr>"
          by (simp add: consume_step_def atomicConsumeView_def)
        from inv Some False show ?thesis
          by (auto simp add: consume_inv_def Let_def step c lu)
      next
        case pos: True
        let ?r' = "r\<lparr>remainingViews := remainingViews r - 1\<rparr>"
        from True Calling Some pos
        have step: "consume_step i st = st\<lparr>stored_row := Some ?r',
            callers := (callers st)[i := if remainingViews ?r' = 0 \<and> \<not> preventBurn_v ?r'
                             then Deleting (ciphertext ?r')
                             else Returned (SecretPayload (ciphertext ?r'))]\<rparr>"
          by (simp add: consume_step_def atomicConsumeView_def Let_def)
        from inv Some pos show ?thesis
          by (auto simp add: consume_inv_def Let_def step c lu)
      qed
    qed
  next
    case (Deleting payload)
    have nd: "\<not> denied (callers st ! i)" by (simp add: Deleting)
    note lu = list_ex_update [of i "callers st" denied, OF True nd]
    from cu [of holds_payload "Returned (SecretPayload payload)"]
         cu [of deleting "Returned (SecretPayload payload)"] Deleting
    have c: "how_many holds_payload ((callers st)[i := Returned (SecretPayload payload)])
                 = how_many holds_payload (callers st)"
         "how_many deleting ((callers st)[i := Returned (SecretPayload payload)]) + 1
                 = how_many deleting (callers st)"
      by simp_all
    from True Deleting
    have step: "consume_step i st = st\<lparr>stored_row := None,
        callers := (callers st)[i := Returned (SecretPayload payload)],
        deletions := (if stored_row st \<noteq> None then deletions st + 1 else deletions st)\<rparr>"
      by (simp add: consume_step_def deleteIfExists_def)
    from inv c show ?thesis
      by (auto simp add: consume_inv_def step lu Let_def split: option.splits if_splits)
  next
    case (Returned out)
    with inv True show ?thesis by (simp add: consume_step_def)
  qed
qed

lemma consume_inv_run:
  "consume_inv n pb st \<Longrightarrow> consume_inv n pb (run_schedule sched st)"
  by (induction sched arbitrary: st) (simp_all add: consume_inv_step)

lemma callers_length_step: "length (callers (consume_step i st)) = length (callers st)"
  by (simp add: consume_step_def atomicConsumeView_def deleteIfExists_def Let_def
      split: phase.splits option.splits)

lemma callers_length_run: "length (callers (run_schedule sched st)) = length (callers st)"
  by (induction sched arbitrary: st) (simp_all add: callers_length_step)

lemma succeeded_holds: "how_many succeeded cs \<le> how_many holds_payload cs"
  unfolding how_many_def
proof (induction cs)
  case Nil
  show ?case by simp
next
  case (Cons c cs)
  then show ?case by (cases c rule: succeeded.cases) simp_all
qed

lemma how_many_le_length: "how_many P cs \<le> length cs"
  by (simp add: how_many_def)

lemma all_returned_counts:
  assumes "list_all returned cs"
  shows "how_many holds_payload cs = how_many succeeded cs"
    and "how_many deleting cs = 0"
    and "\<not> list_ex denied cs \<Longrightarrow> how_many succeeded cs = length cs"
  using assms unfolding how_many_def
proof (induction cs)
  case Nil
  {
    case 1 show ?case by simp
  next
    case 2 show ?case by simp
  next
    case 3 show ?case by simp
  }
next
  case (Cons c cs)
  {
    case 1
    with Cons.IH(1) show ?case by (cases c rule: succeeded.cases) simp_all
  next
    case 2
    with Cons.IH(2) show ?case by (cases c rule: succeeded.cases) simp_all
  next
    case 3
    with Cons.IH(3) show ?case by (cases c rule: succeeded.cases) simp_all
  }
qed

lemma denied_not_all_succeeded:
  "list_ex denied cs \<Longrightarrow> how_many succeeded cs < length cs"
  unfolding how_many_def
proof (induction cs)
  case Nil
  then show ?case by simp
next
  case (Cons c cs)
  have lt: "length (filter succeeded cs) < Suc (length cs)"
    by (rule le_imp_less_Suc) (rule length_filter_le)
  from Cons lt show ?case
    by (cases c rule: succeeded.cases) auto
qed

lemma consume_step_other:
  "j \<noteq> i \<Longrightarrow> callers (consume_step i st) ! j = callers st ! j"
  by (simp add: consume_step_def atomicConsumeView_def deleteIfExists_def Let_def
      split: phase.splits option.splits)

lemma consume_step_self:
  "i < length (callers st) \<Longrightarrow>
     calls_left (callers (consume_step i st) ! i) \<le> calls_left (callers st ! i) - 1"
  by (cases "callers st ! i")
     (simp_all add: consume_step_def atomicConsumeView_def deleteIfExists_def Let_def
        split: option.splits)

lemma run_schedule_completes:
  assumes "\<forall>j < length (callers st). calls_left (callers st ! j) \<le> count_list sched j"
  shows "list_all returned (callers (run_schedule sched st))"
  using assms
proof (induction sched arbitrary: st)
  case Nil
  have "returned c" if "calls_left c = 0" for c
    using that by (cases c) simp_all
  with Nil show ?case
    by (simp add: list_all_length)
next
  case (Cons i sched)
  have "\<forall>j < length (callers (consume_step i st)).
          calls_left (callers (consume_step i st) ! j) \<le> count_list sched j"
  proof (intro allI impI)
    fix j
    assume "j < length (callers (consume_step i st))"
    then have j: "j < length (callers st)"
      by (simp add: callers_length_step)
    with Cons.prems have le: "calls_left (callers st ! j) \<le> count_list (i # sched) j"
      by blast
    show "calls_left (callers (consume_step i st) ! j) \<le> count_list sched j"
    proof (cases "j = i")
      case True
      with j le consume_step_self [of i st] show ?thesis by simp
    next
      case False
      with le consume_step_other [of j i st] show ?thesis by simp
    qed
  qed
  from Cons.IH [OF this] show ?case by simp
qed

lemma fair_schedule_completes:
  assumes "\<forall>j < k. 2 \<le> count_list sched j"
  shows "list_all returned (callers (run_schedule sched (fresh_secret payload n pb k)))"
proof (rule run_schedule_completes)
  show "\<forall>j < length (callers (fresh_secret payload n pb k)).
          calls_left (callers (fresh_secret payload n pb k) ! j) \<le> count_list sched j"
    using assms by (simp add: fresh_secret_def)
qed

text \<open>
  Claim C1. For a secret created with \<open>maxViews = n\<close> and \<open>k\<close> concurrent callers of
  \<open>consume\<close> on its id, in every interleaving of their store calls: at no point have
  more than \<open>n\<close> callers received the payload, and the row has been physically deleted
  at most once; and once all callers have returned, exactly \<open>min n k\<close> of them have
  received the payload, and the row has been deleted exactly once if the views were
  used up (\<open>0 < n \<le> k\<close>) and \<open>preventBurn\<close> is not set, and not at all otherwise (it is
  then left to the expiry sweep). All callers have returned after any interleaving that
  gives each of them two turns.
\<close>

theorem consume_at_most_maxViews:
  "successes (run_schedule sched (fresh_secret payload n pb k)) \<le> n \<and>
   deletions (run_schedule sched (fresh_secret payload n pb k)) \<le> 1 \<and>
   (list_all returned (callers (run_schedule sched (fresh_secret payload n pb k))) \<longrightarrow>
      successes (run_schedule sched (fresh_secret payload n pb k)) = min n k \<and>
      deletions (run_schedule sched (fresh_secret payload n pb k))
        = (if 0 < n \<and> n \<le> k \<and> \<not> pb then 1 else 0)) \<and>
   ((\<forall>j < k. 2 \<le> count_list sched j) \<longrightarrow>
      list_all returned (callers (run_schedule sched (fresh_secret payload n pb k))))"
proof -
  let ?st = "run_schedule sched (fresh_secret payload n pb k)"
  let ?cs = "callers ?st"
  have inv: "consume_inv n pb ?st"
    by (rule consume_inv_run) (rule consume_inv_fresh)
  have len: "length ?cs = k"
    by (simp add: callers_length_run fresh_secret_def)
  have holders: "how_many holds_payload ?cs \<le> n"
    using inv by (auto simp add: consume_inv_def Let_def split: option.splits)
  have bound: "successes ?st \<le> n"
    using succeeded_holds [of ?cs] holders by (simp add: successes_def)
  have once: "deletions ?st \<le> 1"
    using inv by (auto simp add: consume_inv_def Let_def split: option.splits)
  have finished: "successes ?st = min n k \<and>
      deletions ?st = (if 0 < n \<and> n \<le> k \<and> \<not> pb then 1 else 0)"
    if all: "list_all returned ?cs"
  proof -
    note cnt = all_returned_counts [OF all]
    show ?thesis
    proof (cases "list_ex denied ?cs")
      case True
      from denied_not_all_succeeded [OF True] len
      have less: "how_many succeeded ?cs < k"
        by simp
      from inv True cnt(1) cnt(2) less show ?thesis
        by (auto simp add: consume_inv_def Let_def successes_def split: option.splits if_splits)
    next
      case False
      from cnt(3) [OF False] len
      have every: "how_many succeeded ?cs = k"
        by simp
      from inv False cnt(1) cnt(2) every show ?thesis
        by (auto simp add: consume_inv_def Let_def successes_def split: option.splits if_splits)
    qed
  qed
  have fair: "list_all returned ?cs" if "\<forall>j < k. 2 \<le> count_list sched j"
    using that by (rule fair_schedule_completes)
  from bound once finished fair show ?thesis by blast
qed

theorem consume_at_most_maxViews_witness:
  "list_all returned (callers (run_schedule [0, 1, 2, 3, 2, 4, 0, 5, 1, 3, 4, 5]
     (fresh_secret ''blob'' 3 False 6))) \<and>
   successes (run_schedule [0, 1, 2, 3, 2, 4, 0, 5, 1, 3, 4, 5] (fresh_secret ''blob'' 3 False 6)) = 3 \<and>
   deletions (run_schedule [0, 1, 2, 3, 2, 4, 0, 5, 1, 3, 4, 5] (fresh_secret ''blob'' 3 False 6)) = 1 \<and>
   callers (run_schedule [0, 1, 2, 3, 2, 4, 0, 5, 1, 3, 4, 5] (fresh_secret ''blob'' 3 False 6))
     = [Returned (SecretPayload ''blob''), Returned (SecretPayload ''blob''),
        Returned (SecretPayload ''blob''), Returned (Deny Exhausted),
        Returned (Deny NotFound), Returned (Deny NotFound)]"
proof -
  have run: "callers (run_schedule [0, 1, 2, 3, 2, 4, 0, 5, 1, 3, 4, 5] (fresh_secret ''blob'' 3 False 6))
     = [Returned (SecretPayload ''blob''), Returned (SecretPayload ''blob''),
        Returned (SecretPayload ''blob''), Returned (Deny Exhausted),
        Returned (Deny NotFound), Returned (Deny NotFound)]"
    by code_simp
  then have all: "list_all returned (callers (run_schedule [0, 1, 2, 3, 2, 4, 0, 5, 1, 3, 4, 5]
     (fresh_secret ''blob'' 3 False 6)))"
    by simp
  from consume_at_most_maxViews [of "[0, 1, 2, 3, 2, 4, 0, 5, 1, 3, 4, 5]" "''blob''" 3 False 6] all run
  show ?thesis
    by simp
qed

end
